theory Spec2Isabelle
  imports Main "HOL-Library.AList"
begin

section \<open>Strings and the external libraries\<close>

text \<open>
  Identifiers (Mongo object ids, e-mail addresses, content addresses, ledger document ids)
  are strings, compared with \<open>===\<close> after \<open>toString()\<close> in the source, so they are
  compared with \<open>=\<close> here. A Node \<open>Buffer\<close> is a list of bytes. Dates are
  milliseconds since the epoch.
\<close>

type_synonym buffer = "char list"

text \<open>
  Node's \<open>crypto\<close> module is not code of this repository. What the services use of it
  is taken as a parameter: the SHA-256 digest written in hexadecimal, the AES-256-GCM
  cipher object (key and additional data in, ciphertext and authentication tag out), the
  decipher object (which throws when the tag does not verify: \<open>None\<close>), and the base64
  codec of \<open>Buffer\<close>.
\<close>

record crypto =
  sha256_hex :: "string \<Rightarrow> string"
  gcm_cipher :: "buffer \<Rightarrow> buffer \<Rightarrow> buffer \<Rightarrow> buffer \<times> buffer"
  gcm_decipher :: "buffer \<Rightarrow> buffer \<Rightarrow> buffer \<Rightarrow> buffer \<Rightarrow> buffer option"
  base64_encode :: "buffer \<Rightarrow> string"
  base64_decode :: "string \<Rightarrow> buffer"

text \<open>
  What a call reads from the clock and from the random generators:
  \<open>Date.now()\<close> / \<open>new Date()\<close>, \<open>crypto.randomBytes(32).toString('hex')\<close>,
  \<open>Math.floor(Math.random() * 1000000)\<close>, \<open>Math.random().toString(36).substr(2, 9)\<close>,
  the key \<open>crypto.randomBytes(32)\<close> and the IV \<open>crypto.randomBytes(16)\<close>, and the
  object id Mongoose gives a new document.
\<close>

record env =
  now :: nat
  randomHex :: string
  randomBlock :: nat
  randomSuffix :: string
  randomKey :: buffer
  randomIv :: buffer
  newObjectId :: string

text \<open>The decimal digits of a number, as \<open>${timestamp}\<close> writes them in a template.\<close>

function string_of_nat :: "nat \<Rightarrow> string" where
  "string_of_nat n =
     (if n < 10 then [''0123456789'' ! n]
      else string_of_nat (n div 10) @ [''0123456789'' ! (n mod 10)])"
  by pat_completeness auto
termination
  by (relation "measure id") auto

declare string_of_nat.simps [simp del]

section \<open>The Document model (models/Document.js)\<close>

record share =
  user :: string
  sharedAt :: nat
  permissions :: string

record document =
  title :: string
  originalName :: string
  mimeType :: string
  size_bytes :: nat
  ipfsHash :: string
  blockchainDocumentId :: string
  owner :: string
  isEncrypted :: bool
  encryptionKey :: "string option"
  sharedWith :: "share list"
  downloadCount :: nat
  lastAccessedAt :: nat
  isActive :: bool

text \<open>
  \<open>sharedWith.find(...)\<close> returns a reference to the first matching subdocument, and
  the source assigns to its fields; \<open>update_first\<close> is that assignment on the list.
\<close>

fun update_first :: "('a \<Rightarrow> bool) \<Rightarrow> ('a \<Rightarrow> 'a) \<Rightarrow> 'a list \<Rightarrow> 'a list" where
  "update_first P f [] = []"
| "update_first P f (x # xs) = (if P x then f x # xs else x # update_first P f xs)"

definition hasAccess :: "document \<Rightarrow> string \<Rightarrow> bool" where
  "hasAccess d userId =
     (if owner d = userId then True
      else list_ex (\<lambda>s. user s = userId) (sharedWith d))"

definition getUserPermission :: "document \<Rightarrow> string \<Rightarrow> string option" where
  "getUserPermission d userId =
     (if owner d = userId then Some ''owner''
      else (case find (\<lambda>s. user s = userId) (sharedWith d) of
              Some sharedEntry \<Rightarrow> Some (permissions sharedEntry)
            | None \<Rightarrow> None))"

definition shareWith :: "document \<Rightarrow> string \<Rightarrow> string \<Rightarrow> nat \<Rightarrow> bool \<times> document" where
  "shareWith d userId perms t =
     (if owner d = userId then (False, d)
      else (case find (\<lambda>s. user s = userId) (sharedWith d) of
              Some existingShare \<Rightarrow>
                if permissions existingShare \<noteq> perms
                then (True, d\<lparr>sharedWith :=
                        update_first (\<lambda>s. user s = userId)
                          (\<lambda>s. s\<lparr>permissions := perms, sharedAt := t\<rparr>) (sharedWith d)\<rparr>)
                else (False, d)
            | None \<Rightarrow>
                (True, d\<lparr>sharedWith := sharedWith d @
                          [\<lparr>user = userId, sharedAt = t, permissions = perms\<rparr>]\<rparr>)))"

definition unshareWith :: "document \<Rightarrow> string \<Rightarrow> bool \<times> document" where
  "unshareWith d userId =
     (let initialLength = length (sharedWith d);
          d' = d\<lparr>sharedWith := filter (\<lambda>s. user s \<noteq> userId) (sharedWith d)\<rparr>
      in (length (sharedWith d') < initialLength, d'))"

section \<open>The simulated ledger (DevBlockchainService)\<close>

record wallet =
  address :: string
  privateKey :: string

record ledger_document =
  ld_ipfsHash :: string
  ld_owner :: string
  ld_metadata :: string
  ld_createdAt :: nat

record dev_blockchain =
  bc_isConnected :: bool
  bc_userWallets :: "string \<rightharpoonup> wallet"
  bc_documents :: "string \<rightharpoonup> ledger_document"
  bc_permissions :: "(string \<times> bool) list"

record add_result =
  ar_documentId :: string
  ar_transactionHash :: string
  ar_blockNumber :: nat
  ar_walletAddress :: string

record access_result =
  xr_transactionHash :: string
  xr_blockNumber :: nat
  xr_targetWalletAddress :: string

record batch_result =
  br_transactionHash :: string
  br_blockNumber :: nat
  br_targetAddresses :: "string list"

record ledger_info =
  li_ipfsHash :: string
  li_owner :: string
  li_createdAt :: nat
  li_metadata :: string

record balance_info =
  bi_balance :: string
  bi_balanceFormatted :: string
  bi_address :: string

text \<open>
  The constructor: connected, with three empty maps. \<open>this.permissions\<close> is a
  JavaScript \<open>Map\<close>, which \<open>getDocumentAccessors\<close> iterates in insertion order:
  it is an association list, \<open>set\<close> is \<open>AList.update\<close> (in place for a key that is
  there, at the end for a new one), \<open>delete\<close> is \<open>AList.delete\<close> and \<open>has\<close> asks
  whether \<open>map_of\<close> finds the key. The other two maps are only read by key.
\<close>

definition DevBlockchainService :: dev_blockchain where
  "DevBlockchainService =
     \<lparr>bc_isConnected = True, bc_userWallets = Map.empty,
      bc_documents = Map.empty, bc_permissions = []\<rparr>"

definition derive_wallet :: "crypto \<Rightarrow> string \<Rightarrow> wallet" where
  "derive_wallet c userId =
     (let seed = sha256_hex c (userId @ ''_wallet_seed'')
      in \<lparr>address = ''0x'' @ take 40 seed, privateKey = seed\<rparr>)"

definition getUserWallet :: "crypto \<Rightarrow> dev_blockchain \<Rightarrow> string \<Rightarrow> wallet \<times> dev_blockchain" where
  "getUserWallet c bc userId =
     (case bc_userWallets bc userId of
        Some w \<Rightarrow> (w, bc)
      | None \<Rightarrow>
          (let w = derive_wallet c userId
           in (w, bc\<lparr>bc_userWallets := (bc_userWallets bc)(userId \<mapsto> w)\<rparr>)))"

definition generateDocumentId :: "crypto \<Rightarrow> string \<Rightarrow> string \<Rightarrow> nat \<Rightarrow> string" where
  "generateDocumentId c userId filename timestamp =
     ''0x'' @ sha256_hex c (userId @ ''-'' @ filename @ ''-'' @ string_of_nat timestamp)"

text \<open>The key of \<open>this.permissions\<close>: the template \<open>documentId:address\<close>.\<close>

definition permission_key :: "string \<Rightarrow> string \<Rightarrow> string" where
  "permission_key documentId addr = documentId @ '':'' @ addr"

text \<open>
  Every method is \<open>if (!this.isConnected) throw\<close> followed by a \<open>try\<close> whose
  \<open>catch\<close> rethrows with a prefixed message. What the body wrote before it threw (the
  wallet cache) stays written. \<open>addDocument\<close> reads the clock twice, for the document
  id and for \<open>createdAt\<close>; both reads are \<open>now e\<close>.
\<close>

definition dev_addDocument ::
  "crypto \<Rightarrow> env \<Rightarrow> dev_blockchain \<Rightarrow> string \<Rightarrow> string \<Rightarrow> string
     \<Rightarrow> (string + add_result) \<times> dev_blockchain" where
  "dev_addDocument c e bc userId ipfs metadata =
     (if \<not> bc_isConnected bc then (Inl ''Dev blockchain service not connected'', bc)
      else
        (let (userWallet, bc1) = getUserWallet c bc userId;
             documentId = generateDocumentId c userId ipfs (now e);
             bc2 = bc1\<lparr>bc_documents := (bc_documents bc1)(documentId \<mapsto>
                     \<lparr>ld_ipfsHash = ipfs, ld_owner = address userWallet,
                      ld_metadata = metadata, ld_createdAt = now e\<rparr>)\<rparr>;
             bc3 = bc2\<lparr>bc_permissions :=
                     AList.update (permission_key documentId (address userWallet)) True
                       (bc_permissions bc2)\<rparr>
         in (Inr \<lparr>ar_documentId = documentId,
                  ar_transactionHash = ''0x'' @ randomHex e,
                  ar_blockNumber = randomBlock e + 15000000,
                  ar_walletAddress = address userWallet\<rparr>, bc3)))"

definition dev_grantAccess ::
  "crypto \<Rightarrow> env \<Rightarrow> dev_blockchain \<Rightarrow> string \<Rightarrow> string \<Rightarrow> string \<Rightarrow> string
     \<Rightarrow> (string + access_result) \<times> dev_blockchain" where
  "dev_grantAccess c e bc ownerUserId documentId targetUserEmail targetUserId =
     (if \<not> bc_isConnected bc then (Inl ''Dev blockchain service not connected'', bc)
      else
        (let (ownerWallet, bc1) = getUserWallet c bc ownerUserId;
             (targetWallet, bc2) = getUserWallet c bc1 targetUserId
         in (case bc_documents bc2 documentId of
               None \<Rightarrow>
                 (Inl (''Failed to grant access on dev blockchain: '' @ ''Document not found''), bc2)
             | Some doc \<Rightarrow>
                 if ld_owner doc \<noteq> address ownerWallet
                 then (Inl (''Failed to grant access on dev blockchain: '' @
                            ''Only document owner can grant access''), bc2)
                 else (Inr \<lparr>xr_transactionHash = ''0x'' @ randomHex e,
                            xr_blockNumber = randomBlock e + 15000000,
                            xr_targetWalletAddress = address targetWallet\<rparr>,
                       bc2\<lparr>bc_permissions :=
                             AList.update (permission_key documentId (address targetWallet)) True
                               (bc_permissions bc2)\<rparr>))))"

definition dev_revokeAccess ::
  "crypto \<Rightarrow> env \<Rightarrow> dev_blockchain \<Rightarrow> string \<Rightarrow> string \<Rightarrow> string
     \<Rightarrow> (string + access_result) \<times> dev_blockchain" where
  "dev_revokeAccess c e bc ownerUserId documentId targetUserId =
     (if \<not> bc_isConnected bc then (Inl ''Dev blockchain service not connected'', bc)
      else
        (let (ownerWallet, bc1) = getUserWallet c bc ownerUserId;
             (targetWallet, bc2) = getUserWallet c bc1 targetUserId
         in (case bc_documents bc2 documentId of
               None \<Rightarrow>
                 (Inl (''Failed to revoke access on dev blockchain: '' @ ''Document not found''), bc2)
             | Some doc \<Rightarrow>
                 if ld_owner doc \<noteq> address ownerWallet
                 then (Inl (''Failed to revoke access on dev blockchain: '' @
                            ''Only document owner can revoke access''), bc2)
                 else (Inr \<lparr>xr_transactionHash = ''0x'' @ randomHex e,
                            xr_blockNumber = randomBlock e + 15000000,
                            xr_targetWalletAddress = address targetWallet\<rparr>,
                       bc2\<lparr>bc_permissions :=
                             AList.delete (permission_key documentId (address targetWallet))
                               (bc_permissions bc2)\<rparr>))))"

definition dev_hasAccess ::
  "crypto \<Rightarrow> dev_blockchain \<Rightarrow> string \<Rightarrow> string \<Rightarrow> (string + bool) \<times> dev_blockchain" where
  "dev_hasAccess c bc userId documentId =
     (if \<not> bc_isConnected bc then (Inl ''Dev blockchain service not connected'', bc)
      else
        (let (userWallet, bc1) = getUserWallet c bc userId;
             hasPermission =
               (map_of (bc_permissions bc1) (permission_key documentId (address userWallet)) \<noteq> None)
         in (Inr hasPermission, bc1)))"

definition dev_getDocument ::
  "crypto \<Rightarrow> dev_blockchain \<Rightarrow> string \<Rightarrow> string \<Rightarrow> (string + ledger_info) \<times> dev_blockchain" where
  "dev_getDocument c bc userId documentId =
     (if \<not> bc_isConnected bc then (Inl ''Dev blockchain service not connected'', bc)
      else
        (let (userWallet, bc1) = getUserWallet c bc userId
         in (case dev_hasAccess c bc1 userId documentId of
               (Inl msg, bc2) \<Rightarrow>
                 (Inl (''Failed to get document from dev blockchain: '' @ msg), bc2)
             | (Inr access, bc2) \<Rightarrow>
                 if \<not> access
                 then (Inl (''Failed to get document from dev blockchain: '' @
                            ''Access denied to document''), bc2)
                 else (case bc_documents bc2 documentId of
                         None \<Rightarrow>
                           (Inl (''Failed to get document from dev blockchain: '' @
                                 ''Document not found''), bc2)
                       | Some doc \<Rightarrow>
                           (Inr \<lparr>li_ipfsHash = ld_ipfsHash doc, li_owner = ld_owner doc,
                                 li_createdAt = ld_createdAt doc,
                                 li_metadata = ld_metadata doc\<rparr>, bc2)))))"

text \<open>\<open>key.split(':')\<close>, of which the loop reads the first two parts.\<close>

fun split_on :: "char \<Rightarrow> string \<Rightarrow> string list" where
  "split_on sep [] = [[]]"
| "split_on sep (x # xs) =
     (if x = sep then [] # split_on sep xs
      else (case split_on sep xs of
              y # ys \<Rightarrow> (x # y) # ys
            | [] \<Rightarrow> [[x]]))"

text \<open>
  One round of the loop over \<open>this.permissions.entries()\<close>. Every key this class
  writes holds a colon; an entry whose key has none has no second part and is passed over.
\<close>

definition accessor_of :: "string \<Rightarrow> string \<Rightarrow> string \<times> bool \<Rightarrow> string list" where
  "accessor_of documentId ownerAddress entry =
     (case split_on CHR '':'' (fst entry) of
        docId # userAddress # _ \<Rightarrow>
          if docId = documentId \<and> snd entry \<and> userAddress \<noteq> ownerAddress
          then [userAddress] else []
      | _ \<Rightarrow> [])"

definition dev_getDocumentAccessors ::
  "crypto \<Rightarrow> dev_blockchain \<Rightarrow> string \<Rightarrow> string
     \<Rightarrow> (string + string list) \<times> dev_blockchain" where
  "dev_getDocumentAccessors c bc ownerUserId documentId =
     (if \<not> bc_isConnected bc then (Inl ''Dev blockchain service not connected'', bc)
      else
        (let (ownerWallet, bc1) = getUserWallet c bc ownerUserId
         in (case bc_documents bc1 documentId of
               None \<Rightarrow>
                 (Inl (''Failed to get document accessors: '' @
                       ''Only document owner can view accessors''), bc1)
             | Some doc \<Rightarrow>
                 if ld_owner doc \<noteq> address ownerWallet
                 then (Inl (''Failed to get document accessors: '' @
                            ''Only document owner can view accessors''), bc1)
                 else (Inr (concat (map (accessor_of documentId (address ownerWallet))
                                     (bc_permissions bc1))), bc1))))"

definition dev_getUserWalletAddress ::
  "crypto \<Rightarrow> dev_blockchain \<Rightarrow> string \<Rightarrow> string \<times> dev_blockchain" where
  "dev_getUserWalletAddress c bc userId =
     (let (w, bc1) = getUserWallet c bc userId in (address w, bc1))"

definition dev_getWalletBalance ::
  "crypto \<Rightarrow> dev_blockchain \<Rightarrow> string \<Rightarrow> balance_info \<times> dev_blockchain" where
  "dev_getWalletBalance c bc userId =
     (let (w, bc1) = getUserWallet c bc userId
      in (\<lparr>bi_balance = ''1000000000000000000'', bi_balanceFormatted = ''1.0'',
           bi_address = address w\<rparr>, bc1))"

definition dev_fundUserWallet :: "env \<Rightarrow> dev_blockchain \<Rightarrow> string \<Rightarrow> nat \<Rightarrow> string \<times> dev_blockchain" where
  "dev_fundUserWallet e bc userAddress amount = (''0x'' @ randomHex e, bc)"

text \<open>
  The loop of \<open>batchGrantAccess\<close> over \<open>targetUserIds\<close>; unlike
  \<open>grantAccess\<close> it looks at neither the document nor its owner.
\<close>

fun batch_loop ::
  "crypto \<Rightarrow> string \<Rightarrow> string list \<Rightarrow> dev_blockchain \<Rightarrow> string list
     \<Rightarrow> string list \<times> dev_blockchain" where
  "batch_loop c documentId [] bc targetAddresses = (targetAddresses, bc)"
| "batch_loop c documentId (userId # rest) bc targetAddresses =
     (let (w, bc1) = getUserWallet c bc userId;
          bc2 = bc1\<lparr>bc_permissions :=
                  AList.update (permission_key documentId (address w)) True (bc_permissions bc1)\<rparr>
      in batch_loop c documentId rest bc2 (targetAddresses @ [address w]))"

definition dev_batchGrantAccess ::
  "crypto \<Rightarrow> env \<Rightarrow> dev_blockchain \<Rightarrow> string \<Rightarrow> string \<Rightarrow> string list
     \<Rightarrow> (string + batch_result) \<times> dev_blockchain" where
  "dev_batchGrantAccess c e bc ownerUserId documentId targetUserIds =
     (if \<not> bc_isConnected bc then (Inl ''Dev blockchain service not connected'', bc)
      else
        (let (ownerWallet, bc1) = getUserWallet c bc ownerUserId;
             (targetAddresses, bc2) = batch_loop c documentId targetUserIds bc1 []
         in (Inr \<lparr>br_transactionHash = ''0x'' @ randomHex e,
                  br_blockNumber = randomBlock e + 15000000,
                  br_targetAddresses = targetAddresses\<rparr>, bc2)))"

text \<open>
  The class has no \<open>contract\<close> property, so the delete route's
  \<open>blockchainService.contract.removeDocument(id)\<close> reads a property of
  \<open>undefined\<close> and throws a TypeError before anything is called.
\<close>

definition dev_contract_removeDocument ::
  "dev_blockchain \<Rightarrow> string \<Rightarrow> (string + unit) \<times> dev_blockchain" where
  "dev_contract_removeDocument bc documentId =
     (Inl ''Cannot read properties of undefined (reading 'removeDocument')'', bc)"

subsection \<open>Histories of calls on the simulated ledger\<close>

datatype dev_call =
    AddDocument string string string
  | GrantAccess string string string string
  | RevokeAccess string string string
  | HasAccess string string
  | GetDocument string string
  | GetDocumentAccessors string string
  | GetUserWalletAddress string
  | GetWalletBalance string
  | FundUserWallet string nat
  | BatchGrantAccess string string "string list"
  | ContractRemoveDocument string

fun dev_step :: "crypto \<Rightarrow> dev_blockchain \<Rightarrow> env \<times> dev_call \<Rightarrow> dev_blockchain" where
  "dev_step c bc (e, AddDocument u h m) = snd (dev_addDocument c e bc u h m)"
| "dev_step c bc (e, GrantAccess u d m t) = snd (dev_grantAccess c e bc u d m t)"
| "dev_step c bc (e, RevokeAccess u d t) = snd (dev_revokeAccess c e bc u d t)"
| "dev_step c bc (e, HasAccess u d) = snd (dev_hasAccess c bc u d)"
| "dev_step c bc (e, GetDocument u d) = snd (dev_getDocument c bc u d)"
| "dev_step c bc (e, GetDocumentAccessors u d) = snd (dev_getDocumentAccessors c bc u d)"
| "dev_step c bc (e, GetUserWalletAddress u) = snd (dev_getUserWalletAddress c bc u)"
| "dev_step c bc (e, GetWalletBalance u) = snd (dev_getWalletBalance c bc u)"
| "dev_step c bc (e, FundUserWallet a n) = snd (dev_fundUserWallet e bc a n)"
| "dev_step c bc (e, BatchGrantAccess u d ts) = snd (dev_batchGrantAccess c e bc u d ts)"
| "dev_step c bc (e, ContractRemoveDocument d) = snd (dev_contract_removeDocument bc d)"

definition dev_run :: "crypto \<Rightarrow> dev_blockchain \<Rightarrow> (env \<times> dev_call) list \<Rightarrow> dev_blockchain" where
  "dev_run c bc history = foldl (dev_step c) bc history"

text \<open>
  A call that takes the permission entry with key \<open>k\<close> away: a \<open>revokeAccess\<close>
  that returns, for a document id and a target whose address (the one the call reports)
  spell that key. A \<open>revokeAccess\<close> that throws deletes nothing. \<open>removal_in\<close> says
  that some call of a history, made in the state the calls before it have left, is one.
\<close>

fun removes_permission :: "crypto \<Rightarrow> dev_blockchain \<Rightarrow> string \<Rightarrow> env \<times> dev_call \<Rightarrow> bool" where
  "removes_permission c bc k (e, RevokeAccess u d t) =
     (case fst (dev_revokeAccess c e bc u d t) of
        Inl msg \<Rightarrow> False
      | Inr r \<Rightarrow> permission_key d (xr_targetWalletAddress r) = k)"
| "removes_permission c bc k (e, other) = False"

fun removal_in ::
  "crypto \<Rightarrow> dev_blockchain \<Rightarrow> string \<Rightarrow> (env \<times> dev_call) list \<Rightarrow> bool" where
  "removal_in c bc k [] = False"
| "removal_in c bc k (x # xs) =
     (removes_permission c bc k x \<or> removal_in c (dev_step c bc x) k xs)"


subsection \<open>Invariants of the simulated ledger\<close>

text \<open>
  The wallet cache only ever holds what the derivation gives, and a cached state is the
  state after \<open>getUserWallet\<close> has run for a user.
\<close>

definition wallets_ok :: "crypto \<Rightarrow> dev_blockchain \<Rightarrow> bool" where
  "wallets_ok c bc = (\<forall>u w. bc_userWallets bc u = Some w \<longrightarrow> w = derive_wallet c u)"

definition cached :: "crypto \<Rightarrow> string \<Rightarrow> dev_blockchain \<Rightarrow> dev_blockchain" where
  "cached c u bc = bc\<lparr>bc_userWallets := (bc_userWallets bc)(u \<mapsto> derive_wallet c u)\<rparr>"

definition reachable_ok :: "crypto \<Rightarrow> dev_blockchain \<Rightarrow> bool" where
  "reachable_ok c bc = (bc_isConnected bc \<and> wallets_ok c bc)"

definition granted :: "crypto \<Rightarrow> string \<Rightarrow> dev_blockchain \<Rightarrow> bool" where
  "granted c k bc =
     (bc_isConnected bc \<and> wallets_ok c bc \<and> map_of (bc_permissions bc) k \<noteq> None)"

section \<open>JavaScript strings\<close>

text \<open>
  \<open>String.prototype.trim\<close>, \<open>toLowerCase\<close>, \<open>includes\<close> and \<open>startsWith\<close>.
  A string here is a list of 8-bit characters, that is, of the code units below 256
  (ASCII and Latin-1). On those, the white space and line terminators that \<open>trim\<close>
  strips are TAB, LF, VT, FF, CR, the space and the no-break space U+00A0, and the
  letters that \<open>toLowerCase\<close> changes are A to Z and the capitals U+00C0 to U+00DE
  except the multiplication sign U+00D7, each moved up by 32. Code units from 256 on
  (among them the white space U+FEFF, U+2028 and the like) are outside these strings.
\<close>

definition is_space :: "char \<Rightarrow> bool" where
  "is_space ch =
     (ch \<in> set [CHR '' '', CHR 0x09, CHR 0x0A, CHR 0x0B, CHR 0x0C, CHR 0x0D, CHR 0xA0])"

definition trim :: "string \<Rightarrow> string" where
  "trim s = rev (dropWhile is_space (rev (dropWhile is_space s)))"

definition lower_char :: "char \<Rightarrow> char" where
  "lower_char ch =
     (case map_of
        (zip (''ABCDEFGHIJKLMNOPQRSTUVWXYZ'' @
          [CHR 0xC0, CHR 0xC1, CHR 0xC2, CHR 0xC3, CHR 0xC4, CHR 0xC5, CHR 0xC6, CHR 0xC7,
           CHR 0xC8, CHR 0xC9, CHR 0xCA, CHR 0xCB, CHR 0xCC, CHR 0xCD, CHR 0xCE, CHR 0xCF,
           CHR 0xD0, CHR 0xD1, CHR 0xD2, CHR 0xD3, CHR 0xD4, CHR 0xD5, CHR 0xD6, CHR 0xD8,
           CHR 0xD9, CHR 0xDA, CHR 0xDB, CHR 0xDC, CHR 0xDD, CHR 0xDE])
          (''abcdefghijklmnopqrstuvwxyz'' @
          [CHR 0xE0, CHR 0xE1, CHR 0xE2, CHR 0xE3, CHR 0xE4, CHR 0xE5, CHR 0xE6, CHR 0xE7,
           CHR 0xE8, CHR 0xE9, CHR 0xEA, CHR 0xEB, CHR 0xEC, CHR 0xED, CHR 0xEE, CHR 0xEF,
           CHR 0xF0, CHR 0xF1, CHR 0xF2, CHR 0xF3, CHR 0xF4, CHR 0xF5, CHR 0xF6, CHR 0xF8,
           CHR 0xF9, CHR 0xFA, CHR 0xFB, CHR 0xFC, CHR 0xFD, CHR 0xFE])) ch of
        Some l \<Rightarrow> l
      | None \<Rightarrow> ch)"

definition toLowerCase :: "string \<Rightarrow> string" where
  "toLowerCase s = map lower_char s"

fun startsWith :: "string \<Rightarrow> string \<Rightarrow> bool" where
  "startsWith s [] = True"
| "startsWith [] (p # ps) = False"
| "startsWith (x # xs) (p # ps) = (x = p \<and> startsWith xs ps)"

fun includes_str :: "string \<Rightarrow> string \<Rightarrow> bool" where
  "includes_str [] p = (p = [])"
| "includes_str (x # xs) p = (startsWith (x # xs) p \<or> includes_str xs p)"

text \<open>\<open>!x\<close> for a request field that may be missing: undefined or the empty string.\<close>

definition falsy :: "string option \<Rightarrow> bool" where
  "falsy v = (v = None \<or> v = Some [])"

section \<open>The service loader (services/index.js)\<close>

record process_env =
  POLYGON_RPC_URL :: "string option"
  PRIVATE_KEY :: "string option"
  IPFS_PROJECT_ID :: "string option"
  IPFS_PROJECT_SECRET :: "string option"
  NODE_ENV :: "string option"

definition hasBlockchainConfig :: "process_env \<Rightarrow> bool" where
  "hasBlockchainConfig pe =
     (\<not> falsy (POLYGON_RPC_URL pe) \<and>
      POLYGON_RPC_URL pe \<noteq> Some ''https://polygon-mumbai.g.alchemy.com/v2/YOUR_API_KEY'' \<and>
      \<not> falsy (PRIVATE_KEY pe) \<and>
      PRIVATE_KEY pe \<noteq> Some ''your_wallet_private_key_for_contract_deployment'')"

definition hasIPFSConfig :: "process_env \<Rightarrow> bool" where
  "hasIPFSConfig pe =
     (\<not> falsy (IPFS_PROJECT_ID pe) \<and>
      IPFS_PROJECT_ID pe \<noteq> Some ''your_infura_ipfs_project_id'' \<and>
      \<not> falsy (IPFS_PROJECT_SECRET pe) \<and>
      IPFS_PROJECT_SECRET pe \<noteq> Some ''your_infura_ipfs_secret'')"

definition isDevelopmentMode :: "process_env \<Rightarrow> bool" where
  "isDevelopmentMode pe = (\<not> hasBlockchainConfig pe \<or> \<not> hasIPFSConfig pe)"

text \<open>
  The two adapters behind their common interface. Each method takes the adapter's state
  and returns the new one; a thrown \<open>Error\<close> is \<open>Inl\<close> of its message. The loader
  exports the simulated ledger when \<open>hasBlockchainConfig\<close> is false and the simulated
  blob store when \<open>hasIPFSConfig\<close> is false, the network-backed ones otherwise; the
  routes are written against the interface, and so is the model.
\<close>

record 'l blockchain_service =
  bs_addDocument :: "env \<Rightarrow> 'l \<Rightarrow> string \<Rightarrow> string \<Rightarrow> string \<Rightarrow> (string + add_result) \<times> 'l"
  bs_grantAccess ::
    "env \<Rightarrow> 'l \<Rightarrow> string \<Rightarrow> string \<Rightarrow> string \<Rightarrow> string \<Rightarrow> (string + access_result) \<times> 'l"
  bs_revokeAccess :: "env \<Rightarrow> 'l \<Rightarrow> string \<Rightarrow> string \<Rightarrow> string \<Rightarrow> (string + access_result) \<times> 'l"
  bs_hasAccess :: "'l \<Rightarrow> string \<Rightarrow> string \<Rightarrow> (string + bool) \<times> 'l"
  bs_getDocumentAccessors :: "'l \<Rightarrow> string \<Rightarrow> string \<Rightarrow> (string + string list) \<times> 'l"
  bs_batchGrantAccess ::
    "env \<Rightarrow> 'l \<Rightarrow> string \<Rightarrow> string \<Rightarrow> string list \<Rightarrow> (string + batch_result) \<times> 'l"
  bs_contract_removeDocument :: "'l \<Rightarrow> string \<Rightarrow> (string + unit) \<times> 'l"

record upload_result =
  ur_ipfsHash :: string
  ur_size :: nat
  ur_encryptionKey :: "string option"

record 'b ipfs_service =
  fs_uploadFile :: "env \<Rightarrow> 'b \<Rightarrow> buffer \<Rightarrow> bool \<Rightarrow> (string + upload_result) \<times> 'b"
  fs_downloadFile :: "'b \<Rightarrow> string \<Rightarrow> string option \<Rightarrow> (string + buffer) \<times> 'b"
  fs_unpinFile :: "'b \<Rightarrow> string \<Rightarrow> (string + bool) \<times> 'b"

text \<open>The object the upload route hands to \<open>JSON.stringify\<close> for the ledger.\<close>

record upload_metadata =
  md_title :: string
  md_description :: string
  md_originalName :: string
  md_mimeType :: string
  md_size :: nat
  md_uploadedAt :: nat

record ('l, 'b) services =
  blockchainService :: "'l blockchain_service"
  ipfsService :: "'b ipfs_service"
  penv :: process_env
  JSON_stringify :: "upload_metadata \<Rightarrow> string"

definition dev_blockchain_service :: "crypto \<Rightarrow> dev_blockchain blockchain_service" where
  "dev_blockchain_service c =
     \<lparr>bs_addDocument = dev_addDocument c,
      bs_grantAccess = dev_grantAccess c,
      bs_revokeAccess = dev_revokeAccess c,
      bs_hasAccess = dev_hasAccess c,
      bs_getDocumentAccessors = dev_getDocumentAccessors c,
      bs_batchGrantAccess = dev_batchGrantAccess c,
      bs_contract_removeDocument = dev_contract_removeDocument\<rparr>"

section \<open>The simulated blob store (DevIPFSService) and the encryption of both adapters\<close>

record encrypt_result =
  encryptedBuffer :: buffer
  key :: string

text \<open>
  \<open>encryptBuffer\<close> and \<open>decryptBuffer\<close> have the same body in \<open>DevIPFSService\<close>
  and in \<open>IPFSService\<close>. The cipher is made from the key alone
  (\<open>createCipher('aes-256-gcm', key)\<close>): the fresh IV is written in front of the
  result and read back, and is not given to the cipher. \<open>subarray\<close> clamps its bounds
  to the buffer, as \<open>take\<close> and \<open>drop\<close> do.
\<close>

definition encryptBuffer :: "crypto \<Rightarrow> env \<Rightarrow> buffer \<Rightarrow> encrypt_result" where
  "encryptBuffer c e buf =
     (let k = randomKey e;
          iv = randomIv e;
          (encrypted, authTag) = gcm_cipher c k ''ipfs-document'' buf
      in \<lparr>encryptedBuffer = iv @ authTag @ encrypted, key = base64_encode c k\<rparr>)"

definition decryptBuffer :: "crypto \<Rightarrow> buffer \<Rightarrow> string \<Rightarrow> string + buffer" where
  "decryptBuffer c encBuffer keyBase64 =
     (let k = base64_decode c keyBase64;
          iv = take 16 encBuffer;
          authTag = take 16 (drop 16 encBuffer);
          encrypted = drop 32 encBuffer
      in (case gcm_decipher c k ''ipfs-document'' authTag encrypted of
            None \<Rightarrow> Inl ''Unsupported state or unable to authenticate data''
          | Some decrypted \<Rightarrow> Inr decrypted))"

text \<open>
  The storage directory is a map from file names to contents.
  \<open>path.join(this.storageDir, ipfsHash)\<close> names the file \<open>ipfsHash\<close> of that
  directory for every hash without a path separator, and such are the hashes that
  \<open>generateFakeIPFSHash\<close> makes (\<open>Qm\<close> and hexadecimal digits) and that the routes
  store and hand back. A hash holding \<open>/\<close>, which \<open>path.join\<close> would resolve as a
  path (\<open>Qm/../Qmabc\<close> names the file \<open>Qmabc\<close>), is looked up here as it is written.
\<close>

record dev_ipfs =
  fs_isConnected :: bool
  fs_files :: "string \<rightharpoonup> buffer"

definition generateFakeIPFSHash :: "crypto \<Rightarrow> buffer \<Rightarrow> string" where
  "generateFakeIPFSHash c fileBuffer = ''Qm'' @ take 44 (sha256_hex c fileBuffer)"

definition dev_uploadFile ::
  "crypto \<Rightarrow> env \<Rightarrow> dev_ipfs \<Rightarrow> buffer \<Rightarrow> bool \<Rightarrow> (string + upload_result) \<times> dev_ipfs" where
  "dev_uploadFile c e fs fileBuffer encrypt =
     (if \<not> fs_isConnected fs then (Inl ''Dev IPFS storage not available'', fs)
      else
        (let (processedBuffer, encKey) =
               (if encrypt
                then (let result = encryptBuffer c e fileBuffer
                      in (encryptedBuffer result, Some (key result)))
                else (fileBuffer, None));
             hash = generateFakeIPFSHash c processedBuffer
         in (Inr \<lparr>ur_ipfsHash = hash, ur_size = length processedBuffer,
                  ur_encryptionKey = encKey\<rparr>,
             fs\<lparr>fs_files := (fs_files fs)(hash \<mapsto> processedBuffer)\<rparr>)))"

definition dev_downloadFile ::
  "crypto \<Rightarrow> dev_ipfs \<Rightarrow> string \<Rightarrow> string option \<Rightarrow> (string + buffer) \<times> dev_ipfs" where
  "dev_downloadFile c fs hash decryptKey =
     (if \<not> fs_isConnected fs then (Inl ''Dev IPFS storage not available'', fs)
      else if hash = [] \<or> \<not> startsWith hash ''Qm''
      then (Inl (''Failed to download file from dev storage: '' @ ''Invalid IPFS hash format''), fs)
      else (case fs_files fs hash of
              None \<Rightarrow>
                (Inl (''Failed to download file from dev storage: '' @
                      ''File not found in dev storage''), fs)
            | Some fileBuffer \<Rightarrow>
               (case decryptKey of
                  None \<Rightarrow> (Inr fileBuffer, fs)
                | Some k \<Rightarrow>
                    if k = [] then (Inr fileBuffer, fs)
                    else (case decryptBuffer c fileBuffer k of
                            Inl msg \<Rightarrow>
                              (Inl (''Failed to download file from dev storage: '' @ msg), fs)
                          | Inr decrypted \<Rightarrow> (Inr decrypted, fs)))))"

definition dev_unpinFile :: "dev_ipfs \<Rightarrow> string \<Rightarrow> (string + bool) \<times> dev_ipfs" where
  "dev_unpinFile fs hash = (Inr True, fs)"

definition DevIPFSService :: dev_ipfs where
  "DevIPFSService = \<lparr>fs_isConnected = True, fs_files = Map.empty\<rparr>"

definition dev_ipfs_service :: "crypto \<Rightarrow> dev_ipfs ipfs_service" where
  "dev_ipfs_service c =
     \<lparr>fs_uploadFile = dev_uploadFile c,
      fs_downloadFile = dev_downloadFile c,
      fs_unpinFile = dev_unpinFile\<rparr>"

section \<open>The stores and the HTTP responses\<close>

record app_user =
  u_id :: string
  u_name :: string
  u_email :: string
  u_isActive :: bool
  u_walletAddress :: "string option"

text \<open>The calls a route makes on the two adapters, in the order it makes them.\<close>

datatype call =
    LedgerAddDocument string string string
  | LedgerGrantAccess string string string string
  | LedgerRevokeAccess string string string
  | LedgerHasAccess string string
  | LedgerGetDocumentAccessors string string
  | LedgerBatchGrantAccess string string "string list"
  | LedgerRemoveDocument string
  | BlobUpload buffer bool
  | BlobDownload string "string option"
  | BlobUnpin string

text \<open>
  The Document collection (by \<open>_id\<close>), the User collection, the states of the two
  adapters, and the adapter calls made so far.
\<close>

record ('l, 'b) world =
  docs :: "(string \<times> document) list"
  users :: "app_user list"
  ledger :: 'l
  blobs :: 'b
  calls :: "call list"

text \<open>The adapter calls a request made: those after the ones made before it.\<close>

definition new_calls :: "('l, 'b) world \<Rightarrow> ('l, 'b) world \<Rightarrow> call list" where
  "new_calls w w' = drop (length (calls w)) (calls w')"

datatype body =
    NoBody
  | HasAccessBody bool
  | AccessBody bool "string option" bool bool bool
  | UploadBody string document add_result
  | DocumentBody string document "string option"
  | FileBody buffer string string
  | SharingBody string string nat "access_result option"
  | RevocationBody string nat access_result
  | BatchBody "string list" "string list" nat nat batch_result
  | SharingInfoBody "share list" "string list"

record response =
  status :: nat
  message :: string
  error_detail :: "string option"
  body :: body

definition json :: "nat \<Rightarrow> string \<Rightarrow> response" where
  "json st msg = \<lparr>status = st, message = msg, error_detail = None, body = NoBody\<rparr>"

text \<open>
  A 500 answer: its \<open>error\<close> field holds the message of what was thrown when
  \<open>NODE_ENV\<close> is \<open>development\<close>, and is absent otherwise.
\<close>

definition json_error :: "('l, 'b) services \<Rightarrow> string \<Rightarrow> string \<Rightarrow> response" where
  "json_error svc msg thrown =
     \<lparr>status = 500, message = msg,
      error_detail = (if NODE_ENV (penv svc) = Some ''development'' then Some thrown else None),
      body = NoBody\<rparr>"

subsection \<open>Database operations\<close>

text \<open>
  The schema marks \<open>encryptionKey\<close> as \<open>select: false\<close>, and no query of the routes
  selects it: a loaded document has no key, and \<open>save\<close> writes back every other path
  and leaves the stored key as it is. Database calls themselves do not fail here (the
  ids are well-formed and the connection is up), except the insertion of a new document,
  which the unique indexes and the \<open>required\<close> validator of the schema can reject.
\<close>

definition findById :: "('l, 'b) world \<Rightarrow> string \<Rightarrow> document option" where
  "findById w documentId =
     map_option (\<lambda>d. d\<lparr>encryptionKey := None\<rparr>) (map_of (docs w) documentId)"

definition save :: "('l, 'b) world \<Rightarrow> string \<Rightarrow> document \<Rightarrow> ('l, 'b) world" where
  "save w documentId d =
     (case map_of (docs w) documentId of
        None \<Rightarrow> w
      | Some stored \<Rightarrow>
          w\<lparr>docs := AList.update documentId (d\<lparr>encryptionKey := encryptionKey stored\<rparr>) (docs w)\<rparr>)"

definition insert_document :: "('l, 'b) world \<Rightarrow> string \<Rightarrow> document \<Rightarrow> string + ('l, 'b) world" where
  "insert_document w newId d =
     (if originalName d = []
      then Inl ''Document validation failed: originalName: Original filename is required''
      else if list_ex (\<lambda>(i, x). i = newId \<or> ipfsHash x = ipfsHash d \<or>
                          blockchainDocumentId x = blockchainDocumentId d) (docs w)
      then Inl ''E11000 duplicate key error''
      else Inr (w\<lparr>docs := docs w @ [(newId, d)]\<rparr>))"

definition save_walletAddress :: "('l, 'b) world \<Rightarrow> string \<Rightarrow> string \<Rightarrow> ('l, 'b) world" where
  "save_walletAddress w userId addr =
     w\<lparr>users := map (\<lambda>u. if u_id u = userId then u\<lparr>u_walletAddress := Some addr\<rparr> else u) (users w)\<rparr>"

subsection \<open>Adapter calls\<close>

definition ledger_addDocument ::
  "('l, 'b) services \<Rightarrow> env \<Rightarrow> ('l, 'b) world \<Rightarrow> string \<Rightarrow> string \<Rightarrow> string
     \<Rightarrow> (string + add_result) \<times> ('l, 'b) world" where
  "ledger_addDocument svc e w userId hash metadata =
     (let (r, l) = bs_addDocument (blockchainService svc) e (ledger w) userId hash metadata
      in (r, w\<lparr>ledger := l, calls := calls w @ [LedgerAddDocument userId hash metadata]\<rparr>))"

definition ledger_grantAccess ::
  "('l, 'b) services \<Rightarrow> env \<Rightarrow> ('l, 'b) world \<Rightarrow> string \<Rightarrow> string \<Rightarrow> string \<Rightarrow> string
     \<Rightarrow> (string + access_result) \<times> ('l, 'b) world" where
  "ledger_grantAccess svc e w ownerId documentId email targetId =
     (let (r, l) = bs_grantAccess (blockchainService svc) e (ledger w) ownerId documentId email targetId
      in (r, w\<lparr>ledger := l,
               calls := calls w @ [LedgerGrantAccess ownerId documentId email targetId]\<rparr>))"

definition ledger_revokeAccess ::
  "('l, 'b) services \<Rightarrow> env \<Rightarrow> ('l, 'b) world \<Rightarrow> string \<Rightarrow> string \<Rightarrow> string
     \<Rightarrow> (string + access_result) \<times> ('l, 'b) world" where
  "ledger_revokeAccess svc e w ownerId documentId targetId =
     (let (r, l) = bs_revokeAccess (blockchainService svc) e (ledger w) ownerId documentId targetId
      in (r, w\<lparr>ledger := l, calls := calls w @ [LedgerRevokeAccess ownerId documentId targetId]\<rparr>))"

definition ledger_hasAccess ::
  "('l, 'b) services \<Rightarrow> ('l, 'b) world \<Rightarrow> string \<Rightarrow> string \<Rightarrow> (string + bool) \<times> ('l, 'b) world" where
  "ledger_hasAccess svc w userId documentId =
     (let (r, l) = bs_hasAccess (blockchainService svc) (ledger w) userId documentId
      in (r, w\<lparr>ledger := l, calls := calls w @ [LedgerHasAccess userId documentId]\<rparr>))"

definition ledger_getDocumentAccessors ::
  "('l, 'b) services \<Rightarrow> ('l, 'b) world \<Rightarrow> string \<Rightarrow> string
     \<Rightarrow> (string + string list) \<times> ('l, 'b) world" where
  "ledger_getDocumentAccessors svc w userId documentId =
     (let (r, l) = bs_getDocumentAccessors (blockchainService svc) (ledger w) userId documentId
      in (r, w\<lparr>ledger := l, calls := calls w @ [LedgerGetDocumentAccessors userId documentId]\<rparr>))"

definition ledger_batchGrantAccess ::
  "('l, 'b) services \<Rightarrow> env \<Rightarrow> ('l, 'b) world \<Rightarrow> string \<Rightarrow> string \<Rightarrow> string list
     \<Rightarrow> (string + batch_result) \<times> ('l, 'b) world" where
  "ledger_batchGrantAccess svc e w ownerId documentId targetIds =
     (let (r, l) = bs_batchGrantAccess (blockchainService svc) e (ledger w) ownerId documentId targetIds
      in (r, w\<lparr>ledger := l,
               calls := calls w @ [LedgerBatchGrantAccess ownerId documentId targetIds]\<rparr>))"

definition ledger_removeDocument ::
  "('l, 'b) services \<Rightarrow> ('l, 'b) world \<Rightarrow> string \<Rightarrow> (string + unit) \<times> ('l, 'b) world" where
  "ledger_removeDocument svc w documentId =
     (let (r, l) = bs_contract_removeDocument (blockchainService svc) (ledger w) documentId
      in (r, w\<lparr>ledger := l, calls := calls w @ [LedgerRemoveDocument documentId]\<rparr>))"

definition blob_uploadFile ::
  "('l, 'b) services \<Rightarrow> env \<Rightarrow> ('l, 'b) world \<Rightarrow> buffer \<Rightarrow> bool
     \<Rightarrow> (string + upload_result) \<times> ('l, 'b) world" where
  "blob_uploadFile svc e w fileBuffer encrypt =
     (let (r, b) = fs_uploadFile (ipfsService svc) e (blobs w) fileBuffer encrypt
      in (r, w\<lparr>blobs := b, calls := calls w @ [BlobUpload fileBuffer encrypt]\<rparr>))"

definition blob_downloadFile ::
  "('l, 'b) services \<Rightarrow> ('l, 'b) world \<Rightarrow> string \<Rightarrow> string option
     \<Rightarrow> (string + buffer) \<times> ('l, 'b) world" where
  "blob_downloadFile svc w hash decryptKey =
     (let (r, b) = fs_downloadFile (ipfsService svc) (blobs w) hash decryptKey
      in (r, w\<lparr>blobs := b, calls := calls w @ [BlobDownload hash decryptKey]\<rparr>))"

definition blob_unpinFile ::
  "('l, 'b) services \<Rightarrow> ('l, 'b) world \<Rightarrow> string \<Rightarrow> (string + bool) \<times> ('l, 'b) world" where
  "blob_unpinFile svc w hash =
     (let (r, b) = fs_unpinFile (ipfsService svc) (blobs w) hash
      in (r, w\<lparr>blobs := b, calls := calls w @ [BlobUnpin hash]\<rparr>))"

section \<open>The sharing routes\<close>

text \<open>
  A route takes the services, what the call reads from clock and random generators, the
  world, the user the authentication middleware put in \<open>req.user\<close>, and the fields of
  the request; it returns the response and the world it leaves. A required field that is
  missing and one that is the empty string are both falsy and take the same branch: both
  are the empty string here. \<open>permissions\<close> has a default, so it is optional.
\<close>

definition validateDocumentOwnership ::
  "('l, 'b) world \<Rightarrow> string \<Rightarrow> string \<Rightarrow> string + document" where
  "validateDocumentOwnership w documentId userId =
     (case findById w documentId of
        None \<Rightarrow> Inl ''Document not found''
      | Some document \<Rightarrow>
          if \<not> isActive document then Inl ''Document not found''
          else if owner document \<noteq> userId then Inl ''Only document owner can manage sharing''
          else Inr document)"

text \<open>The \<open>catch\<close> blocks of the three sharing routes that write.\<close>

definition grant_catch :: "('l, 'b) services \<Rightarrow> string \<Rightarrow> response" where
  "grant_catch svc msg =
     (if msg = ''Document not found'' then json 404 ''Document not found''
      else if msg = ''Only document owner can manage sharing''
      then json 403 ''Only document owner can share documents''
      else json_error svc ''Error sharing document'' msg)"

definition revoke_catch :: "('l, 'b) services \<Rightarrow> string \<Rightarrow> response" where
  "revoke_catch svc msg =
     (if msg = ''Document not found'' then json 404 ''Document not found''
      else if msg = ''Only document owner can manage sharing''
      then json 403 ''Only document owner can revoke access''
      else json_error svc ''Error revoking document access'' msg)"

definition batch_catch :: "('l, 'b) services \<Rightarrow> string \<Rightarrow> response" where
  "batch_catch svc msg =
     (if msg = ''Document not found'' then json 404 ''Document not found''
      else if msg = ''Only document owner can manage sharing''
      then json 403 ''Only document owner can share documents''
      else json_error svc ''Error sharing document with multiple users'' msg)"

text \<open>The end of the grant route, from \<open>document.shareWith\<close> on.\<close>

definition grant_update ::
  "env \<Rightarrow> ('l, 'b) world \<Rightarrow> string \<Rightarrow> document \<Rightarrow> app_user \<Rightarrow> string \<Rightarrow> access_result
     \<Rightarrow> response \<times> ('l, 'b) world" where
  "grant_update e w documentId document targetUser perms blockchainResult =
     (case shareWith document (u_id targetUser) perms (now e) of
        (shareSuccess, document') \<Rightarrow>
          if \<not> shareSuccess then (json 400 ''Failed to share document'', w)
          else (\<lparr>status = 200, message = ''Document shared successfully'', error_detail = None,
                 body = SharingBody (u_id targetUser) perms (now e) (Some blockchainResult)\<rparr>,
                save w documentId document'))"

definition grant ::
  "('l, 'b) services \<Rightarrow> env \<Rightarrow> ('l, 'b) world \<Rightarrow> app_user \<Rightarrow> string \<Rightarrow> string \<Rightarrow> string option
     \<Rightarrow> response \<times> ('l, 'b) world" where
  "grant svc e w reqUser documentId userEmail permissionsField =
     (let perms = (case permissionsField of None \<Rightarrow> ''read'' | Some p \<Rightarrow> p);
          ownerId = u_id reqUser
      in
      if documentId = [] \<or> userEmail = []
      then (json 400 ''Document ID and user email are required'', w)
      else if perms \<notin> set [''read'', ''write'']
      then (json 400 ''Permissions must be either \"read\" or \"write\"'', w)
      else (case validateDocumentOwnership w documentId ownerId of
              Inl msg \<Rightarrow> (grant_catch svc msg, w)
            | Inr document \<Rightarrow>
               (case find (\<lambda>u. u_email u = trim (toLowerCase userEmail) \<and> u_isActive u) (users w) of
                  None \<Rightarrow> (json 404 ''User not found'', w)
                | Some targetUser \<Rightarrow>
                    if u_id targetUser = ownerId
                    then (json 400 ''Cannot share document with yourself'', w)
                    else
                     (case find (\<lambda>s. user s = u_id targetUser) (sharedWith document) of
                        Some existingShare \<Rightarrow>
                          if permissions existingShare \<noteq> perms
                          then (\<lparr>status = 200,
                                 message = ''Document sharing permissions updated successfully'',
                                 error_detail = None,
                                 body = SharingBody (u_id targetUser) perms (now e) None\<rparr>,
                                save w documentId
                                  (document\<lparr>sharedWith :=
                                     update_first (\<lambda>s. user s = u_id targetUser)
                                       (\<lambda>s. s\<lparr>permissions := perms, sharedAt := now e\<rparr>)
                                       (sharedWith document)\<rparr>))
                          else (json 400 ''Document is already shared with this user'', w)
                      | None \<Rightarrow>
                         (case ledger_grantAccess svc e w ownerId (blockchainDocumentId document)
                                 (u_email targetUser) (u_id targetUser) of
                            (Inr blockchainResult, w1) \<Rightarrow>
                              grant_update e w1 documentId document targetUser perms blockchainResult
                          | (Inl blockchainError, w1) \<Rightarrow>
                              if isDevelopmentMode (penv svc)
                              then grant_update e w1 documentId document targetUser perms
                                     \<lparr>xr_transactionHash = ''0xdev_'' @ randomSuffix e,
                                      xr_blockNumber = randomBlock e,
                                      xr_targetWalletAddress = ''0xdev_address''\<rparr>
                              else (grant_catch svc blockchainError, w1))))))"

definition revoke ::
  "('l, 'b) services \<Rightarrow> env \<Rightarrow> ('l, 'b) world \<Rightarrow> app_user \<Rightarrow> string \<Rightarrow> string
     \<Rightarrow> response \<times> ('l, 'b) world" where
  "revoke svc e w reqUser documentId userId =
     (let ownerId = u_id reqUser
      in
      if documentId = [] \<or> userId = []
      then (json 400 ''Document ID and user ID are required'', w)
      else (case validateDocumentOwnership w documentId ownerId of
              Inl msg \<Rightarrow> (revoke_catch svc msg, w)
            | Inr document \<Rightarrow>
               (case find (\<lambda>u. u_id u = userId) (users w) of
                  None \<Rightarrow> (json 404 ''User not found'', w)
                | Some targetUser \<Rightarrow>
                    if \<not> list_ex (\<lambda>s. user s = userId) (sharedWith document)
                    then (json 400 ''Document is not shared with this user'', w)
                    else
                     (case ledger_revokeAccess svc e w ownerId (blockchainDocumentId document) userId of
                        (Inl msg, w1) \<Rightarrow> (revoke_catch svc msg, w1)
                      | (Inr blockchainResult, w1) \<Rightarrow>
                         (case unshareWith document userId of
                            (revokeSuccess, document') \<Rightarrow>
                              if \<not> revokeSuccess
                              then (json 400 ''Failed to revoke document access'', w1)
                              else (\<lparr>status = 200,
                                     message = ''Document access revoked successfully'',
                                     error_detail = None,
                                     body = RevocationBody (u_id targetUser) (now e) blockchainResult\<rparr>,
                                    save w1 documentId document'))))))"

text \<open>The loop of the batch route over \<open>validUsers\<close>.\<close>

fun share_all ::
  "document \<Rightarrow> app_user list \<Rightarrow> string \<Rightarrow> nat \<Rightarrow> app_user list \<Rightarrow> document \<times> app_user list" where
  "share_all d [] perms t results = (d, results)"
| "share_all d (u # us) perms t results =
     (case shareWith d (u_id u) perms t of
        (shareSuccess, d') \<Rightarrow>
          share_all d' us perms t (if shareSuccess then results @ [u] else results))"

text \<open>
  \<open>userEmails\<close> that is missing, not an array or empty takes the first branch: all three
  are the empty list here.
\<close>

definition batch_grant ::
  "('l, 'b) services \<Rightarrow> env \<Rightarrow> ('l, 'b) world \<Rightarrow> app_user \<Rightarrow> string \<Rightarrow> string list
     \<Rightarrow> string option \<Rightarrow> response \<times> ('l, 'b) world" where
  "batch_grant svc e w reqUser documentId userEmails permissionsField =
     (let perms = (case permissionsField of None \<Rightarrow> ''read'' | Some p \<Rightarrow> p);
          ownerId = u_id reqUser
      in
      if documentId = [] \<or> userEmails = []
      then (json 400 ''Document ID and array of user emails are required'', w)
      else if length userEmails > 50
      then (json 400 ''Cannot share with more than 50 users at once'', w)
      else if perms \<notin> set [''read'', ''write'']
      then (json 400 ''Permissions must be either \"read\" or \"write\"'', w)
      else (case validateDocumentOwnership w documentId ownerId of
              Inl msg \<Rightarrow> (batch_catch svc msg, w)
            | Inr document \<Rightarrow>
               (let emails = map (\<lambda>email. trim (toLowerCase email)) userEmails;
                    targetUsers = filter (\<lambda>u. u_email u \<in> set emails \<and> u_isActive u) (users w)
                in
                if targetUsers = [] then (json 404 ''No valid users found'', w)
                else
                 (let validUsers =
                        filter (\<lambda>u. u_id u \<noteq> ownerId \<and>
                                    \<not> list_ex (\<lambda>s. user s = u_id u) (sharedWith document))
                          targetUsers
                  in
                  if validUsers = []
                  then (json 400 ''No new users to share with (already shared or includes owner)'', w)
                  else
                   (case ledger_batchGrantAccess svc e w ownerId (blockchainDocumentId document)
                           (map u_id validUsers) of
                      (Inl msg, w1) \<Rightarrow> (batch_catch svc msg, w1)
                    | (Inr blockchainResult, w1) \<Rightarrow>
                       (case share_all document validUsers perms (now e) [] of
                          (document', results) \<Rightarrow>
                           (let foundEmails = map u_email targetUsers;
                                notFoundEmails = filter (\<lambda>email. email \<notin> set foundEmails) emails
                            in (\<lparr>status = 200,
                                  message = ''Document shared with '' @
                                            string_of_nat (length results) @ '' users successfully'',
                                  error_detail = None,
                                  body = BatchBody (map u_id results) notFoundEmails
                                           (length userEmails) (length results) blockchainResult\<rparr>,
                                save w1 documentId document'))))))))"

text \<open>
  The access check. Its 200 answer has no \<open>message\<close> field. A thrown ledger query is
  caught and leaves \<open>blockchainAccess\<close> at its initial \<open>false\<close>.
\<close>

definition access_check ::
  "('l, 'b) services \<Rightarrow> ('l, 'b) world \<Rightarrow> app_user \<Rightarrow> string \<Rightarrow> response \<times> ('l, 'b) world" where
  "access_check svc w reqUser documentId =
     (let userId = u_id reqUser
      in (case findById w documentId of
            None \<Rightarrow>
              (\<lparr>status = 404, message = ''Document not found'', error_detail = None,
                body = HasAccessBody False\<rparr>, w)
          | Some document \<Rightarrow>
              if \<not> isActive document
              then (\<lparr>status = 404, message = ''Document not found'', error_detail = None,
                     body = HasAccessBody False\<rparr>, w)
              else
               (let databaseAccess = hasAccess document userId
                in (case ledger_hasAccess svc w userId (blockchainDocumentId document) of
                      (r, w1) \<Rightarrow>
                       (let blockchainAccess = (case r of Inl blockchainError \<Rightarrow> False | Inr b \<Rightarrow> b);
                            access = (databaseAccess \<and> blockchainAccess);
                            userPermission = getUserPermission document userId
                        in (\<lparr>status = 200, message = [], error_detail = None,
                              body = AccessBody access userPermission (owner document = userId)
                                       databaseAccess blockchainAccess\<rparr>, w1))))))"

text \<open>
  The sharing details. \<open>populate('owner')\<close> puts \<open>null\<close> for an owner that is not
  in the User collection, and reading \<open>owner._id\<close> then throws.
\<close>

definition sharing_info ::
  "('l, 'b) services \<Rightarrow> ('l, 'b) world \<Rightarrow> app_user \<Rightarrow> string \<Rightarrow> response \<times> ('l, 'b) world" where
  "sharing_info svc w reqUser documentId =
     (let userId = u_id reqUser
      in (case findById w documentId of
            None \<Rightarrow> (json 404 ''Document not found'', w)
          | Some document \<Rightarrow>
              if \<not> isActive document then (json 404 ''Document not found'', w)
              else if find (\<lambda>u. u_id u = owner document) (users w) = None
              then (json 500 ''Error getting document sharing information'', w)
              else if owner document \<noteq> userId
              then (json 403 ''Only document owner can view sharing details'', w)
              else (case ledger_getDocumentAccessors svc w userId (blockchainDocumentId document) of
                      (r, w1) \<Rightarrow>
                       (let blockchainAccessors = (case r of Inl blockchainError \<Rightarrow> [] | Inr as \<Rightarrow> as)
                        in (\<lparr>status = 200, message = [], error_detail = None,
                              body = SharingInfoBody (sharedWith document) blockchainAccessors\<rparr>,
                            w1)))))"

section \<open>The document routes\<close>

text \<open>
  \<open>validateDocumentAccess\<close> loads the document with \<open>populate('owner')\<close>, which
  puts \<open>null\<close> for an owner that is not in the User collection; \<open>hasAccess\<close> (and
  the debug log before it) then reads \<open>owner._id\<close> of \<open>null\<close> and throws.
\<close>

definition validateDocumentAccess ::
  "('l, 'b) world \<Rightarrow> string \<Rightarrow> string \<Rightarrow> string + document" where
  "validateDocumentAccess w documentId userId =
     (case findById w documentId of
        None \<Rightarrow> Inl ''Document not found''
      | Some document \<Rightarrow>
          if \<not> isActive document then Inl ''Document not found''
          else if find (\<lambda>u. u_id u = owner document) (users w) = None
          then Inl ''Cannot read properties of null (reading '_id')''
          else if \<not> hasAccess document userId then Inl ''Access denied''
          else Inr document)"

record uploaded_file =
  file_buffer :: buffer
  originalname :: string
  mimetype :: string
  file_size :: nat

definition upload_catch :: "('l, 'b) services \<Rightarrow> string \<Rightarrow> response" where
  "upload_catch svc msg =
     (if includes_str msg ''File type'' \<and> includes_str msg ''not allowed'' then json 400 msg
      else json_error svc ''Error uploading document'' msg)"

text \<open>
  Upload. \<open>req.file\<close> is what multer left (nothing, or one file it accepted); the
  \<open>encrypt\<close> form field asks for encryption when it is the string \<open>true\<close>. The new
  document takes the schema's defaults and its \<open>trim\<close> of title and original name.
\<close>

definition upload ::
  "('l, 'b) services \<Rightarrow> env \<Rightarrow> ('l, 'b) world \<Rightarrow> app_user \<Rightarrow> uploaded_file option \<Rightarrow> string
     \<Rightarrow> string option \<Rightarrow> string option \<Rightarrow> response \<times> ('l, 'b) world" where
  "upload svc e w reqUser file titleField description encrypt =
     (let userId = u_id reqUser
      in (case file of
            None \<Rightarrow> (json 400 ''No file provided'', w)
          | Some f \<Rightarrow>
              if titleField = [] \<or> trim titleField = []
              then (json 400 ''Document title is required'', w)
              else if length titleField > 100
              then (json 400 ''Title cannot exceed 100 characters'', w)
              else
               (case blob_uploadFile svc e w (file_buffer f) (encrypt = Some ''true'') of
                  (Inl msg, w1) \<Rightarrow> (upload_catch svc msg, w1)
                | (Inr ipfsResult, w1) \<Rightarrow>
                   (let metadata = JSON_stringify svc
                          \<lparr>md_title = trim titleField,
                           md_description = (case description of None \<Rightarrow> [] | Some d \<Rightarrow> trim d),
                           md_originalName = originalname f,
                           md_mimeType = mimetype f,
                           md_size = file_size f,
                           md_uploadedAt = now e\<rparr>
                    in (case ledger_addDocument svc e w1 userId (ur_ipfsHash ipfsResult) metadata of
                          (Inl msg, w2) \<Rightarrow> (upload_catch svc msg, w2)
                        | (Inr blockchainResult, w2) \<Rightarrow>
                           (let document =
                                  \<lparr>title = trim titleField,
                                   originalName = trim (originalname f),
                                   mimeType = mimetype f,
                                   size_bytes = file_size f,
                                   ipfsHash = ur_ipfsHash ipfsResult,
                                   blockchainDocumentId = ar_documentId blockchainResult,
                                   owner = userId,
                                   isEncrypted = (\<not> falsy (ur_encryptionKey ipfsResult)),
                                   encryptionKey =
                                     (if falsy (ur_encryptionKey ipfsResult) then None
                                      else ur_encryptionKey ipfsResult),
                                   sharedWith = [],
                                   downloadCount = 0,
                                   lastAccessedAt = now e,
                                   isActive = True\<rparr>
                            in (case insert_document w2 (newObjectId e) document of
                                  Inl msg \<Rightarrow> (upload_catch svc msg, w2)
                                | Inr w3 \<Rightarrow>
                                   (\<lparr>status = 201, message = ''Document uploaded successfully'',
                                     error_detail = None,
                                     body = UploadBody (newObjectId e) document blockchainResult\<rparr>,
                                    if falsy (u_walletAddress reqUser)
                                    then save_walletAddress w3 userId (ar_walletAddress blockchainResult)
                                    else w3))))))))"

definition get_document ::
  "('l, 'b) services \<Rightarrow> env \<Rightarrow> ('l, 'b) world \<Rightarrow> app_user \<Rightarrow> string \<Rightarrow> response \<times> ('l, 'b) world" where
  "get_document svc e w reqUser documentId =
     (let userId = u_id reqUser
      in (case validateDocumentAccess w documentId userId of
            Inl msg \<Rightarrow>
              (if msg = ''Document not found'' then json 404 ''Document not found''
               else if msg = ''Access denied'' then json 403 ''Access denied''
               else json 500 ''Error fetching document'', w)
          | Inr document \<Rightarrow>
             (let document' = document\<lparr>lastAccessedAt := now e\<rparr>
              in (\<lparr>status = 200, message = [], error_detail = None,
                    body = DocumentBody documentId document' (getUserPermission document' userId)\<rparr>,
                  save w documentId document'))))"

definition download_catch :: "('l, 'b) services \<Rightarrow> string \<Rightarrow> response" where
  "download_catch svc msg =
     (if msg = ''Document not found'' then json 404 ''Document not found''
      else if msg = ''Access denied'' \<or> includes_str msg ''Blockchain access denied''
      then json 403 ''Access denied''
      else json_error svc ''Error downloading document'' msg)"

text \<open>
  Download. The ledger query is not inside a \<open>try\<close> of its own: what it throws goes to
  the route's \<open>catch\<close>. The mode only decides what a ledger answer of \<open>false\<close> does.
\<close>

definition download ::
  "('l, 'b) services \<Rightarrow> env \<Rightarrow> ('l, 'b) world \<Rightarrow> app_user \<Rightarrow> string \<Rightarrow> response \<times> ('l, 'b) world" where
  "download svc e w reqUser documentId =
     (let userId = u_id reqUser
      in (case validateDocumentAccess w documentId userId of
            Inl msg \<Rightarrow> (download_catch svc msg, w)
          | Inr document \<Rightarrow>
             (case ledger_hasAccess svc w userId (blockchainDocumentId document) of
                (Inl msg, w1) \<Rightarrow> (download_catch svc msg, w1)
              | (Inr blockchainAccess, w1) \<Rightarrow>
                  if \<not> blockchainAccess \<and> \<not> isDevelopmentMode (penv svc)
                  then (json 403 ''Blockchain access denied'', w1)
                  else
                   (let downloadOptions =
                          (if isEncrypted document \<and> \<not> falsy (encryptionKey document)
                           then encryptionKey document else None)
                    in (case blob_downloadFile svc w1 (ipfsHash document) downloadOptions of
                          (Inl msg, w2) \<Rightarrow> (download_catch svc msg, w2)
                        | (Inr fileBuffer, w2) \<Rightarrow>
                           (\<lparr>status = 200, message = [], error_detail = None,
                             body = FileBody fileBuffer (mimeType document) (originalName document)\<rparr>,
                            save w2 documentId
                              (document\<lparr>downloadCount := downloadCount document + 1,
                                        lastAccessedAt := now e\<rparr>)))))))"

text \<open>
  Delete. Both adapter calls sit in a \<open>try\<close> whose \<open>catch\<close> only logs, so their
  results are dropped.
\<close>

definition delete_document ::
  "('l, 'b) services \<Rightarrow> ('l, 'b) world \<Rightarrow> app_user \<Rightarrow> string \<Rightarrow> response \<times> ('l, 'b) world" where
  "delete_document svc w reqUser documentId =
     (let userId = u_id reqUser
      in (case findById w documentId of
            None \<Rightarrow> (json 404 ''Document not found'', w)
          | Some document \<Rightarrow>
              if \<not> isActive document then (json 404 ''Document not found'', w)
              else if owner document \<noteq> userId
              then (json 403 ''Only document owner can delete'', w)
              else
               (case ledger_removeDocument svc w (blockchainDocumentId document) of
                  (removed, w1) \<Rightarrow>
                   (case blob_unpinFile svc w1 (ipfsHash document) of
                      (unpinned, w2) \<Rightarrow>
                        (json 200 ''Document deleted successfully'',
                         save w2 documentId (document\<lparr>isActive := False\<rparr>))))))"

definition update_document ::
  "('l, 'b) services \<Rightarrow> ('l, 'b) world \<Rightarrow> app_user \<Rightarrow> string \<Rightarrow> string \<Rightarrow> string option
     \<Rightarrow> response \<times> ('l, 'b) world" where
  "update_document svc w reqUser documentId titleField description =
     (let userId = u_id reqUser
      in
      if titleField = [] \<or> trim titleField = []
      then (json 400 ''Document title is required'', w)
      else if length titleField > 100
      then (json 400 ''Title cannot exceed 100 characters'', w)
      else (case findById w documentId of
              None \<Rightarrow> (json 404 ''Document not found'', w)
            | Some document \<Rightarrow>
                if \<not> isActive document then (json 404 ''Document not found'', w)
                else if owner document \<noteq> userId
                then (json 403 ''Only document owner can update'', w)
                else (json 200 ''Document updated successfully'',
                      save w documentId (document\<lparr>title := trim titleField\<rparr>))))"

section \<open>Requests\<close>

text \<open>
  The requests of the document and sharing routers that reach an adapter or write to the
  Document collection, with the access check and the sharing details. The listing routes
  (\<open>/mine\<close>, \<open>/shared-with-me\<close>, \<open>/my-shares\<close>) only query and are left out. The
  routes of the auth router (register, login, profile) read and write the User collection
  and nothing else: \<open>AuthReq\<close> stands for any of them, by the content it leaves in that
  collection (its answer is not modelled).
\<close>

datatype request =
    UploadReq "uploaded_file option" string "string option" "string option"
  | GetReq string
  | DownloadReq string
  | DeleteReq string
  | UpdateReq string string "string option"
  | GrantReq string string "string option"
  | RevokeReq string string
  | BatchGrantReq string "string list" "string option"
  | SharingInfoReq string
  | AccessCheckReq string
  | AuthReq "app_user list"

fun handle ::
  "('l, 'b) services \<Rightarrow> ('l, 'b) world \<Rightarrow> env \<times> app_user \<times> request \<Rightarrow> response \<times> ('l, 'b) world" where
  "handle svc w (e, u, UploadReq file t d enc) = upload svc e w u file t d enc"
| "handle svc w (e, u, GetReq i) = get_document svc e w u i"
| "handle svc w (e, u, DownloadReq i) = download svc e w u i"
| "handle svc w (e, u, DeleteReq i) = delete_document svc w u i"
| "handle svc w (e, u, UpdateReq i t d) = update_document svc w u i t d"
| "handle svc w (e, u, GrantReq i email p) = grant svc e w u i email p"
| "handle svc w (e, u, RevokeReq i target) = revoke svc e w u i target"
| "handle svc w (e, u, BatchGrantReq i emails p) = batch_grant svc e w u i emails p"
| "handle svc w (e, u, SharingInfoReq i) = sharing_info svc w u i"
| "handle svc w (e, u, AccessCheckReq i) = access_check svc w u i"
| "handle svc w (e, u, AuthReq us) = (json 200 [], w\<lparr>users := us\<rparr>)"

definition run ::
  "('l, 'b) services \<Rightarrow> ('l, 'b) world \<Rightarrow> (env \<times> app_user \<times> request) list \<Rightarrow> ('l, 'b) world" where
  "run svc w reqs = foldl (\<lambda>w' r. snd (handle svc w' r)) w reqs"

section \<open>What a request may write\<close>

text \<open>
  A request about document \<open>i\<close> leaves the Document collection as it is, or rewrites
  the record of \<open>i\<close>, which was stored and active.
\<close>

definition touches :: "string \<Rightarrow> ('l, 'b) world \<Rightarrow> ('l, 'b) world \<Rightarrow> bool" where
  "touches i w w' =
     (docs w' = docs w \<or>
      (\<exists>d x. map_of (docs w) i = Some d \<and> isActive d \<and> docs w' = AList.update i x (docs w)))"

text \<open>A stored document that is inactive stays exactly as it is.\<close>

definition keeps_deleted :: "('l, 'b) world \<Rightarrow> ('l, 'b) world \<Rightarrow> bool" where
  "keeps_deleted w w' =
     (\<forall>j d. map_of (docs w) j = Some d \<and> \<not> isActive d \<longrightarrow> map_of (docs w') j = Some d)"

section \<open>Fixtures\<close>

text \<open>
  A test double for the crypto module (the digest is the identity, the cipher reverses the
  plaintext under a fixed 16-byte tag, base64 is the identity) and a fixed environment.
\<close>

definition test_crypto :: crypto where
  "test_crypto =
     \<lparr>sha256_hex = (\<lambda>s. s),
      gcm_cipher = (\<lambda>key aad plain. (rev plain, replicate 16 CHR ''t'')),
      gcm_decipher = (\<lambda>key aad tag enc. if tag = replicate 16 CHR ''t'' then Some (rev enc) else None),
      base64_encode = (\<lambda>b. b),
      base64_decode = (\<lambda>s. s)\<rparr>"

definition test_env :: env where
  "test_env =
     \<lparr>now = 7, randomHex = ''ab'', randomBlock = 1, randomSuffix = ''xyz'',
      randomKey = replicate 32 CHR ''k'', randomIv = replicate 16 CHR ''i'',
      newObjectId = ''d1''\<rparr>"


text \<open>
  \<open>BlockchainService\<close> before its provider is connected (or without a contract):
  every method starts with \<open>if (!this.isConnected || !this.contract) throw\<close>, and
  \<open>contract\<close> is \<open>null\<close>.
\<close>

definition offline_blockchain_service :: "unit blockchain_service" where
  "offline_blockchain_service =
     \<lparr>bs_addDocument = (\<lambda>e l u h m. (Inl ''Blockchain service not connected'', l)),
      bs_grantAccess = (\<lambda>e l u d m t. (Inl ''Blockchain service not connected'', l)),
      bs_revokeAccess = (\<lambda>e l u d t. (Inl ''Blockchain service not connected'', l)),
      bs_hasAccess = (\<lambda>l u d. (Inl ''Blockchain service not connected'', l)),
      bs_getDocumentAccessors = (\<lambda>l u d. (Inl ''Blockchain service not connected'', l)),
      bs_batchGrantAccess = (\<lambda>e l u d ts. (Inl ''Blockchain service not connected'', l)),
      bs_contract_removeDocument =
        (\<lambda>l d. (Inl ''Cannot read properties of null (reading 'removeDocument')'', l))\<rparr>"

definition dev_penv :: process_env where
  "dev_penv =
     \<lparr>POLYGON_RPC_URL = None, PRIVATE_KEY = None, IPFS_PROJECT_ID = None,
      IPFS_PROJECT_SECRET = None, NODE_ENV = Some ''development''\<rparr>"

definition prod_penv :: process_env where
  "prod_penv =
     \<lparr>POLYGON_RPC_URL = Some ''https://rpc.example'', PRIVATE_KEY = Some ''0xkey'',
      IPFS_PROJECT_ID = Some ''project'', IPFS_PROJECT_SECRET = Some ''secret'',
      NODE_ENV = Some ''production''\<rparr>"

text \<open>Ledger credentials without blob-store credentials: still development mode.\<close>

definition mixed_penv :: process_env where
  "mixed_penv =
     \<lparr>POLYGON_RPC_URL = Some ''https://rpc.example'', PRIVATE_KEY = Some ''0xkey'',
      IPFS_PROJECT_ID = None, IPFS_PROJECT_SECRET = None,
      NODE_ENV = Some ''production''\<rparr>"

definition test_stringify :: "upload_metadata \<Rightarrow> string" where
  "test_stringify m = md_title m"

definition dev_services :: "(dev_blockchain, dev_ipfs) services" where
  "dev_services =
     \<lparr>blockchainService = dev_blockchain_service test_crypto,
      ipfsService = dev_ipfs_service test_crypto,
      penv = dev_penv, JSON_stringify = test_stringify\<rparr>"

definition offline_services :: "process_env \<Rightarrow> (unit, dev_ipfs) services" where
  "offline_services pe =
     \<lparr>blockchainService = offline_blockchain_service,
      ipfsService = dev_ipfs_service test_crypto,
      penv = pe, JSON_stringify = test_stringify\<rparr>"

definition alice :: app_user where
  "alice = \<lparr>u_id = ''alice'', u_name = ''Alice'', u_email = ''alice@x.org'',
            u_isActive = True, u_walletAddress = None\<rparr>"

definition bob :: app_user where
  "bob = \<lparr>u_id = ''bob'', u_name = ''Bob'', u_email = ''bob@x.org'',
          u_isActive = True, u_walletAddress = None\<rparr>"

definition carol :: app_user where
  "carol = \<lparr>u_id = ''carol'', u_name = ''Carol'', u_email = ''carol@x.org'',
            u_isActive = True, u_walletAddress = None\<rparr>"

text \<open>A document of Alice's, shared with Bob for reading.\<close>

definition report :: document where
  "report =
     \<lparr>title = ''report'', originalName = ''report.pdf'', mimeType = ''application/pdf'',
      size_bytes = 3, ipfsHash = ''Qmabc'', blockchainDocumentId = ''0xalice-Qmabc-7'',
      owner = ''alice'', isEncrypted = False, encryptionKey = None,
      sharedWith = [\<lparr>user = ''bob'', sharedAt = 5, permissions = ''read''\<rparr>],
      downloadCount = 0, lastAccessedAt = 5, isActive = True\<rparr>"

definition test_world :: "'l \<Rightarrow> ('l, dev_ipfs) world" where
  "test_world l =
     \<lparr>docs = [(''d1'', report)], users = [alice, bob, carol], ledger = l,
      blobs = \<lparr>fs_isConnected = True, fs_files = [''Qmabc'' \<mapsto> ''abc'']\<rparr>, calls = []\<rparr>"

definition notes_file :: uploaded_file where
  "notes_file = \<lparr>file_buffer = ''xyz'', originalname = ''notes.txt'', mimetype = ''text/plain'',
                 file_size = 3\<rparr>"

text \<open>The simulated blob store whose storage directory could not be made.\<close>

definition unavailable_blobs :: dev_ipfs where
  "unavailable_blobs = \<lparr>fs_isConnected = False, fs_files = Map.empty\<rparr>"

text \<open>A ledger adapter that is reachable and answers \<open>hasAccess\<close> with false.\<close>

definition refusing_blockchain_service :: "unit blockchain_service" where
  "refusing_blockchain_service =
     offline_blockchain_service\<lparr>bs_hasAccess := (\<lambda>l u d. (Inr False, l))\<rparr>"

definition refusing_services :: "process_env \<Rightarrow> (unit, dev_ipfs) services" where
  "refusing_services pe =
     \<lparr>blockchainService = refusing_blockchain_service,
      ipfsService = dev_ipfs_service test_crypto,
      penv = pe, JSON_stringify = test_stringify\<rparr>"

text \<open>
  \<open>IPFSService\<close> without a client: its methods start with
  \<open>if (!this.isConnected || !this.client) throw\<close>.
\<close>

definition offline_ipfs_service :: "unit ipfs_service" where
  "offline_ipfs_service =
     \<lparr>fs_uploadFile = (\<lambda>e b buf enc. (Inl ''IPFS client not connected'', b)),
      fs_downloadFile = (\<lambda>b h k. (Inl ''IPFS client not connected'', b)),
      fs_unpinFile = (\<lambda>b h. (Inl ''IPFS client not connected'', b))\<rparr>"

definition all_offline_services :: "(unit, unit) services" where
  "all_offline_services =
     \<lparr>blockchainService = offline_blockchain_service,
      ipfsService = offline_ipfs_service,
      penv = prod_penv, JSON_stringify = test_stringify\<rparr>"

definition offline_world :: "(unit, unit) world" where
  "offline_world =
     \<lparr>docs = [(''d1'', report)], users = [alice, bob, carol], ledger = (), blobs = (),
      calls = []\<rparr>"

text \<open>The simulated ledger after Alice's upload of the report has been registered on it.\<close>

definition registered_ledger :: dev_blockchain where
  "registered_ledger =
     snd (dev_addDocument test_crypto test_env DevBlockchainService ''alice'' ''Qmabc'' ''report'')"

definition test_env2 :: env where
  "test_env2 = test_env\<lparr>newObjectId := ''d2''\<rparr>"

section \<open>Properties\<close>

subsection \<open>The simulated ledger\<close>


lemma getUserWallet_ok:
  "wallets_ok c bc \<Longrightarrow> getUserWallet c bc u = (derive_wallet c u, cached c u bc)"
  by (auto simp: getUserWallet_def wallets_ok_def cached_def Let_def fun_upd_idem split: option.splits)

lemma cached_simps [simp]:
  "bc_isConnected (cached c u bc) = bc_isConnected bc"
  "bc_documents (cached c u bc) = bc_documents bc"
  "bc_permissions (cached c u bc) = bc_permissions bc"
  "bc_userWallets (cached c u bc) u = Some (derive_wallet c u)"
  "bc_userWallets bc v = Some w \<Longrightarrow> wallets_ok c bc \<Longrightarrow> bc_userWallets (cached c u bc) v = Some w"
  by (auto simp: cached_def wallets_ok_def)

lemma wallets_ok_cached [simp]: "wallets_ok c bc \<Longrightarrow> wallets_ok c (cached c u bc)"
  by (auto simp: cached_def wallets_ok_def)

lemma wallets_ok_upd [simp]:
  "wallets_ok c (bc\<lparr>bc_permissions := p\<rparr>) = wallets_ok c bc"
  "wallets_ok c (bc\<lparr>bc_documents := d\<rparr>) = wallets_ok c bc"
  by (auto simp: wallets_ok_def)

lemma batch_loop_inv:
  "wallets_ok c bc \<Longrightarrow> bc_isConnected bc \<Longrightarrow> map_of (bc_permissions bc) k \<noteq> None \<Longrightarrow>
   batch_loop c d ts bc acc = (r, bc') \<Longrightarrow>
   wallets_ok c bc' \<and> bc_isConnected bc' \<and> map_of (bc_permissions bc') k \<noteq> None"
proof (induction ts arbitrary: bc acc)
  case Nil
  then show ?case by simp
next
  case (Cons t ts)
  let ?bc2 = "(cached c t bc)\<lparr>bc_permissions :=
       AList.update (permission_key d (address (derive_wallet c t))) True (bc_permissions bc)\<rparr>"
  from Cons.prems have run: "batch_loop c d ts ?bc2 (acc @ [address (derive_wallet c t)]) = (r, bc')"
    by (simp add: getUserWallet_ok)
  have "wallets_ok c ?bc2" "bc_isConnected ?bc2" "map_of (bc_permissions ?bc2) k \<noteq> None"
    using Cons.prems(1-3) by (auto simp: update_conv')
  from Cons.IH [OF this run] show ?case .
qed

lemma dev_step_keeps:
  assumes "granted c k bc"
      and "\<not> removes_permission c bc k (e, call)"
  shows "granted c k (dev_step c bc (e, call))"
proof (cases call)
  case (BatchGrantAccess u d ts)
  obtain r bc' where r: "batch_loop c d ts (cached c u bc) [] = (r, bc')"
    by (cases "batch_loop c d ts (cached c u bc) []")
  from assms(1) have "wallets_ok c (cached c u bc)" "bc_isConnected (cached c u bc)"
    "map_of (bc_permissions (cached c u bc)) k \<noteq> None"
    by (simp_all add: granted_def)
  from batch_loop_inv [OF this r] have "granted c k bc'"
    by (simp add: granted_def)
  with assms(1) r BatchGrantAccess show ?thesis
    by (simp add: granted_def dev_batchGrantAccess_def getUserWallet_ok)
next
  case (RevokeAccess u d t)
  from assms(1) have ok: "bc_isConnected bc" "wallets_ok c bc" "map_of (bc_permissions bc) k \<noteq> None"
    by (simp_all add: granted_def)
  show ?thesis
  proof (cases "bc_documents bc d")
    case None
    with ok RevokeAccess show ?thesis
      by (simp add: granted_def dev_revokeAccess_def getUserWallet_ok)
  next
    case (Some doc)
    show ?thesis
    proof (cases "ld_owner doc = address (derive_wallet c u)")
      case False
      with ok RevokeAccess Some show ?thesis
        by (simp add: granted_def dev_revokeAccess_def getUserWallet_ok)
    next
      case True
      with ok RevokeAccess Some assms(2)
      have "permission_key d (address (derive_wallet c t)) \<noteq> k"
        by (simp add: dev_revokeAccess_def getUserWallet_ok)
      with ok RevokeAccess Some True show ?thesis
        by (simp add: granted_def dev_revokeAccess_def getUserWallet_ok delete_conv')
    qed
  qed
qed (use assms(1) in \<open>auto simp: granted_def dev_addDocument_def dev_grantAccess_def
        dev_hasAccess_def dev_getDocument_def dev_getDocumentAccessors_def
        dev_getUserWalletAddress_def dev_getWalletBalance_def dev_fundUserWallet_def
        dev_contract_removeDocument_def getUserWallet_ok update_conv' Let_def
        split: option.splits\<close>)

lemma dev_run_keeps:
  "granted c k bc \<Longrightarrow> \<not> removal_in c bc k history \<Longrightarrow> granted c k (dev_run c bc history)"
  unfolding dev_run_def
proof (induction history arbitrary: bc)
  case Nil
  then show ?case by simp
next
  case (Cons x xs)
  obtain e call where x: "x = (e, call)" by (cases x)
  with Cons.prems have "granted c k (dev_step c bc x)"
    by (simp add: dev_step_keeps)
  with Cons show ?case by simp
qed

lemma granted_hasAccess:
  "granted c (permission_key d (address (derive_wallet c u))) bc \<Longrightarrow>
   fst (dev_hasAccess c bc u d) = Inr True"
  by (simp add: granted_def dev_hasAccess_def getUserWallet_ok)

lemma dev_addDocument_reachable:
  assumes "reachable_ok c bc"
  shows "dev_addDocument c e bc u h m =
           (Inr \<lparr>ar_documentId = generateDocumentId c u h (now e),
                 ar_transactionHash = ''0x'' @ randomHex e,
                 ar_blockNumber = randomBlock e + 15000000,
                 ar_walletAddress = address (derive_wallet c u)\<rparr>,
            (cached c u bc)
              \<lparr>bc_documents := (bc_documents bc)(generateDocumentId c u h (now e) \<mapsto>
                  \<lparr>ld_ipfsHash = h, ld_owner = address (derive_wallet c u),
                   ld_metadata = m, ld_createdAt = now e\<rparr>),
               bc_permissions :=
                 AList.update
                   (permission_key (generateDocumentId c u h (now e)) (address (derive_wallet c u)))
                   True (bc_permissions bc)\<rparr>)"
  using assms by (simp add: reachable_ok_def dev_addDocument_def getUserWallet_ok Let_def)

lemma batch_loop_reachable:
  "reachable_ok c bc \<Longrightarrow> batch_loop c d ts bc acc = (r, bc') \<Longrightarrow> reachable_ok c bc'"
proof (induction ts arbitrary: bc acc)
  case Nil
  then show ?case by simp
next
  case (Cons t ts)
  let ?bc2 = "(cached c t bc)\<lparr>bc_permissions :=
       AList.update (permission_key d (address (derive_wallet c t))) True (bc_permissions bc)\<rparr>"
  from Cons.prems have run: "batch_loop c d ts ?bc2 (acc @ [address (derive_wallet c t)]) = (r, bc')"
    by (simp add: getUserWallet_ok reachable_ok_def)
  have "reachable_ok c ?bc2"
    using Cons.prems(1) by (simp add: reachable_ok_def)
  from Cons.IH [OF this run] show ?case .
qed

lemma dev_step_reachable:
  assumes "reachable_ok c bc"
  shows "reachable_ok c (dev_step c bc (e, call))"
proof (cases call)
  case (BatchGrantAccess u d ts)
  obtain r bc' where r: "batch_loop c d ts (cached c u bc) [] = (r, bc')"
    by (cases "batch_loop c d ts (cached c u bc) []")
  from assms have "reachable_ok c (cached c u bc)"
    by (simp add: reachable_ok_def)
  from batch_loop_reachable [OF this r] have "reachable_ok c bc'" .
  with assms r BatchGrantAccess show ?thesis
    by (simp add: reachable_ok_def dev_batchGrantAccess_def getUserWallet_ok)
qed (use assms in \<open>auto simp: reachable_ok_def dev_addDocument_def dev_grantAccess_def
        dev_revokeAccess_def dev_hasAccess_def dev_getDocument_def dev_getDocumentAccessors_def
        dev_getUserWalletAddress_def dev_getWalletBalance_def dev_fundUserWallet_def
        dev_contract_removeDocument_def getUserWallet_ok Let_def
        split: option.splits\<close>)

lemma dev_run_reachable:
  "reachable_ok c bc \<Longrightarrow> reachable_ok c (dev_run c bc history)"
  unfolding dev_run_def
proof (induction history arbitrary: bc)
  case Nil
  then show ?case by simp
next
  case (Cons x xs)
  obtain e call where x: "x = (e, call)" by (cases x)
  with Cons.prems have "reachable_ok c (dev_step c bc x)"
    by (simp add: dev_step_reachable)
  with Cons show ?case by simp
qed

lemma reachable_init: "reachable_ok c DevBlockchainService"
  by (simp add: reachable_ok_def DevBlockchainService_def wallets_ok_def)

lemma string_of_nat_7: "string_of_nat 7 = ''7''"
  by (simp add: string_of_nat.simps)



subsection \<open>The access check\<close>

lemma findById_stored:
  "map_of (docs w) i = Some d \<Longrightarrow> findById w i = Some (d\<lparr>encryptionKey := None\<rparr>)"
  by (simp add: findById_def)

lemma findById_None:
  "map_of (docs w) i = None \<Longrightarrow> findById w i = None"
  by (simp add: findById_def)

lemma hasAccess_iff:
  "hasAccess d u = (owner d = u \<or> u \<in> user ` set (sharedWith d))"
  by (auto simp: hasAccess_def list_ex_iff)

text \<open>
  Claim C1. For an access check by user U on a document D that exists and is active, the
  answer is 200 and its \<open>hasAccess\<close> is the conjunction of the local check (U is D's
  owner, or U is in D's shared-with list) and the ledger's answer to \<open>hasAccess\<close> for
  U's id, from which the adapter derives the ledger identity; the ledger component is
  true only when the query returns true, so a query that throws makes it, and the
  whole answer, false.
\<close>

theorem access_check_is_conjunction:
  assumes "map_of (docs w) documentId = Some d" and "isActive d"
  shows "\<exists>perm w'.
           access_check svc w u documentId =
             (\<lparr>status = 200, message = [], error_detail = None,
               body = AccessBody
                 ((owner d = u_id u \<or> u_id u \<in> user ` set (sharedWith d)) \<and>
                  fst (bs_hasAccess (blockchainService svc) (ledger w) (u_id u)
                         (blockchainDocumentId d)) = Inr True)
                 perm (owner d = u_id u)
                 (owner d = u_id u \<or> u_id u \<in> user ` set (sharedWith d))
                 (fst (bs_hasAccess (blockchainService svc) (ledger w) (u_id u)
                         (blockchainDocumentId d)) = Inr True)\<rparr>, w')"
proof -
  obtain r l where q: "bs_hasAccess (blockchainService svc) (ledger w) (u_id u)
                         (blockchainDocumentId d) = (r, l)"
    by (cases "bs_hasAccess (blockchainService svc) (ledger w) (u_id u) (blockchainDocumentId d)")
  have "(case r of Inl x \<Rightarrow> False | Inr b \<Rightarrow> b) = (r = Inr True)"
    by (cases r) auto
  with assms q show ?thesis
    by (simp add: access_check_def findById_stored ledger_hasAccess_def hasAccess_iff Let_def)
qed

theorem access_check_is_conjunction_witness:
  "map_of (docs (test_world ())) ''d1'' = Some report \<and> isActive report \<and>
   (\<exists>perm w'.
      access_check (offline_services prod_penv) (test_world ()) bob ''d1'' =
        (\<lparr>status = 200, message = [], error_detail = None,
          body = AccessBody False perm False True False\<rparr>, w'))"
proof -
  have h1: "map_of (docs (test_world ())) ''d1'' = Some report"
    by (simp add: test_world_def)
  have h2: "isActive report"
    by (simp add: report_def)
  from access_check_is_conjunction [OF h1 h2, of "offline_services prod_penv" bob] h1 h2
  show ?thesis
    by (simp add: offline_services_def offline_blockchain_service_def report_def bob_def)
qed


subsection \<open>The owner on the simulated ledger\<close>

lemma access_check_owner:
  assumes "map_of (docs w) documentId = Some d" and "isActive d" and "owner d = u_id u"
      and "fst (bs_hasAccess (blockchainService svc) (ledger w) (u_id u)
                  (blockchainDocumentId d)) = Inr b"
  shows "\<exists>w'. access_check svc w u documentId =
           (\<lparr>status = 200, message = [], error_detail = None,
             body = AccessBody b (Some ''owner'') True True b\<rparr>, w')"
proof -
  obtain r l where q: "bs_hasAccess (blockchainService svc) (ledger w) (u_id u)
                         (blockchainDocumentId d) = (r, l)"
    by (cases "bs_hasAccess (blockchainService svc) (ledger w) (u_id u) (blockchainDocumentId d)")
  with assms(4) have "r = Inr b" by simp
  with assms(1,2,3) q show ?thesis
    by (simp add: access_check_def findById_stored ledger_hasAccess_def hasAccess_def
          getUserPermission_def Let_def)
qed

text \<open>
  Claim C10. On the simulated ledger, in any state reached from the constructor,
  \<open>addDocument(owner, blobAddress, metadata)\<close> returns a document id, registers the
  document under it (address, owner's derived address, metadata, time; \<open>getDocument\<close>
  by the owner gives them back) and grants the owner's derived address access at once:
  after any later calls of the adapter, none of which is a \<open>revokeAccess\<close> that returns
  and deletes that very permission entry, \<open>hasAccess(owner, returnedDocId)\<close> on that
  adapter state answers true. Hence, where the routes run on the simulated adapter and its
  state is one that came from the registration in this way, the access check of the owner
  of a stored document with that ledger id has its ledger half true.
\<close>

theorem dev_owner_hasAccess_after_addDocument:
  assumes "bc = dev_run c DevBlockchainService earlier"
      and "dev_addDocument c e bc ownerId ipfs metadata = (res, bc1)"
  shows "\<exists>r. res = Inr r \<and>
           r = \<lparr>ar_documentId = generateDocumentId c ownerId ipfs (now e),
                ar_transactionHash = ''0x'' @ randomHex e,
                ar_blockNumber = randomBlock e + 15000000,
                ar_walletAddress = address (derive_wallet c ownerId)\<rparr> \<and>
           bc_documents bc1 (ar_documentId r) =
             Some \<lparr>ld_ipfsHash = ipfs, ld_owner = ar_walletAddress r,
                   ld_metadata = metadata, ld_createdAt = now e\<rparr> \<and>
           fst (dev_getDocument c bc1 ownerId (ar_documentId r)) =
             Inr \<lparr>li_ipfsHash = ipfs, li_owner = ar_walletAddress r, li_createdAt = now e,
                  li_metadata = metadata\<rparr> \<and>
           (\<forall>later.
              \<not> removal_in c bc1 (permission_key (ar_documentId r) (ar_walletAddress r)) later \<longrightarrow>
              fst (dev_hasAccess c (dev_run c bc1 later) ownerId (ar_documentId r)) = Inr True \<and>
              (\<forall>(svc :: (dev_blockchain, 'b) services) w u documentId d.
                 blockchainService svc = dev_blockchain_service c \<and>
                 ledger w = dev_run c bc1 later \<and>
                 map_of (docs w) documentId = Some d \<and> isActive d \<and>
                 owner d = ownerId \<and> u_id u = ownerId \<and>
                 blockchainDocumentId d = ar_documentId r \<longrightarrow>
                 (\<exists>w'. access_check svc w u documentId =
                    (\<lparr>status = 200, message = [], error_detail = None,
                      body = AccessBody True (Some ''owner'') True True True\<rparr>, w'))))"
proof -
  let ?d = "generateDocumentId c ownerId ipfs (now e)"
  let ?a = "address (derive_wallet c ownerId)"
  let ?r = "\<lparr>ar_documentId = ?d, ar_transactionHash = ''0x'' @ randomHex e,
             ar_blockNumber = randomBlock e + 15000000, ar_walletAddress = ?a\<rparr>"
  have ok: "reachable_ok c bc"
    unfolding assms(1) by (rule dev_run_reachable [OF reachable_init])
  then have conn: "bc_isConnected bc" and wal: "wallets_ok c bc"
    by (simp_all add: reachable_ok_def)
  from dev_addDocument_reachable [OF ok, of e ownerId ipfs metadata] assms(2)
  have res: "res = Inr ?r"
    and bc1: "bc1 = (cached c ownerId bc)
              \<lparr>bc_documents := (bc_documents bc)(?d \<mapsto>
                  \<lparr>ld_ipfsHash = ipfs, ld_owner = ?a, ld_metadata = metadata,
                   ld_createdAt = now e\<rparr>),
               bc_permissions := AList.update (permission_key ?d ?a) True (bc_permissions bc)\<rparr>"
    by simp_all
  have stored: "bc_documents bc1 ?d =
                  Some \<lparr>ld_ipfsHash = ipfs, ld_owner = ?a, ld_metadata = metadata,
                        ld_createdAt = now e\<rparr>"
    by (simp add: bc1)
  have g: "granted c (permission_key ?d ?a) bc1"
    using conn wal by (simp add: bc1 granted_def update_conv')
  then have conn1: "bc_isConnected bc1" and wal1: "wallets_ok c bc1"
    and entry: "map_of (bc_permissions bc1) (permission_key ?d ?a) \<noteq> None"
    by (simp_all add: granted_def)
  have got: "fst (dev_getDocument c bc1 ownerId ?d) =
               Inr \<lparr>li_ipfsHash = ipfs, li_owner = ?a, li_createdAt = now e,
                    li_metadata = metadata\<rparr>"
    using conn1 wal1 entry stored
    by (simp add: dev_getDocument_def dev_hasAccess_def getUserWallet_ok)
  have later: "\<forall>later. \<not> removal_in c bc1 (permission_key ?d ?a) later \<longrightarrow>
               fst (dev_hasAccess c (dev_run c bc1 later) ownerId ?d) = Inr True \<and>
               (\<forall>(svc :: (dev_blockchain, 'b) services) w u documentId d.
                 blockchainService svc = dev_blockchain_service c \<and>
                 ledger w = dev_run c bc1 later \<and>
                 map_of (docs w) documentId = Some d \<and> isActive d \<and>
                 owner d = ownerId \<and> u_id u = ownerId \<and>
                 blockchainDocumentId d = ?d \<longrightarrow>
                 (\<exists>w'. access_check svc w u documentId =
                    (\<lparr>status = 200, message = [], error_detail = None,
                      body = AccessBody True (Some ''owner'') True True True\<rparr>, w')))"
  proof (intro conjI allI impI)
    fix later
    assume n: "\<not> removal_in c bc1 (permission_key ?d ?a) later"
    from dev_run_keeps [OF g n]
    show yes: "fst (dev_hasAccess c (dev_run c bc1 later) ownerId ?d) = Inr True"
      by (rule granted_hasAccess)
    fix svc :: "(dev_blockchain, 'b) services" and w :: "(dev_blockchain, 'b) world"
      and u :: app_user and documentId and d :: document
    assume "\<not> removal_in c bc1 (permission_key ?d ?a) later"
    assume a: "blockchainService svc = dev_blockchain_service c \<and>
                 ledger w = dev_run c bc1 later \<and>
                 map_of (docs w) documentId = Some d \<and> isActive d \<and>
                 owner d = ownerId \<and> u_id u = ownerId \<and>
                 blockchainDocumentId d = ?d"
    with yes have "fst (bs_hasAccess (blockchainService svc) (ledger w) (u_id u)
                          (blockchainDocumentId d)) = Inr True"
      by (simp add: dev_blockchain_service_def)
    with a access_check_owner [of w documentId d u svc True]
    show "\<exists>w'. access_check svc w u documentId =
                 (\<lparr>status = 200, message = [], error_detail = None,
                   body = AccessBody True (Some ''owner'') True True True\<rparr>, w')"
      by simp
  qed
  from res stored got later show ?thesis
    by simp
qed


lemma registered_ledger_eq:
  "registered_ledger =
     \<lparr>bc_isConnected = True,
      bc_userWallets = [''alice'' \<mapsto> \<lparr>address = ''0xalice_wallet_seed'', privateKey = ''alice_wallet_seed''\<rparr>],
      bc_documents = [''0xalice-Qmabc-7'' \<mapsto>
         \<lparr>ld_ipfsHash = ''Qmabc'', ld_owner = ''0xalice_wallet_seed'', ld_metadata = ''report'',
          ld_createdAt = 7\<rparr>],
      bc_permissions = [(''0xalice-Qmabc-7:0xalice_wallet_seed'', True)]\<rparr>"
  by (simp add: registered_ledger_def dev_addDocument_def DevBlockchainService_def
        getUserWallet_def derive_wallet_def generateDocumentId_def string_of_nat_7
        permission_key_def test_crypto_def test_env_def Let_def)

theorem dev_owner_hasAccess_after_addDocument_witness:
  "dev_addDocument test_crypto test_env (dev_run test_crypto DevBlockchainService [])
      ''alice'' ''Qmabc'' ''report'' =
     (Inr \<lparr>ar_documentId = ''0xalice-Qmabc-7'', ar_transactionHash = ''0xab'',
           ar_blockNumber = 15000001, ar_walletAddress = ''0xalice_wallet_seed''\<rparr>,
      registered_ledger) \<and>
   bc_documents registered_ledger ''0xalice-Qmabc-7'' =
     Some \<lparr>ld_ipfsHash = ''Qmabc'', ld_owner = ''0xalice_wallet_seed'', ld_metadata = ''report'',
           ld_createdAt = 7\<rparr> \<and>
   fst (dev_getDocument test_crypto registered_ledger ''alice'' ''0xalice-Qmabc-7'') =
     Inr \<lparr>li_ipfsHash = ''Qmabc'', li_owner = ''0xalice_wallet_seed'', li_createdAt = 7,
          li_metadata = ''report''\<rparr> \<and>
   fst (dev_revokeAccess test_crypto test_env registered_ledger ''mallory'' ''0xalice-Qmabc-7''
          ''alice'') =
     Inl ''Failed to revoke access on dev blockchain: Only document owner can revoke access'' \<and>
   \<not> removal_in test_crypto registered_ledger ''0xalice-Qmabc-7:0xalice_wallet_seed''
       [(test_env, RevokeAccess ''mallory'' ''0xalice-Qmabc-7'' ''alice''),
        (test_env, GrantAccess ''alice'' ''0xalice-Qmabc-7'' ''bob@x.org'' ''bob''),
        (test_env, RevokeAccess ''alice'' ''0xalice-Qmabc-7'' ''bob'')] \<and>
   fst (dev_hasAccess test_crypto
          (dev_run test_crypto registered_ledger
             [(test_env, RevokeAccess ''mallory'' ''0xalice-Qmabc-7'' ''alice''),
              (test_env, GrantAccess ''alice'' ''0xalice-Qmabc-7'' ''bob@x.org'' ''bob''),
              (test_env, RevokeAccess ''alice'' ''0xalice-Qmabc-7'' ''bob'')])
          ''alice'' ''0xalice-Qmabc-7'') = Inr True \<and>
   (\<exists>w'. access_check dev_services
           (test_world
              (dev_run test_crypto registered_ledger
                 [(test_env, RevokeAccess ''mallory'' ''0xalice-Qmabc-7'' ''alice''),
                  (test_env, GrantAccess ''alice'' ''0xalice-Qmabc-7'' ''bob@x.org'' ''bob''),
                  (test_env, RevokeAccess ''alice'' ''0xalice-Qmabc-7'' ''bob'')]))
           alice ''d1'' =
      (\<lparr>status = 200, message = [], error_detail = None,
        body = AccessBody True (Some ''owner'') True True True\<rparr>, w'))"
proof -
  let ?later = "[(test_env, RevokeAccess ''mallory'' ''0xalice-Qmabc-7'' ''alice''),
                 (test_env, GrantAccess ''alice'' ''0xalice-Qmabc-7'' ''bob@x.org'' ''bob''),
                 (test_env, RevokeAccess ''alice'' ''0xalice-Qmabc-7'' ''bob'')]"
  let ?w = "test_world (dev_run test_crypto registered_ledger ?later)"
  have add: "dev_addDocument test_crypto test_env (dev_run test_crypto DevBlockchainService [])
               ''alice'' ''Qmabc'' ''report'' =
             (fst (dev_addDocument test_crypto test_env DevBlockchainService ''alice'' ''Qmabc''
                     ''report''), registered_ledger)"
    by (simp add: dev_run_def registered_ledger_def)
  have v: "generateDocumentId test_crypto ''alice'' ''Qmabc'' (now test_env) = ''0xalice-Qmabc-7''"
    "address (derive_wallet test_crypto ''alice'') = ''0xalice_wallet_seed''"
    "generateDocumentId test_crypto ''alice'' ''Qmabc'' 7 = ''0xalice-Qmabc-7''"
    "randomHex test_env = ''ab''" "randomBlock test_env + 15000000 = 15000001"
    "now test_env = 7"
    "permission_key ''0xalice-Qmabc-7'' ''0xalice_wallet_seed'' =
       ''0xalice-Qmabc-7:0xalice_wallet_seed''"
    by (simp_all add: generateDocumentId_def derive_wallet_def permission_key_def
          string_of_nat_7 test_crypto_def test_env_def Let_def)
  have refused: "fst (dev_revokeAccess test_crypto test_env registered_ledger ''mallory''
                        ''0xalice-Qmabc-7'' ''alice'') =
     Inl ''Failed to revoke access on dev blockchain: Only document owner can revoke access''"
    by (simp add: registered_ledger_eq dev_revokeAccess_def getUserWallet_def derive_wallet_def
          test_crypto_def Let_def)
  have n: "\<not> removal_in test_crypto registered_ledger ''0xalice-Qmabc-7:0xalice_wallet_seed''
             ?later"
    by (simp add: registered_ledger_eq dev_revokeAccess_def dev_grantAccess_def
          getUserWallet_def derive_wallet_def permission_key_def test_crypto_def test_env_def
          Let_def)
  have f: "blockchainService dev_services = dev_blockchain_service test_crypto \<and>
           ledger ?w = dev_run test_crypto registered_ledger ?later \<and>
           map_of (docs ?w) ''d1'' = Some report \<and> isActive report \<and>
           owner report = ''alice'' \<and> u_id alice = ''alice'' \<and>
           blockchainDocumentId report = ''0xalice-Qmabc-7''"
    by (simp add: dev_services_def test_world_def report_def alice_def)
  from dev_owner_hasAccess_after_addDocument [OF refl add]
  have main: "fst (dev_addDocument test_crypto test_env DevBlockchainService ''alice'' ''Qmabc''
                     ''report'') =
                Inr \<lparr>ar_documentId = ''0xalice-Qmabc-7'', ar_transactionHash = ''0xab'',
                     ar_blockNumber = 15000001, ar_walletAddress = ''0xalice_wallet_seed''\<rparr> \<and>
              bc_documents registered_ledger ''0xalice-Qmabc-7'' =
                Some \<lparr>ld_ipfsHash = ''Qmabc'', ld_owner = ''0xalice_wallet_seed'',
                      ld_metadata = ''report'', ld_createdAt = 7\<rparr> \<and>
              fst (dev_getDocument test_crypto registered_ledger ''alice'' ''0xalice-Qmabc-7'') =
                Inr \<lparr>li_ipfsHash = ''Qmabc'', li_owner = ''0xalice_wallet_seed'',
                     li_createdAt = 7, li_metadata = ''report''\<rparr> \<and>
              (\<forall>later.
                 \<not> removal_in test_crypto registered_ledger
                      ''0xalice-Qmabc-7:0xalice_wallet_seed'' later \<longrightarrow>
                 fst (dev_hasAccess test_crypto (dev_run test_crypto registered_ledger later)
                        ''alice'' ''0xalice-Qmabc-7'') = Inr True \<and>
                 (\<forall>(svc :: (dev_blockchain, dev_ipfs) services) w u documentId d.
                    blockchainService svc = dev_blockchain_service test_crypto \<and>
                    ledger w = dev_run test_crypto registered_ledger later \<and>
                    map_of (docs w) documentId = Some d \<and> isActive d \<and>
                    owner d = ''alice'' \<and> u_id u = ''alice'' \<and>
                    blockchainDocumentId d = ''0xalice-Qmabc-7'' \<longrightarrow>
                    (\<exists>w'. access_check svc w u documentId =
                       (\<lparr>status = 200, message = [], error_detail = None,
                         body = AccessBody True (Some ''owner'') True True True\<rparr>, w'))))"
    by (simp add: v)
  from main have p1: "dev_addDocument test_crypto test_env
               (dev_run test_crypto DevBlockchainService []) ''alice'' ''Qmabc'' ''report'' =
     (Inr \<lparr>ar_documentId = ''0xalice-Qmabc-7'', ar_transactionHash = ''0xab'',
           ar_blockNumber = 15000001, ar_walletAddress = ''0xalice_wallet_seed''\<rparr>,
      registered_ledger)"
    by (simp only: add)
  from main [THEN conjunct2, THEN conjunct2, THEN conjunct2, THEN spec, THEN mp, OF n]
  have p2: "fst (dev_hasAccess test_crypto (dev_run test_crypto registered_ledger ?later)
                   ''alice'' ''0xalice-Qmabc-7'') = Inr True"
    and p3: "\<forall>(svc :: (dev_blockchain, dev_ipfs) services) w u documentId d.
                    blockchainService svc = dev_blockchain_service test_crypto \<and>
                    ledger w = dev_run test_crypto registered_ledger ?later \<and>
                    map_of (docs w) documentId = Some d \<and> isActive d \<and>
                    owner d = ''alice'' \<and> u_id u = ''alice'' \<and>
                    blockchainDocumentId d = ''0xalice-Qmabc-7'' \<longrightarrow>
                    (\<exists>w'. access_check svc w u documentId =
                       (\<lparr>status = 200, message = [], error_detail = None,
                         body = AccessBody True (Some ''owner'') True True True\<rparr>, w'))"
    by (rule conjunct1, rule conjunct2)
  from p3 [THEN spec, THEN spec, THEN spec, THEN spec, THEN spec, THEN mp, OF f]
  have p4: "\<exists>w'. access_check dev_services ?w alice ''d1'' =
      (\<lparr>status = 200, message = [], error_detail = None,
        body = AccessBody True (Some ''owner'') True True True\<rparr>, w')" .
  from p1 main [THEN conjunct2, THEN conjunct1]
    main [THEN conjunct2, THEN conjunct2, THEN conjunct1] refused n p2 p4
  show ?thesis by (intro conjI)
qed

text \<open>
  Development mode alone does not make the ledger half of the owner's check true. After a
  restart the simulated adapter is in its initial state while the document store still has
  the document, and with ledger credentials but no blob-store credentials the mode is
  development and the ledger adapter is the network one: in both cases the owner's access
  check has its ledger half, and so its answer, false.
\<close>

theorem dev_owner_ledger_half_counterexample:
  "isDevelopmentMode (penv dev_services) \<and>
   blockchainService dev_services = dev_blockchain_service test_crypto \<and>
   map_of (docs (test_world DevBlockchainService)) ''d1'' = Some report \<and>
   isActive report \<and> owner report = u_id alice \<and>
   fst (dev_hasAccess test_crypto DevBlockchainService (u_id alice) (blockchainDocumentId report)) =
     Inr False \<and>
   fst (access_check dev_services (test_world DevBlockchainService) alice ''d1'') =
     \<lparr>status = 200, message = [], error_detail = None,
      body = AccessBody False (Some ''owner'') True True False\<rparr> \<and>
   isDevelopmentMode (penv (offline_services mixed_penv)) \<and>
   hasBlockchainConfig (penv (offline_services mixed_penv)) \<and>
   map_of (docs (test_world ())) ''d1'' = Some report \<and>
   fst (access_check (offline_services mixed_penv) (test_world ()) alice ''d1'') =
     \<lparr>status = 200, message = [], error_detail = None,
      body = AccessBody False (Some ''owner'') True True False\<rparr>"
proof -
  have d: "map_of (docs (test_world DevBlockchainService)) ''d1'' = Some report"
    "isActive report" "owner report = u_id alice"
    by (simp_all add: test_world_def report_def alice_def)
  have d': "map_of (docs (test_world ())) ''d1'' = Some report"
    by (simp add: test_world_def)
  have m: "isDevelopmentMode (penv dev_services)"
    "isDevelopmentMode (penv (offline_services mixed_penv))"
    "hasBlockchainConfig (penv (offline_services mixed_penv))"
    "blockchainService dev_services = dev_blockchain_service test_crypto"
    by (simp_all add: dev_services_def offline_services_def dev_penv_def mixed_penv_def
          isDevelopmentMode_def hasBlockchainConfig_def hasIPFSConfig_def falsy_def)
  have q: "fst (dev_hasAccess test_crypto DevBlockchainService (u_id alice)
                  (blockchainDocumentId report)) = Inr False"
    by (simp add: dev_hasAccess_def DevBlockchainService_def getUserWallet_def Let_def)
  then have q1: "fst (bs_hasAccess (blockchainService dev_services)
                        (ledger (test_world DevBlockchainService)) (u_id alice)
                        (blockchainDocumentId report)) = Inr False"
    by (simp add: dev_services_def dev_blockchain_service_def test_world_def)
  have q2: "fst (bs_hasAccess (blockchainService (offline_services mixed_penv))
                        (ledger (test_world ())) (u_id alice)
                        (blockchainDocumentId report)) = Inl ''Blockchain service not connected''"
    by (simp add: offline_services_def offline_blockchain_service_def)
  from access_check_owner [OF d q1]
  have a1: "fst (access_check dev_services (test_world DevBlockchainService) alice ''d1'') =
     \<lparr>status = 200, message = [], error_detail = None,
      body = AccessBody False (Some ''owner'') True True False\<rparr>"
    by auto
  have a2: "fst (access_check (offline_services mixed_penv) (test_world ()) alice ''d1'') =
     \<lparr>status = 200, message = [], error_detail = None,
      body = AccessBody False (Some ''owner'') True True False\<rparr>"
    using q2 d' d(2,3)
    by (cases "bs_hasAccess (blockchainService (offline_services mixed_penv))
                 (ledger (test_world ())) (u_id alice) (blockchainDocumentId report)")
       (simp add: access_check_def findById_stored ledger_hasAccess_def hasAccess_def
          getUserPermission_def Let_def)
  from m d d' q a1 a2 show ?thesis by (intro conjI)
qed


subsection \<open>Grant\<close>

lemma find_None_user: "(find (\<lambda>s. user s = i) xs = None) = (i \<notin> user ` set xs)"
  by (auto simp: find_None_iff)

lemma validateDocumentOwnership_ok:
  "map_of (docs w) i = Some d \<Longrightarrow> isActive d \<Longrightarrow> owner d = uid \<Longrightarrow>
   validateDocumentOwnership w i uid = Inr (d\<lparr>encryptionKey := None\<rparr>)"
  by (simp add: validateDocumentOwnership_def findById_stored)

lemma grant_update_new:
  assumes "map_of (docs w1) i = Some d" and "owner d \<noteq> u_id t"
      and "u_id t \<notin> user ` set (sharedWith d)"
  shows "grant_update e w1 i (d\<lparr>encryptionKey := None\<rparr>) t perms br =
           (\<lparr>status = 200, message = ''Document shared successfully'', error_detail = None,
             body = SharingBody (u_id t) perms (now e) (Some br)\<rparr>,
            w1\<lparr>docs := AList.update i
                   (d\<lparr>sharedWith := sharedWith d @
                        [\<lparr>user = u_id t, sharedAt = now e, permissions = perms\<rparr>]\<rparr>) (docs w1)\<rparr>)"
  using assms
  by (simp add: grant_update_def shareWith_def save_def find_None_user [symmetric])

lemma grant_new_target:
  assumes "documentId \<noteq> []" and "userEmail \<noteq> []"
      and "pf \<in> {None, Some ''read'', Some ''write''}"
      and "map_of (docs w) documentId = Some d" and "isActive d" and "owner d = u_id u"
      and "find (\<lambda>x. u_email x = trim (toLowerCase userEmail) \<and> u_isActive x) (users w) = Some t"
      and "u_id t \<noteq> u_id u" and "u_id t \<notin> user ` set (sharedWith d)"
  shows "grant svc e w u documentId userEmail pf =
          (case ledger_grantAccess svc e w (u_id u) (blockchainDocumentId d) (u_email t) (u_id t) of
             (Inr br, w1) \<Rightarrow>
               grant_update e w1 documentId (d\<lparr>encryptionKey := None\<rparr>) t
                 (case pf of None \<Rightarrow> ''read'' | Some p \<Rightarrow> p) br
           | (Inl err, w1) \<Rightarrow>
               if isDevelopmentMode (penv svc)
               then grant_update e w1 documentId (d\<lparr>encryptionKey := None\<rparr>) t
                      (case pf of None \<Rightarrow> ''read'' | Some p \<Rightarrow> p)
                      \<lparr>xr_transactionHash = ''0xdev_'' @ randomSuffix e,
                       xr_blockNumber = randomBlock e,
                       xr_targetWalletAddress = ''0xdev_address''\<rparr>
               else (grant_catch svc err, w1))"
proof -
  have p: "(case pf of None \<Rightarrow> ''read'' | Some p \<Rightarrow> p) \<in> set [''read'', ''write'']"
    using assms(3) by auto
  have f: "find (\<lambda>s. user s = u_id t) (sharedWith (d\<lparr>encryptionKey := None\<rparr>)) = None"
    using assms(9) by (simp add: find_None_user)
  show ?thesis
    unfolding grant_def Let_def
    using assms(1,2,8) p f
    by (simp add: validateDocumentOwnership_ok [OF assms(4,5,6)] assms(7)
          del: set_simps split: prod.splits sum.splits)
qed

text \<open>
  Claim C2. A grant by the owner to an active user who is not yet in the shared-with list,
  when the ledger's \<open>grantAccess\<close> throws: in development mode the route answers 200
  with the synthesized transaction (\<open>0xdev_\<close> hash, \<open>0xdev_address\<close>) and the
  new entry is appended to the stored document; in production mode the route answers with
  the error of its \<open>catch\<close> block and the Document collection is as it was.
\<close>

theorem grant_ledger_failure_policy:
  assumes "documentId \<noteq> []" and "userEmail \<noteq> []"
      and "pf \<in> {None, Some ''read'', Some ''write''}"
      and "map_of (docs w) documentId = Some d" and "isActive d" and "owner d = u_id u"
      and "find (\<lambda>x. u_email x = trim (toLowerCase userEmail) \<and> u_isActive x) (users w) = Some t"
      and "u_id t \<noteq> u_id u" and "u_id t \<notin> user ` set (sharedWith d)"
      and "bs_grantAccess (blockchainService svc) e (ledger w) (u_id u) (blockchainDocumentId d)
             (u_email t) (u_id t) = (Inl err, l)"
  shows "(isDevelopmentMode (penv svc) \<longrightarrow>
           grant svc e w u documentId userEmail pf =
             (\<lparr>status = 200, message = ''Document shared successfully'', error_detail = None,
               body = SharingBody (u_id t) (case pf of None \<Rightarrow> ''read'' | Some p \<Rightarrow> p) (now e)
                        (Some \<lparr>xr_transactionHash = ''0xdev_'' @ randomSuffix e,
                               xr_blockNumber = randomBlock e,
                               xr_targetWalletAddress = ''0xdev_address''\<rparr>)\<rparr>,
              w\<lparr>ledger := l,
                calls := calls w @ [LedgerGrantAccess (u_id u) (blockchainDocumentId d)
                                      (u_email t) (u_id t)],
                docs := AList.update documentId
                   (d\<lparr>sharedWith := sharedWith d @
                        [\<lparr>user = u_id t, sharedAt = now e,
                          permissions = (case pf of None \<Rightarrow> ''read'' | Some p \<Rightarrow> p)\<rparr>]\<rparr>)
                   (docs w)\<rparr>)) \<and>
         (\<not> isDevelopmentMode (penv svc) \<longrightarrow>
           grant svc e w u documentId userEmail pf =
             (grant_catch svc err,
              w\<lparr>ledger := l,
                calls := calls w @ [LedgerGrantAccess (u_id u) (blockchainDocumentId d)
                                      (u_email t) (u_id t)]\<rparr>) \<and>
           400 \<le> status (grant_catch svc err))"
proof -
  let ?w1 = "w\<lparr>ledger := l,
                calls := calls w @ [LedgerGrantAccess (u_id u) (blockchainDocumentId d)
                                      (u_email t) (u_id t)]\<rparr>"
  have call: "ledger_grantAccess svc e w (u_id u) (blockchainDocumentId d) (u_email t) (u_id t)
                = (Inl err, ?w1)"
    using assms(10) by (simp add: ledger_grantAccess_def)
  have d1: "map_of (docs ?w1) documentId = Some d"
    using assms(4) by simp
  have o: "owner d \<noteq> u_id t"
    using assms(6,8) by simp
  have st: "400 \<le> status (grant_catch svc err)"
    by (simp add: grant_catch_def json_def json_error_def)
  show ?thesis
    using st
    by (simp add: grant_new_target [OF assms(1-9)] call grant_update_new [OF d1 o assms(9)])
qed

lemma normalise_carol: "trim (toLowerCase '' Carol@X.org '') = ''carol@x.org''"
  by (simp add: trim_def toLowerCase_def lower_char_def is_space_def)

lemma modes:
  "isDevelopmentMode dev_penv" "isDevelopmentMode mixed_penv" "\<not> isDevelopmentMode prod_penv"
  by (simp_all add: isDevelopmentMode_def hasBlockchainConfig_def hasIPFSConfig_def falsy_def
        dev_penv_def mixed_penv_def prod_penv_def)

theorem grant_ledger_failure_policy_witness:
  "isDevelopmentMode (penv (offline_services mixed_penv)) \<and>
   \<not> isDevelopmentMode (penv (offline_services prod_penv)) \<and>
   status (fst (grant (offline_services mixed_penv) test_env (test_world ()) alice ''d1''
                  '' Carol@X.org '' None)) = 200 \<and>
   map_of (docs (snd (grant (offline_services mixed_penv) test_env
          (test_world ()) alice ''d1'' '' Carol@X.org '' None))) ''d1'' =
     Some (report\<lparr>sharedWith :=
             [\<lparr>user = ''bob'', sharedAt = 5, permissions = ''read''\<rparr>,
              \<lparr>user = ''carol'', sharedAt = 7, permissions = ''read''\<rparr>]\<rparr>) \<and>
   status (fst (grant (offline_services prod_penv) test_env (test_world ()) alice ''d1''
                  '' Carol@X.org '' None)) = 500 \<and>
   docs (snd (grant (offline_services prod_penv) test_env (test_world ()) alice ''d1''
                  '' Carol@X.org '' None)) = docs (test_world ())"
proof -
  have h1: "''d1'' \<noteq> []" and h2: "'' Carol@X.org '' \<noteq> []"
    and h3: "None \<in> {None, Some ''read'', Some ''write''}" by simp_all
  have h4: "map_of (docs (test_world ())) ''d1'' = Some report"
    by (simp add: test_world_def)
  have h5: "isActive report" and h6: "owner report = u_id alice"
    by (simp_all add: report_def alice_def)
  have h7: "find (\<lambda>x. u_email x = trim (toLowerCase '' Carol@X.org '') \<and> u_isActive x)
              (users (test_world ())) = Some carol"
    by (simp add: normalise_carol test_world_def alice_def bob_def carol_def)
  have h8: "u_id carol \<noteq> u_id alice" and h9: "u_id carol \<notin> user ` set (sharedWith report)"
    by (simp_all add: carol_def alice_def report_def)
  have h10: "bs_grantAccess (blockchainService (offline_services pe)) test_env
               (ledger (test_world ())) (u_id alice) (blockchainDocumentId report)
               (u_email carol) (u_id carol) = (Inl ''Blockchain service not connected'', ())" for pe
    by (simp add: offline_services_def offline_blockchain_service_def)
  have m: "isDevelopmentMode (penv (offline_services mixed_penv))"
          "\<not> isDevelopmentMode (penv (offline_services prod_penv))"
    by (simp_all add: offline_services_def modes)
  from grant_ledger_failure_policy [OF h1 h2 h3 h4 h5 h6 h7 h8 h9 h10 [of mixed_penv]]
       grant_ledger_failure_policy [OF h1 h2 h3 h4 h5 h6 h7 h8 h9 h10 [of prod_penv]] m
  show ?thesis
    by (simp add: grant_catch_def json_error_def report_def carol_def test_world_def test_env_def
          update_conv')
qed


subsection \<open>Revoke\<close>

lemma list_ex_user: "list_ex (\<lambda>s. user s = i) xs = (i \<in> user ` set xs)"
  by (auto simp: list_ex_iff)

lemma unshareWith_shared:
  assumes "i \<in> user ` set (sharedWith d)"
  shows "unshareWith d i = (True, d\<lparr>sharedWith := filter (\<lambda>s. user s \<noteq> i) (sharedWith d)\<rparr>)"
proof -
  from assms obtain s where "s \<in> set (sharedWith d)" and "\<not> user s \<noteq> i"
    by auto
  then have "length (filter (\<lambda>s. user s \<noteq> i) (sharedWith d)) < length (sharedWith d)"
    by (rule length_filter_less)
  then show ?thesis
    by (simp add: unshareWith_def Let_def)
qed

lemma find_user_id:
  assumes "t \<in> set us" and "u_id t = i"
  shows "\<exists>t'. find (\<lambda>x. u_id x = i) us = Some t' \<and> u_id t' = i"
proof (cases "find (\<lambda>x. u_id x = i) us")
  case None
  with assms show ?thesis by (auto simp: find_None_iff)
next
  case (Some t')
  then show ?thesis by (auto simp: find_Some_iff)
qed

lemma revoke_not_shared:
  assumes "map_of (docs w) documentId = Some d" and "userId \<notin> user ` set (sharedWith d)"
  shows "\<exists>r. revoke svc e w u documentId userId = (r, w) \<and> 400 \<le> status r"
  using assms
  by (auto simp: revoke_def Let_def validateDocumentOwnership_def findById_stored list_ex_user
        revoke_catch_def json_def json_error_def split: option.splits)

lemma revoke_shared:
  assumes "documentId \<noteq> []" and "userId \<noteq> []"
      and "map_of (docs w) documentId = Some d" and "isActive d" and "owner d = u_id u"
      and "t \<in> set (users w)" and "u_id t = userId"
      and "userId \<in> user ` set (sharedWith d)"
  shows "revoke svc e w u documentId userId =
           (case bs_revokeAccess (blockchainService svc) e (ledger w) (u_id u)
                   (blockchainDocumentId d) userId of
              (Inl err, l) \<Rightarrow>
                (revoke_catch svc err,
                 w\<lparr>ledger := l,
                   calls := calls w @
                     [LedgerRevokeAccess (u_id u) (blockchainDocumentId d) userId]\<rparr>)
            | (Inr br, l) \<Rightarrow>
                (\<lparr>status = 200, message = ''Document access revoked successfully'',
                  error_detail = None, body = RevocationBody userId (now e) br\<rparr>,
                 w\<lparr>ledger := l,
                   calls := calls w @
                     [LedgerRevokeAccess (u_id u) (blockchainDocumentId d) userId],
                   docs := AList.update documentId
                     (d\<lparr>sharedWith := filter (\<lambda>s. user s \<noteq> userId) (sharedWith d)\<rparr>)
                     (docs w)\<rparr>))"
proof -
  from find_user_id [OF assms(6,7)] obtain t' where
    t': "find (\<lambda>x. u_id x = userId) (users w) = Some t'" "u_id t' = userId"
    by blast
  have un: "unshareWith (d\<lparr>encryptionKey := None\<rparr>) userId =
              (True, d\<lparr>encryptionKey := None,
                       sharedWith := filter (\<lambda>s. user s \<noteq> userId) (sharedWith d)\<rparr>)"
    using unshareWith_shared [of userId "d\<lparr>encryptionKey := None\<rparr>"] assms(8) by simp
  show ?thesis
    unfolding revoke_def Let_def
    using assms(1,2,3,8) t'
    by (simp add: validateDocumentOwnership_ok [OF assms(3,4,5)] list_ex_user
          ledger_revokeAccess_def un save_def split: prod.splits sum.splits)
qed

text \<open>
  Claim C4. For a stored document: a revoke whose target is not in the shared-with list is
  rejected and changes nothing (no ledger call is made); a revoke by the owner whose target
  is in the list calls the ledger's \<open>revokeAccess\<close> once, whatever the mode, and then
  either the call throws and the route answers with the error of its \<open>catch\<close> block,
  the Document collection as it was, or the call returns and the target's entries are
  removed from the stored document.
\<close>

theorem revoke_policy:
  assumes "map_of (docs w) documentId = Some d"
  shows "(userId \<notin> user ` set (sharedWith d) \<longrightarrow>
            (\<exists>r. revoke svc e w u documentId userId = (r, w) \<and> 400 \<le> status r)) \<and>
         (documentId \<noteq> [] \<and> userId \<noteq> [] \<and> isActive d \<and> owner d = u_id u \<and>
          userId \<in> u_id ` set (users w) \<and> userId \<in> user ` set (sharedWith d) \<longrightarrow>
            revoke svc e w u documentId userId =
              (case bs_revokeAccess (blockchainService svc) e (ledger w) (u_id u)
                      (blockchainDocumentId d) userId of
                 (Inl err, l) \<Rightarrow>
                   (revoke_catch svc err,
                    w\<lparr>ledger := l,
                      calls := calls w @
                        [LedgerRevokeAccess (u_id u) (blockchainDocumentId d) userId]\<rparr>)
               | (Inr br, l) \<Rightarrow>
                   (\<lparr>status = 200, message = ''Document access revoked successfully'',
                     error_detail = None, body = RevocationBody userId (now e) br\<rparr>,
                    w\<lparr>ledger := l,
                      calls := calls w @
                        [LedgerRevokeAccess (u_id u) (blockchainDocumentId d) userId],
                      docs := AList.update documentId
                        (d\<lparr>sharedWith := filter (\<lambda>s. user s \<noteq> userId) (sharedWith d)\<rparr>)
                        (docs w)\<rparr>)) \<and>
            400 \<le> status (revoke_catch svc err))"
proof (intro conjI impI)
  assume "userId \<notin> user ` set (sharedWith d)"
  with assms show "\<exists>r. revoke svc e w u documentId userId = (r, w) \<and> 400 \<le> status r"
    by (rule revoke_not_shared)
next
  assume a: "documentId \<noteq> [] \<and> userId \<noteq> [] \<and> isActive d \<and> owner d = u_id u \<and>
          userId \<in> u_id ` set (users w) \<and> userId \<in> user ` set (sharedWith d)"
  then obtain t where "t \<in> set (users w)" "u_id t = userId" by auto
  with a assms show "revoke svc e w u documentId userId =
              (case bs_revokeAccess (blockchainService svc) e (ledger w) (u_id u)
                      (blockchainDocumentId d) userId of
                 (Inl err, l) \<Rightarrow>
                   (revoke_catch svc err,
                    w\<lparr>ledger := l,
                      calls := calls w @
                        [LedgerRevokeAccess (u_id u) (blockchainDocumentId d) userId]\<rparr>)
               | (Inr br, l) \<Rightarrow>
                   (\<lparr>status = 200, message = ''Document access revoked successfully'',
                     error_detail = None, body = RevocationBody userId (now e) br\<rparr>,
                    w\<lparr>ledger := l,
                      calls := calls w @
                        [LedgerRevokeAccess (u_id u) (blockchainDocumentId d) userId],
                      docs := AList.update documentId
                        (d\<lparr>sharedWith := filter (\<lambda>s. user s \<noteq> userId) (sharedWith d)\<rparr>)
                        (docs w)\<rparr>))"
    by (simp add: revoke_shared)
next
  show "400 \<le> status (revoke_catch svc err)"
    by (simp add: revoke_catch_def json_def json_error_def)
qed

theorem revoke_policy_witness:
  "revoke dev_services test_env (test_world DevBlockchainService) alice ''d1'' ''carol'' =
     (json 400 ''Document is not shared with this user'', test_world DevBlockchainService) \<and>
   isDevelopmentMode (penv dev_services) \<and>
   fst (revoke dev_services test_env (test_world DevBlockchainService) alice ''d1'' ''bob'') =
     \<lparr>status = 500, message = ''Error revoking document access'',
      error_detail = Some ''Failed to revoke access on dev blockchain: Document not found'',
      body = NoBody\<rparr> \<and>
   docs (snd (revoke dev_services test_env (test_world DevBlockchainService) alice ''d1'' ''bob'')) =
     docs (test_world DevBlockchainService) \<and>
   calls (snd (revoke dev_services test_env (test_world DevBlockchainService) alice ''d1'' ''bob'')) =
     [LedgerRevokeAccess ''alice'' ''0xalice-Qmabc-7'' ''bob''] \<and>
   fst (revoke dev_services test_env (test_world registered_ledger) alice ''d1'' ''bob'') =
     \<lparr>status = 200, message = ''Document access revoked successfully'', error_detail = None,
      body = RevocationBody ''bob'' 7
               \<lparr>xr_transactionHash = ''0xab'', xr_blockNumber = 15000001,
                xr_targetWalletAddress = ''0xbob_wallet_seed''\<rparr>\<rparr> \<and>
   docs (snd (revoke dev_services test_env (test_world registered_ledger) alice ''d1'' ''bob'')) =
     [(''d1'', report\<lparr>sharedWith := []\<rparr>)]"
proof -
  have h: "map_of (docs (test_world l)) ''d1'' = Some report" for l :: dev_blockchain
    by (simp add: test_world_def)
  have p: "''d1'' \<noteq> [] \<and> ''bob'' \<noteq> [] \<and> isActive report \<and> owner report = u_id alice \<and>
          ''bob'' \<in> u_id ` set (users (test_world l)) \<and>
          ''bob'' \<in> user ` set (sharedWith report)" for l :: dev_blockchain
    by (simp add: report_def alice_def bob_def test_world_def)
  have facts: "penv dev_services = dev_penv" "NODE_ENV dev_penv = Some ''development''"
    "calls (test_world l) = []" "u_id alice = ''alice''" "docs (test_world l) = [(''d1'', report)]"
    "blockchainDocumentId report = ''0xalice-Qmabc-7''" "now test_env = 7"
    "sharedWith report = [\<lparr>user = ''bob'', sharedAt = 5, permissions = ''read''\<rparr>]"
    for l :: dev_blockchain
    by (simp_all add: dev_services_def dev_penv_def test_world_def alice_def report_def
          test_env_def)
  have n: "''carol'' \<notin> user ` set (sharedWith report)"
    by (simp add: report_def)
  from revoke_policy [OF h [of DevBlockchainService], of "''carol''" dev_services test_env alice,
      THEN conjunct1] n
  obtain r0 where r0: "revoke dev_services test_env (test_world DevBlockchainService) alice ''d1''
                         ''carol'' = (r0, test_world DevBlockchainService)"
    by blast
  have "fst (revoke dev_services test_env (test_world DevBlockchainService) alice ''d1'' ''carol'')
          = json 400 ''Document is not shared with this user''"
    by (simp add: revoke_def Let_def validateDocumentOwnership_def findById_def report_def
          alice_def test_world_def bob_def carol_def json_def)
  with r0 have part1: "revoke dev_services test_env (test_world DevBlockchainService) alice ''d1''
                         ''carol'' =
     (json 400 ''Document is not shared with this user'', test_world DevBlockchainService)"
    by simp
  have r: "bs_revokeAccess (blockchainService dev_services) test_env
             (ledger (test_world DevBlockchainService)) (u_id alice)
             (blockchainDocumentId report) ''bob'' =
           (Inl ''Failed to revoke access on dev blockchain: Document not found'',
            cached test_crypto ''bob'' (cached test_crypto ''alice'' DevBlockchainService))"
    by (simp add: dev_services_def dev_blockchain_service_def dev_revokeAccess_def
          test_world_def DevBlockchainService_def getUserWallet_def cached_def Let_def alice_def)
  have "revoke dev_services test_env (test_world DevBlockchainService) alice ''d1'' ''bob'' =
          (revoke_catch dev_services ''Failed to revoke access on dev blockchain: Document not found'',
           (test_world DevBlockchainService)
             \<lparr>ledger := cached test_crypto ''bob'' (cached test_crypto ''alice'' DevBlockchainService),
              calls := calls (test_world DevBlockchainService) @
                [LedgerRevokeAccess (u_id alice) (blockchainDocumentId report) ''bob'']\<rparr>)"
    using revoke_policy [OF h [of DevBlockchainService], of "''bob''" dev_services test_env alice,
        THEN conjunct2] p
    by (simp only: r prod.case sum.case simp_thms)
  then have part2: "fst (revoke dev_services test_env (test_world DevBlockchainService) alice ''d1''
                          ''bob'') =
     \<lparr>status = 500, message = ''Error revoking document access'',
      error_detail = Some ''Failed to revoke access on dev blockchain: Document not found'',
      body = NoBody\<rparr> \<and>
   docs (snd (revoke dev_services test_env (test_world DevBlockchainService) alice ''d1'' ''bob'')) =
     docs (test_world DevBlockchainService) \<and>
   calls (snd (revoke dev_services test_env (test_world DevBlockchainService) alice ''d1'' ''bob'')) =
     [LedgerRevokeAccess ''alice'' ''0xalice-Qmabc-7'' ''bob'']"
    by (simp add: revoke_catch_def json_error_def facts)
  have "fst (bs_revokeAccess (blockchainService dev_services) test_env
               (ledger (test_world registered_ledger)) (u_id alice)
               (blockchainDocumentId report) ''bob'') =
          Inr \<lparr>xr_transactionHash = ''0xab'', xr_blockNumber = 15000001,
               xr_targetWalletAddress = ''0xbob_wallet_seed''\<rparr>"
    by (simp add: dev_services_def dev_blockchain_service_def dev_revokeAccess_def
          registered_ledger_def dev_addDocument_def generateDocumentId_def string_of_nat_7
          test_world_def DevBlockchainService_def getUserWallet_def derive_wallet_def
          test_crypto_def test_env_def Let_def alice_def report_def)
  then obtain l2 where r2: "bs_revokeAccess (blockchainService dev_services) test_env
               (ledger (test_world registered_ledger)) (u_id alice)
               (blockchainDocumentId report) ''bob'' =
          (Inr \<lparr>xr_transactionHash = ''0xab'', xr_blockNumber = 15000001,
                xr_targetWalletAddress = ''0xbob_wallet_seed''\<rparr>, l2)"
    by (metis prod.collapse)
  have "revoke dev_services test_env (test_world registered_ledger) alice ''d1'' ''bob'' =
          (\<lparr>status = 200, message = ''Document access revoked successfully'',
            error_detail = None,
            body = RevocationBody ''bob'' (now test_env)
                     \<lparr>xr_transactionHash = ''0xab'', xr_blockNumber = 15000001,
                      xr_targetWalletAddress = ''0xbob_wallet_seed''\<rparr>\<rparr>,
           (test_world registered_ledger)
             \<lparr>ledger := l2,
              calls := calls (test_world registered_ledger) @
                [LedgerRevokeAccess (u_id alice) (blockchainDocumentId report) ''bob''],
              docs := AList.update ''d1''
                (report\<lparr>sharedWith := filter (\<lambda>s. user s \<noteq> ''bob'') (sharedWith report)\<rparr>)
                (docs (test_world registered_ledger))\<rparr>)"
    using revoke_policy [OF h [of registered_ledger], of "''bob''" dev_services test_env alice,
        THEN conjunct2] p
    by (simp only: r2 prod.case sum.case simp_thms)
  then have part3: "fst (revoke dev_services test_env (test_world registered_ledger) alice ''d1''
                          ''bob'') =
     \<lparr>status = 200, message = ''Document access revoked successfully'', error_detail = None,
      body = RevocationBody ''bob'' 7
               \<lparr>xr_transactionHash = ''0xab'', xr_blockNumber = 15000001,
                xr_targetWalletAddress = ''0xbob_wallet_seed''\<rparr>\<rparr> \<and>
   docs (snd (revoke dev_services test_env (test_world registered_ledger) alice ''d1'' ''bob'')) =
     [(''d1'', report\<lparr>sharedWith := []\<rparr>)]"
    by (simp add: facts)
  have m: "isDevelopmentMode (penv dev_services)"
    by (simp add: facts modes)
  from part1 part2 part3 m show ?thesis by (intro conjI) simp_all
qed


subsection \<open>Grant to a user who is already in the shared-with list\<close>

lemma update_first_split:
  assumes "\<not> list_ex P xs" and "P s"
  shows "update_first P f (xs @ s # ys) = xs @ f s # ys"
  using assms by (induction xs) auto

lemma find_update_first:
  assumes "find P xs = Some s" and "P (f s)"
  shows "find P (update_first P f xs) = Some (f s)"
  using assms by (induction xs) (auto split: if_splits)

lemma find_append_new:
  assumes "find P xs = None" and "P s"
  shows "find P (xs @ [s]) = Some s"
  using assms by (induction xs) (auto split: if_splits)

lemma find_split:
  assumes "find P xs = Some s"
  shows "\<exists>as bs. xs = as @ s # bs \<and> \<not> list_ex P as \<and> P s"
  using assms
proof (induction xs)
  case Nil
  then show ?case by simp
next
  case (Cons x xs)
  show ?case
  proof (cases "P x")
    case True
    with Cons.prems have "x # xs = [] @ s # xs \<and> \<not> list_ex P [] \<and> P s" by simp
    then show ?thesis by blast
  next
    case False
    with Cons obtain as bs where "xs = as @ s # bs" "\<not> list_ex P as" "P s" by auto
    with False have "x # xs = (x # as) @ s # bs \<and> \<not> list_ex P (x # as) \<and> P s" by simp
    then show ?thesis by blast
  qed
qed

lemma grant_existing_share:
  assumes "documentId \<noteq> []" and "userEmail \<noteq> []"
      and "pf \<in> {None, Some ''read'', Some ''write''}"
      and "map_of (docs w) documentId = Some d" and "isActive d" and "owner d = u_id u"
      and "find (\<lambda>x. u_email x = trim (toLowerCase userEmail) \<and> u_isActive x) (users w) = Some t"
      and "u_id t \<noteq> u_id u"
      and "find (\<lambda>s. user s = u_id t) (sharedWith d) = Some s"
  shows "grant svc e w u documentId userEmail pf =
          (if permissions s \<noteq> (case pf of None \<Rightarrow> ''read'' | Some p \<Rightarrow> p)
           then (\<lparr>status = 200, message = ''Document sharing permissions updated successfully'',
                  error_detail = None,
                  body = SharingBody (u_id t) (case pf of None \<Rightarrow> ''read'' | Some p \<Rightarrow> p)
                           (now e) None\<rparr>,
                 w\<lparr>docs := AList.update documentId
                      (d\<lparr>sharedWith := update_first (\<lambda>s. user s = u_id t)
                           (\<lambda>s. s\<lparr>permissions := (case pf of None \<Rightarrow> ''read'' | Some p \<Rightarrow> p),
                                   sharedAt := now e\<rparr>) (sharedWith d)\<rparr>) (docs w)\<rparr>)
           else (json 400 ''Document is already shared with this user'', w))"
proof -
  have p: "(case pf of None \<Rightarrow> ''read'' | Some p \<Rightarrow> p) \<in> set [''read'', ''write'']"
    using assms(3) by auto
  have f: "find (\<lambda>s. user s = u_id t) (sharedWith (d\<lparr>encryptionKey := None\<rparr>)) = Some s"
    using assms(9) by simp
  show ?thesis
    unfolding grant_def Let_def
    using assms(1,2,4,8) p f
    by (simp add: validateDocumentOwnership_ok [OF assms(4,5,6)] assms(7) save_def
          del: set_simps)
qed

lemma validateDocumentOwnership_Inr:
  assumes "validateDocumentOwnership w i uid = Inr d0"
  shows "\<exists>d. map_of (docs w) i = Some d \<and> isActive d \<and> owner d = uid"
  using assms
  by (auto simp: validateDocumentOwnership_def findById_def split: option.splits if_splits)

lemma grant_catch_status: "400 \<le> status (grant_catch svc msg)"
  by (simp add: grant_catch_def json_def json_error_def)

lemma grant_catch_not_200 [simp]: "status (grant_catch svc msg) \<noteq> 200"
  using grant_catch_status [of svc msg] by simp

lemma grant_200_prechecks:
  assumes "status (fst (grant svc e w u documentId userEmail pf)) = 200"
  shows "documentId \<noteq> [] \<and> userEmail \<noteq> [] \<and> pf \<in> {None, Some ''read'', Some ''write''} \<and>
         (\<exists>d. map_of (docs w) documentId = Some d \<and> isActive d \<and> owner d = u_id u) \<and>
         (\<exists>t. find (\<lambda>x. u_email x = trim (toLowerCase userEmail) \<and> u_isActive x) (users w)
                = Some t \<and> u_id t \<noteq> u_id u)"
proof -
  have a: "documentId \<noteq> [] \<and> userEmail \<noteq> []"
    using assms by (auto simp: grant_def Let_def json_def)
  have b: "pf \<in> {None, Some ''read'', Some ''write''}"
    using assms a by (cases pf) (auto simp: grant_def Let_def json_def split: if_splits)
  then have p: "(case pf of None \<Rightarrow> ''read'' | Some p \<Rightarrow> p) \<in> set [''read'', ''write'']"
    by auto
  have c: "\<exists>d0. validateDocumentOwnership w documentId (u_id u) = Inr d0"
  proof (cases "validateDocumentOwnership w documentId (u_id u)")
    case (Inl msg)
    with assms a p grant_catch_status [of svc msg] show ?thesis
      by (simp add: grant_def Let_def del: set_simps)
  next
    case (Inr d0)
    then show ?thesis by simp
  qed
  then obtain d0 where d0: "validateDocumentOwnership w documentId (u_id u) = Inr d0" ..
  have t: "\<exists>t. find (\<lambda>x. u_email x = trim (toLowerCase userEmail) \<and> u_isActive x) (users w)
                = Some t \<and> u_id t \<noteq> u_id u"
  proof (cases "find (\<lambda>x. u_email x = trim (toLowerCase userEmail) \<and> u_isActive x) (users w)")
    case None
    with assms a p d0 show ?thesis
      by (simp add: grant_def Let_def json_def del: set_simps)
  next
    case (Some t)
    with assms a p d0 show ?thesis
      by (cases "u_id t = u_id u") (simp_all add: grant_def Let_def json_def del: set_simps)
  qed
  from a b validateDocumentOwnership_Inr [OF d0] t show ?thesis by simp
qed

lemma grant_twice:
  assumes "status (fst (grant svc e w u documentId userEmail pf)) = 200"
  shows "grant svc e' (snd (grant svc e w u documentId userEmail pf)) u documentId userEmail pf =
           (json 400 ''Document is already shared with this user'',
            snd (grant svc e w u documentId userEmail pf))"
proof -
  let ?perms = "case pf of None \<Rightarrow> ''read'' | Some p \<Rightarrow> p"
  let ?w' = "snd (grant svc e w u documentId userEmail pf)"
  from grant_200_prechecks [OF assms] obtain d t where
    pre: "documentId \<noteq> []" "userEmail \<noteq> []" "pf \<in> {None, Some ''read'', Some ''write''}"
    and d: "map_of (docs w) documentId = Some d" "isActive d" "owner d = u_id u"
    and t: "find (\<lambda>x. u_email x = trim (toLowerCase userEmail) \<and> u_isActive x) (users w) = Some t"
           "u_id t \<noteq> u_id u"
    by blast
  have after: "\<exists>d' s. users ?w' = users w \<and> map_of (docs ?w') documentId = Some d' \<and>
                  isActive d' \<and> owner d' = u_id u \<and>
                  find (\<lambda>s. user s = u_id t) (sharedWith d') = Some s \<and> permissions s = ?perms"
  proof (cases "find (\<lambda>s. user s = u_id t) (sharedWith d)")
    case (Some s)
    note g = grant_existing_share [OF pre d t Some, of svc e]
    show ?thesis
    proof (cases "permissions s = ?perms")
      case True
      with g d Some show ?thesis by simp
    next
      case False
      have "find (\<lambda>s. user s = u_id t)
              (update_first (\<lambda>s. user s = u_id t)
                 (\<lambda>s. s\<lparr>permissions := ?perms, sharedAt := now e\<rparr>) (sharedWith d)) =
            Some (s\<lparr>permissions := ?perms, sharedAt := now e\<rparr>)"
        using Some by (intro find_update_first) (auto simp: find_Some_iff)
      with False g d show ?thesis by (simp add: update_conv')
    qed
  next
    case None
    then have ns: "u_id t \<notin> user ` set (sharedWith d)"
      by (simp add: find_None_user)
    obtain r l where call: "bs_grantAccess (blockchainService svc) e (ledger w) (u_id u)
                               (blockchainDocumentId d) (u_email t) (u_id t) = (r, l)"
      by (cases "bs_grantAccess (blockchainService svc) e (ledger w) (u_id u)
                   (blockchainDocumentId d) (u_email t) (u_id t)")
    let ?w1 = "w\<lparr>ledger := l,
                  calls := calls w @ [LedgerGrantAccess (u_id u) (blockchainDocumentId d)
                                        (u_email t) (u_id t)]\<rparr>"
    have d1: "map_of (docs ?w1) documentId = Some d" using d(1) by simp
    have o: "owner d \<noteq> u_id t" using d(3) t(2) by simp
    note gu = grant_update_new [OF d1 o ns, of e ?perms]
    have fa: "find (\<lambda>s. user s = u_id t)
                (sharedWith d @ [\<lparr>user = u_id t, sharedAt = now e, permissions = ?perms\<rparr>]) =
              Some \<lparr>user = u_id t, sharedAt = now e, permissions = ?perms\<rparr>"
      using None by (intro find_append_new) simp_all
    have "grant svc e w u documentId userEmail pf =
            (case (r, ?w1) of
               (Inr br, w1) \<Rightarrow> grant_update e w1 documentId (d\<lparr>encryptionKey := None\<rparr>) t ?perms br
             | (Inl err, w1) \<Rightarrow>
                 if isDevelopmentMode (penv svc)
                 then grant_update e w1 documentId (d\<lparr>encryptionKey := None\<rparr>) t ?perms
                        \<lparr>xr_transactionHash = ''0xdev_'' @ randomSuffix e,
                         xr_blockNumber = randomBlock e,
                         xr_targetWalletAddress = ''0xdev_address''\<rparr>
                 else (grant_catch svc err, w1))"
      using call by (simp add: grant_new_target [OF pre d t ns] ledger_grantAccess_def)
    with assms d fa show ?thesis
      by (cases r) (auto simp: gu update_conv' split: if_splits)
  qed
  then obtain d' s where
    u': "users ?w' = users w" and d': "map_of (docs ?w') documentId = Some d'" "isActive d'"
      "owner d' = u_id u"
    and s: "find (\<lambda>s. user s = u_id t) (sharedWith d') = Some s" "permissions s = ?perms"
    by blast
  from t u' have t': "find (\<lambda>x. u_email x = trim (toLowerCase userEmail) \<and> u_isActive x)
                        (users ?w') = Some t" "u_id t \<noteq> u_id u"
    by simp_all
  from grant_existing_share [OF pre d' t' s(1), of svc e'] s(2) show ?thesis
    by simp
qed

text \<open>
  Claim C7. A grant by the owner to an active user whose first entry in the shared-with
  list is \<open>s\<close>: with the permission \<open>s\<close> already has, the route answers 400 and the
  world is exactly as before (no entry added, no ledger call); with the other permission,
  it answers 200 and the world differs only in the stored document, where that entry has
  the new permission and shared-at time and every other entry is as it was (the ledger
  state and the call log are untouched). And whenever a grant has answered 200, the same
  request made again is answered 400 and changes nothing.
\<close>

theorem grant_already_shared:
  assumes "documentId \<noteq> []" and "userEmail \<noteq> []"
      and "pf \<in> {None, Some ''read'', Some ''write''}"
      and "map_of (docs w) documentId = Some d" and "isActive d" and "owner d = u_id u"
      and "find (\<lambda>x. u_email x = trim (toLowerCase userEmail) \<and> u_isActive x) (users w) = Some t"
      and "u_id t \<noteq> u_id u"
      and "sharedWith d = before @ s # after"
      and "user s = u_id t" and "u_id t \<notin> user ` set before"
  shows "(permissions s = (case pf of None \<Rightarrow> ''read'' | Some p \<Rightarrow> p) \<longrightarrow>
            grant svc e w u documentId userEmail pf =
              (json 400 ''Document is already shared with this user'', w)) \<and>
         (permissions s \<noteq> (case pf of None \<Rightarrow> ''read'' | Some p \<Rightarrow> p) \<longrightarrow>
            grant svc e w u documentId userEmail pf =
              (\<lparr>status = 200, message = ''Document sharing permissions updated successfully'',
                error_detail = None,
                body = SharingBody (u_id t) (case pf of None \<Rightarrow> ''read'' | Some p \<Rightarrow> p)
                         (now e) None\<rparr>,
               w\<lparr>docs := AList.update documentId
                    (d\<lparr>sharedWith := before @
                         s\<lparr>permissions := (case pf of None \<Rightarrow> ''read'' | Some p \<Rightarrow> p),
                           sharedAt := now e\<rparr> # after\<rparr>) (docs w)\<rparr>)) \<and>
         (status (fst (grant svc e0 w0 u0 documentId userEmail pf)) = 200 \<longrightarrow>
            grant svc e (snd (grant svc e0 w0 u0 documentId userEmail pf)) u0 documentId
                userEmail pf =
              (json 400 ''Document is already shared with this user'',
               snd (grant svc e0 w0 u0 documentId userEmail pf)))"
proof -
  have nb: "\<not> list_ex (\<lambda>x. user x = u_id t) before"
    using assms(11) by (simp add: list_ex_user)
  have f: "find (\<lambda>x. user x = u_id t) (sharedWith d) = Some s"
    using assms(9,10) nb by (auto simp: find_Some_iff list_ex_iff nth_append
        intro!: exI [of _ "length before"])
  have up: "update_first (\<lambda>x. user x = u_id t) g (sharedWith d) = before @ g s # after" for g
    using assms(9,10) nb by (simp add: update_first_split)
  show ?thesis
    by (simp add: grant_existing_share [OF assms(1-8) f] up grant_twice)
qed

theorem grant_already_shared_witness:
  "grant dev_services test_env (test_world DevBlockchainService) alice ''d1'' ''bob@x.org''
     (Some ''read'') =
     (json 400 ''Document is already shared with this user'', test_world DevBlockchainService) \<and>
   grant dev_services test_env (test_world DevBlockchainService) alice ''d1'' ''bob@x.org''
     (Some ''write'') =
     (\<lparr>status = 200, message = ''Document sharing permissions updated successfully'',
       error_detail = None, body = SharingBody ''bob'' ''write'' 7 None\<rparr>,
      (test_world DevBlockchainService)
        \<lparr>docs := [(''d1'', report\<lparr>sharedWith :=
                      [\<lparr>user = ''bob'', sharedAt = 7, permissions = ''write''\<rparr>]\<rparr>)]\<rparr>) \<and>
   status (fst (grant dev_services test_env (test_world DevBlockchainService) alice ''d1''
                  ''bob@x.org'' (Some ''write''))) = 200 \<and>
   fst (grant dev_services test_env
          (snd (grant dev_services test_env (test_world DevBlockchainService) alice ''d1''
                  ''bob@x.org'' (Some ''write'')))
          alice ''d1'' ''bob@x.org'' (Some ''write'')) =
     json 400 ''Document is already shared with this user''"
proof -
  have h1: "''d1'' \<noteq> []" and h2: "''bob@x.org'' \<noteq> []" by simp_all
  have h3: "Some ''read'' \<in> {None, Some ''read'', Some ''write''}"
    and h3': "Some ''write'' \<in> {None, Some ''read'', Some ''write''}" by simp_all
  have h4: "map_of (docs (test_world DevBlockchainService)) ''d1'' = Some report"
    by (simp add: test_world_def)
  have h5: "isActive report" and h6: "owner report = u_id alice"
    by (simp_all add: report_def alice_def)
  have n: "trim (toLowerCase ''bob@x.org'') = ''bob@x.org''"
    by (simp add: trim_def toLowerCase_def lower_char_def is_space_def)
  have h7: "find (\<lambda>x. u_email x = trim (toLowerCase ''bob@x.org'') \<and> u_isActive x)
              (users (test_world DevBlockchainService)) = Some bob"
    by (simp add: n test_world_def alice_def bob_def)
  have h8: "u_id bob \<noteq> u_id alice"
    by (simp add: bob_def alice_def)
  have h9: "sharedWith report = [] @ \<lparr>user = ''bob'', sharedAt = 5, permissions = ''read''\<rparr> # []"
    by (simp add: report_def)
  have h10: "user \<lparr>user = ''bob'', sharedAt = 5, permissions = ''read''\<rparr> = u_id bob"
    and h11: "u_id bob \<notin> user ` set []"
    by (simp_all add: bob_def)
  note same = grant_already_shared [OF h1 h2 h3 h4 h5 h6 h7 h8 h9 h10 h11,
      of dev_services test_env, THEN conjunct1]
  note other = grant_already_shared [OF h1 h2 h3' h4 h5 h6 h7 h8 h9 h10 h11,
      of dev_services test_env, THEN conjunct2, THEN conjunct1]
  note again = grant_already_shared [OF h1 h2 h3' h4 h5 h6 h7 h8 h9 h10 h11,
      of dev_services test_env test_env "test_world DevBlockchainService" alice,
      THEN conjunct2, THEN conjunct2]
  have a: "grant dev_services test_env (test_world DevBlockchainService) alice ''d1'' ''bob@x.org''
     (Some ''read'') =
     (json 400 ''Document is already shared with this user'', test_world DevBlockchainService)"
    using same by simp
  have b: "grant dev_services test_env (test_world DevBlockchainService) alice ''d1'' ''bob@x.org''
     (Some ''write'') =
     (\<lparr>status = 200, message = ''Document sharing permissions updated successfully'',
       error_detail = None, body = SharingBody ''bob'' ''write'' 7 None\<rparr>,
      (test_world DevBlockchainService)
        \<lparr>docs := [(''d1'', report\<lparr>sharedWith :=
                      [\<lparr>user = ''bob'', sharedAt = 7, permissions = ''write''\<rparr>]\<rparr>)]\<rparr>)"
    using other by (simp add: bob_def test_env_def test_world_def)
  from a b again show ?thesis by simp
qed


subsection \<open>Batch grant\<close>

lemma batch_catch_status: "400 \<le> status (batch_catch svc msg)"
  by (simp add: batch_catch_def json_def json_error_def)

lemma batch_too_many:
  assumes "50 < length userEmails"
  shows "\<exists>r. batch_grant svc e w u documentId userEmails pf = (r, w) \<and> status r = 400 \<and>
             (documentId \<noteq> [] \<longrightarrow> r = json 400 ''Cannot share with more than 50 users at once'')"
  using assms by (auto simp: batch_grant_def Let_def json_def)

lemma batch_grant_valid:
  assumes "documentId \<noteq> []" and "userEmails \<noteq> []" and "length userEmails \<le> 50"
      and "pf \<in> {None, Some ''read'', Some ''write''}"
      and "map_of (docs w) documentId = Some d" and "isActive d" and "owner d = u_id u"
      and "emails = map (\<lambda>email. trim (toLowerCase email)) userEmails"
      and "targetUsers = filter (\<lambda>x. u_email x \<in> set emails \<and> u_isActive x) (users w)"
      and "validUsers = filter (\<lambda>x. u_id x \<noteq> u_id u \<and> u_id x \<notin> user ` set (sharedWith d))
                          targetUsers"
  shows "batch_grant svc e w u documentId userEmails pf =
          (if targetUsers = [] then (json 404 ''No valid users found'', w)
           else if validUsers = []
           then (json 400 ''No new users to share with (already shared or includes owner)'', w)
           else
            (case bs_batchGrantAccess (blockchainService svc) e (ledger w) (u_id u)
                    (blockchainDocumentId d) (map u_id validUsers) of
               (Inl msg, l) \<Rightarrow>
                 (batch_catch svc msg,
                  w\<lparr>ledger := l,
                    calls := calls w @ [LedgerBatchGrantAccess (u_id u) (blockchainDocumentId d)
                                          (map u_id validUsers)]\<rparr>)
             | (Inr br, l) \<Rightarrow>
                 (case share_all (d\<lparr>encryptionKey := None\<rparr>) validUsers
                         (case pf of None \<Rightarrow> ''read'' | Some p \<Rightarrow> p) (now e) [] of
                    (d', results) \<Rightarrow>
                      (\<lparr>status = 200,
                        message = ''Document shared with '' @ string_of_nat (length results) @
                                  '' users successfully'',
                        error_detail = None,
                        body = BatchBody (map u_id results)
                                 (filter (\<lambda>email. email \<notin> u_email ` set targetUsers) emails)
                                 (length userEmails) (length results) br\<rparr>,
                       save (w\<lparr>ledger := l,
                               calls := calls w @ [LedgerBatchGrantAccess (u_id u)
                                  (blockchainDocumentId d) (map u_id validUsers)]\<rparr>)
                         documentId d'))))"
proof -
  have p: "(case pf of None \<Rightarrow> ''read'' | Some p \<Rightarrow> p) \<in> set [''read'', ''write'']"
    using assms(4) by auto
  have le: "\<not> 50 < length userEmails" using assms(3) by simp
  show ?thesis
    unfolding batch_grant_def Let_def
    using assms(1,2) p le
    by (simp add: validateDocumentOwnership_ok [OF assms(5,6,7)] list_ex_user
          assms(8,9,10) ledger_batchGrantAccess_def
          del: set_simps split: prod.splits sum.splits)
qed

lemma not_found_emails:
  "filter (\<lambda>email. email \<notin> u_email ` set (filter (\<lambda>x. u_email x \<in> set emails \<and> u_isActive x) us))
     emails =
   filter (\<lambda>email. \<not> list_ex (\<lambda>x. u_email x = email \<and> u_isActive x) us) emails"
  by (rule filter_cong) (auto simp: list_ex_iff)

lemma save_fields [simp]:
  "calls (save w i x) = calls w" "ledger (save w i x) = ledger w"
  "blobs (save w i x) = blobs w" "users (save w i x) = users w"
  by (simp_all add: save_def split: option.splits)

text \<open>
  Claim C6. A batch grant with more than 50 e-mails is answered 400 and leaves the world as
  it was (no ledger call). For a request of the owner that passes validation, with the
  e-mails resolved to active users and the owner and the users already in the shared-with
  list filtered out: when nobody remains, the route answers an error and leaves the world
  as it was (no ledger call), and the error is 404 \<open>No valid users found\<close> when no
  e-mail resolved to an active user, and the nothing-to-do error 400
  \<open>No new users to share with\<close> when some e-mail resolved; when somebody remains, the
  request makes exactly one adapter call, \<open>batchGrantAccess\<close> with the ids of all who
  remain, and when that call returns the answer is 200 and lists as not found the
  normalised input e-mails that belong to no active user.
\<close>

theorem batch_grant_policy:
  assumes "emails = map (\<lambda>email. trim (toLowerCase email)) userEmails"
      and "targetUsers = filter (\<lambda>x. u_email x \<in> set emails \<and> u_isActive x) (users w)"
      and "validUsers = filter (\<lambda>x. u_id x \<noteq> u_id u \<and> u_id x \<notin> user ` set (sharedWith d))
                          targetUsers"
  shows "(50 < length userEmails \<longrightarrow>
           (\<exists>r. batch_grant svc e w u documentId userEmails pf = (r, w) \<and> status r = 400)) \<and>
         (documentId \<noteq> [] \<and> userEmails \<noteq> [] \<and> length userEmails \<le> 50 \<and>
          pf \<in> {None, Some ''read'', Some ''write''} \<and>
          map_of (docs w) documentId = Some d \<and> isActive d \<and> owner d = u_id u \<longrightarrow>
           (validUsers = [] \<longrightarrow>
              batch_grant svc e w u documentId userEmails pf =
                (if targetUsers = [] then json 404 ''No valid users found''
                 else json 400 ''No new users to share with (already shared or includes owner)'',
                 w)) \<and>
           (validUsers \<noteq> [] \<longrightarrow>
              new_calls w (snd (batch_grant svc e w u documentId userEmails pf)) =
                [LedgerBatchGrantAccess (u_id u) (blockchainDocumentId d) (map u_id validUsers)] \<and>
              (fst (bs_batchGrantAccess (blockchainService svc) e (ledger w) (u_id u)
                      (blockchainDocumentId d) (map u_id validUsers)) = Inr br \<longrightarrow>
                 (\<exists>shared. fst (batch_grant svc e w u documentId userEmails pf) =
                    \<lparr>status = 200,
                     message = ''Document shared with '' @ string_of_nat (length shared) @
                               '' users successfully'',
                     error_detail = None,
                     body = BatchBody shared
                              (filter (\<lambda>email. \<not> list_ex (\<lambda>x. u_email x = email \<and> u_isActive x)
                                                   (users w)) emails)
                              (length userEmails) (length shared) br\<rparr>))))"
proof (intro conjI impI)
  assume "50 < length userEmails"
  from batch_too_many [OF this]
  show "\<exists>r. batch_grant svc e w u documentId userEmails pf = (r, w) \<and> status r = 400"
    by blast
next
  assume a: "documentId \<noteq> [] \<and> userEmails \<noteq> [] \<and> length userEmails \<le> 50 \<and>
          pf \<in> {None, Some ''read'', Some ''write''} \<and>
          map_of (docs w) documentId = Some d \<and> isActive d \<and> owner d = u_id u"
  then have v: "documentId \<noteq> []" "userEmails \<noteq> []" "length userEmails \<le> 50"
    "pf \<in> {None, Some ''read'', Some ''write''}"
    "map_of (docs w) documentId = Some d" "isActive d" "owner d = u_id u"
    by simp_all
  note path = batch_grant_valid [OF v assms, of svc e]
  {
    assume "validUsers = []"
    with path show "batch_grant svc e w u documentId userEmails pf =
                (if targetUsers = [] then json 404 ''No valid users found''
                 else json 400 ''No new users to share with (already shared or includes owner)'',
                 w)"
      by simp
  }
  {
    assume ne: "validUsers \<noteq> []"
    then have tne: "targetUsers \<noteq> []"
      using assms(3) by auto
    obtain r l where call: "bs_batchGrantAccess (blockchainService svc) e (ledger w) (u_id u)
                              (blockchainDocumentId d) (map u_id validUsers) = (r, l)"
      by (cases "bs_batchGrantAccess (blockchainService svc) e (ledger w) (u_id u)
                   (blockchainDocumentId d) (map u_id validUsers)")
    obtain d' results where sh: "share_all (d\<lparr>encryptionKey := None\<rparr>) validUsers
                         (case pf of None \<Rightarrow> ''read'' | Some p \<Rightarrow> p) (now e) [] = (d', results)"
      by (cases "share_all (d\<lparr>encryptionKey := None\<rparr>) validUsers
                         (case pf of None \<Rightarrow> ''read'' | Some p \<Rightarrow> p) (now e) []")
    show "new_calls w (snd (batch_grant svc e w u documentId userEmails pf)) =
            [LedgerBatchGrantAccess (u_id u) (blockchainDocumentId d) (map u_id validUsers)]"
      using ne tne call sh by (cases r) (simp_all add: path new_calls_def)
    {
      assume "fst (bs_batchGrantAccess (blockchainService svc) e (ledger w) (u_id u)
                      (blockchainDocumentId d) (map u_id validUsers)) = Inr br"
      with call have r: "r = Inr br" by simp
      have nf: "filter (\<lambda>email. email \<notin> u_email ` set targetUsers) emails =
                filter (\<lambda>email. \<not> list_ex (\<lambda>x. u_email x = email \<and> u_isActive x) (users w)) emails"
        unfolding assms(2) by (rule not_found_emails)
      have "fst (batch_grant svc e w u documentId userEmails pf) =
                    \<lparr>status = 200,
                     message = ''Document shared with '' @
                               string_of_nat (length (map u_id results)) @
                               '' users successfully'',
                     error_detail = None,
                     body = BatchBody (map u_id results)
                              (filter (\<lambda>email. \<not> list_ex (\<lambda>x. u_email x = email \<and> u_isActive x)
                                                   (users w)) emails)
                              (length userEmails) (length (map u_id results)) br\<rparr>"
        using ne tne call sh r by (simp add: path nf)
      then show "\<exists>shared. fst (batch_grant svc e w u documentId userEmails pf) =
                    \<lparr>status = 200,
                     message = ''Document shared with '' @ string_of_nat (length shared) @
                               '' users successfully'',
                     error_detail = None,
                     body = BatchBody shared
                              (filter (\<lambda>email. \<not> list_ex (\<lambda>x. u_email x = email \<and> u_isActive x)
                                                   (users w)) emails)
                              (length userEmails) (length shared) br\<rparr>"
        by blast
    }
  }
qed

theorem batch_grant_policy_witness:
  "batch_grant dev_services test_env (test_world DevBlockchainService) alice ''d1''
     (replicate 51 ''carol@x.org'') None =
     (json 400 ''Cannot share with more than 50 users at once'', test_world DevBlockchainService) \<and>
   batch_grant dev_services test_env (test_world DevBlockchainService) alice ''d1''
     [''bob@x.org''] None =
     (json 400 ''No new users to share with (already shared or includes owner)'',
      test_world DevBlockchainService) \<and>
   batch_grant dev_services test_env (test_world DevBlockchainService) alice ''d1''
     [''nobody@x.org''] None =
     (json 404 ''No valid users found'', test_world DevBlockchainService) \<and>
   new_calls (test_world DevBlockchainService)
     (snd (batch_grant dev_services test_env (test_world DevBlockchainService) alice ''d1''
             [''Bob@x.org'', ''nobody@x.org'', ''carol@x.org''] None)) =
     [LedgerBatchGrantAccess ''alice'' ''0xalice-Qmabc-7'' [''carol'']] \<and>
   (\<exists>shared.
      fst (batch_grant dev_services test_env (test_world DevBlockchainService) alice ''d1''
             [''Bob@x.org'', ''nobody@x.org'', ''carol@x.org''] None) =
        \<lparr>status = 200,
         message = ''Document shared with '' @ string_of_nat (length shared) @
                   '' users successfully'',
         error_detail = None,
         body = BatchBody shared [''nobody@x.org''] 3 (length shared)
                  \<lparr>br_transactionHash = ''0xab'', br_blockNumber = 15000001,
                   br_targetAddresses = [''0xcarol_wallet_seed'']\<rparr>\<rparr>)"
proof -
  let ?w = "test_world DevBlockchainService"
  let ?mails = "[''Bob@x.org'', ''nobody@x.org'', ''carol@x.org'']"
  have em: "[''bob@x.org'', ''nobody@x.org'', ''carol@x.org''] =
              map (\<lambda>email. trim (toLowerCase email)) ?mails"
    by (simp add: trim_def toLowerCase_def lower_char_def is_space_def)
  have tu: "[bob, carol] =
              filter (\<lambda>x. u_email x \<in> set [''bob@x.org'', ''nobody@x.org'', ''carol@x.org''] \<and>
                          u_isActive x) (users ?w)"
    by (simp add: test_world_def alice_def bob_def carol_def)
  have vu: "[carol] =
              filter (\<lambda>x. u_id x \<noteq> u_id alice \<and> u_id x \<notin> user ` set (sharedWith report))
                [bob, carol]"
    by (simp add: alice_def bob_def carol_def report_def)
  have d: "map_of (docs ?w) ''d1'' = Some report \<and> isActive report \<and> owner report = u_id alice"
    by (simp add: test_world_def report_def alice_def)
  have p: "''d1'' \<noteq> [] \<and> ?mails \<noteq> [] \<and> length ?mails \<le> 50 \<and>
          None \<in> {None, Some ''read'', Some ''write''} \<and>
          map_of (docs ?w) ''d1'' = Some report \<and> isActive report \<and> owner report = u_id alice"
    using d by simp
  have ids: "u_id alice = ''alice''" "blockchainDocumentId report = ''0xalice-Qmabc-7''"
    "map u_id [carol] = [''carol'']"
    by (simp_all add: alice_def report_def carol_def)
  have call: "fst (bs_batchGrantAccess (blockchainService dev_services) test_env (ledger ?w)
                     ''alice'' ''0xalice-Qmabc-7'' [''carol'']) =
              Inr \<lparr>br_transactionHash = ''0xab'', br_blockNumber = 15000001,
                   br_targetAddresses = [''0xcarol_wallet_seed'']\<rparr>"
    by (simp add: dev_services_def dev_blockchain_service_def dev_batchGrantAccess_def
          test_world_def DevBlockchainService_def getUserWallet_def derive_wallet_def
          test_crypto_def test_env_def Let_def)
  have nf: "filter (\<lambda>email. \<not> list_ex (\<lambda>x. u_email x = email \<and> u_isActive x) (users ?w))
              [''bob@x.org'', ''nobody@x.org'', ''carol@x.org''] = [''nobody@x.org'']"
    by (simp add: test_world_def alice_def bob_def carol_def)
  note pol = batch_grant_policy [OF em tu vu, where svc = dev_services and e = test_env
      and documentId = "''d1''" and pf = None,
      THEN conjunct2, THEN mp, OF p, THEN conjunct2, THEN mp]
  have "[carol] \<noteq> []" by simp
  from pol [OF this] call
  have part3: "new_calls ?w (snd (batch_grant dev_services test_env ?w alice ''d1'' ?mails None)) =
     [LedgerBatchGrantAccess ''alice'' ''0xalice-Qmabc-7'' [''carol'']] \<and>
   (\<exists>shared.
      fst (batch_grant dev_services test_env ?w alice ''d1'' ?mails None) =
        \<lparr>status = 200,
         message = ''Document shared with '' @ string_of_nat (length shared) @
                   '' users successfully'',
         error_detail = None,
         body = BatchBody shared [''nobody@x.org''] 3 (length shared)
                  \<lparr>br_transactionHash = ''0xab'', br_blockNumber = 15000001,
                   br_targetAddresses = [''0xcarol_wallet_seed'']\<rparr>\<rparr>)"
    by (simp only: ids nf list.size One_nat_def add_Suc add_0 numeral_3_eq_3 simp_thms)
  have many: "50 < length (replicate 51 ''carol@x.org'')" by simp
  from batch_grant_policy [OF refl refl refl, where userEmails = "replicate 51 ''carol@x.org''"
      and svc = dev_services and e = test_env and w = ?w and u = alice
      and documentId = "''d1''" and pf = None, THEN conjunct1, THEN mp, OF many]
  obtain r where r: "batch_grant dev_services test_env ?w alice ''d1''
                       (replicate 51 ''carol@x.org'') None = (r, ?w)" "status r = 400"
    by blast
  have "fst (batch_grant dev_services test_env ?w alice ''d1''
                       (replicate 51 ''carol@x.org'') None) =
          json 400 ''Cannot share with more than 50 users at once''"
    by (simp add: batch_grant_def Let_def)
  with r have part1: "batch_grant dev_services test_env ?w alice ''d1''
     (replicate 51 ''carol@x.org'') None =
     (json 400 ''Cannot share with more than 50 users at once'', ?w)"
    by simp
  have em2: "[''bob@x.org''] = map (\<lambda>email. trim (toLowerCase email)) [''bob@x.org'']"
    by (simp add: trim_def toLowerCase_def lower_char_def is_space_def)
  have tu2: "[bob] = filter (\<lambda>x. u_email x \<in> set [''bob@x.org''] \<and> u_isActive x) (users ?w)"
    by (simp add: test_world_def alice_def bob_def carol_def)
  have vu2: "[] = filter (\<lambda>x. u_id x \<noteq> u_id alice \<and> u_id x \<notin> user ` set (sharedWith report))
                     [bob]"
    by (simp add: alice_def bob_def report_def)
  have p2: "''d1'' \<noteq> [] \<and> [''bob@x.org''] \<noteq> [] \<and> length [''bob@x.org''] \<le> 50 \<and>
          None \<in> {None, Some ''read'', Some ''write''} \<and>
          map_of (docs ?w) ''d1'' = Some report \<and> isActive report \<and> owner report = u_id alice"
    using d by simp
  from batch_grant_policy [OF em2 tu2 vu2, where svc = dev_services and e = test_env
      and documentId = "''d1''" and pf = None,
      THEN conjunct2, THEN mp, OF p2, THEN conjunct1, THEN mp, OF refl]
  have part2: "batch_grant dev_services test_env ?w alice ''d1'' [''bob@x.org''] None =
     (json 400 ''No new users to share with (already shared or includes owner)'', ?w)"
    by simp
  have em3: "[''nobody@x.org''] = map (\<lambda>email. trim (toLowerCase email)) [''nobody@x.org'']"
    by (simp add: trim_def toLowerCase_def lower_char_def is_space_def)
  have tu3: "[] = filter (\<lambda>x. u_email x \<in> set [''nobody@x.org''] \<and> u_isActive x) (users ?w)"
    by (simp add: test_world_def alice_def bob_def carol_def)
  have vu3: "[] = filter (\<lambda>x. u_id x \<noteq> u_id alice \<and> u_id x \<notin> user ` set (sharedWith report))
                     []"
    by simp
  have p3: "''d1'' \<noteq> [] \<and> [''nobody@x.org''] \<noteq> [] \<and> length [''nobody@x.org''] \<le> 50 \<and>
          None \<in> {None, Some ''read'', Some ''write''} \<and>
          map_of (docs ?w) ''d1'' = Some report \<and> isActive report \<and> owner report = u_id alice"
    using d by simp
  from batch_grant_policy [OF em3 tu3 vu3, where svc = dev_services and e = test_env
      and documentId = "''d1''" and pf = None,
      THEN conjunct2, THEN mp, OF p3, THEN conjunct1, THEN mp, OF refl]
  have part4: "batch_grant dev_services test_env ?w alice ''d1'' [''nobody@x.org''] None =
     (json 404 ''No valid users found'', ?w)"
    by simp
  from part1 part2 part3 part4 show ?thesis by (intro conjI) simp_all
qed

text \<open>
  An empty remaining set is not always answered with the nothing-to-do error: when no
  e-mail of the request belongs to an active user, nothing is left after filtering, and
  the route answers 404 \<open>No valid users found\<close>.
\<close>

theorem batch_grant_no_user_counterexample:
  "''nobody@x.org'' \<notin> u_email ` set (users (test_world DevBlockchainService)) \<and>
   map_of (docs (test_world DevBlockchainService)) ''d1'' = Some report \<and>
   isActive report \<and> owner report = u_id alice \<and>
   batch_grant dev_services test_env (test_world DevBlockchainService) alice ''d1''
     [''nobody@x.org''] None =
     (json 404 ''No valid users found'', test_world DevBlockchainService) \<and>
   json 404 ''No valid users found'' \<noteq>
     json 400 ''No new users to share with (already shared or includes owner)''"
proof -
  have d: "map_of (docs (test_world DevBlockchainService)) ''d1'' = Some report"
    "isActive report" "owner report = u_id alice"
    by (simp_all add: test_world_def report_def alice_def)
  have u: "''nobody@x.org'' \<notin> u_email ` set (users (test_world DevBlockchainService))"
    by (simp add: test_world_def alice_def bob_def carol_def)
  have em: "[''nobody@x.org''] = map (\<lambda>email. trim (toLowerCase email)) [''nobody@x.org'']"
    by (simp add: trim_def toLowerCase_def lower_char_def is_space_def)
  have tu: "[] = filter (\<lambda>x. u_email x \<in> set [''nobody@x.org''] \<and> u_isActive x)
                   (users (test_world DevBlockchainService))"
    by (simp add: test_world_def alice_def bob_def carol_def)
  have "batch_grant dev_services test_env (test_world DevBlockchainService) alice ''d1''
          [''nobody@x.org''] None =
        (json 404 ''No valid users found'', test_world DevBlockchainService)"
    using batch_grant_valid [OF _ _ _ _ d em tu refl, of None dev_services test_env]
    by simp
  with d u show ?thesis
    by (simp add: json_def)
qed



subsection \<open>Upload\<close>

lemma upload_catch_status: "400 \<le> status (upload_catch svc msg)"
  by (simp add: upload_catch_def json_def json_error_def)

lemma upload_valid:
  assumes "titleField \<noteq> []" and "trim titleField \<noteq> []" and "length titleField \<le> 100"
  shows "upload svc e w u (Some f) titleField description encrypt =
          (case fs_uploadFile (ipfsService svc) e (blobs w) (file_buffer f) (encrypt = Some ''true'') of
             (Inl msg, b) \<Rightarrow>
               (upload_catch svc msg,
                w\<lparr>blobs := b,
                  calls := calls w @ [BlobUpload (file_buffer f) (encrypt = Some ''true'')]\<rparr>)
           | (Inr ipfsResult, b) \<Rightarrow>
              (let metadata = JSON_stringify svc
                      \<lparr>md_title = trim titleField,
                       md_description = (case description of None \<Rightarrow> [] | Some d \<Rightarrow> trim d),
                       md_originalName = originalname f, md_mimeType = mimetype f,
                       md_size = file_size f, md_uploadedAt = now e\<rparr>
               in (case bs_addDocument (blockchainService svc) e (ledger w) (u_id u)
                         (ur_ipfsHash ipfsResult) metadata of
                     (Inl msg, l) \<Rightarrow>
                       (upload_catch svc msg,
                        w\<lparr>blobs := b, ledger := l,
                          calls := calls w @
                            [BlobUpload (file_buffer f) (encrypt = Some ''true''),
                             LedgerAddDocument (u_id u) (ur_ipfsHash ipfsResult) metadata]\<rparr>)
                   | (Inr blockchainResult, l) \<Rightarrow>
                      (let w2 = w\<lparr>blobs := b, ledger := l,
                                  calls := calls w @
                                    [BlobUpload (file_buffer f) (encrypt = Some ''true''),
                                     LedgerAddDocument (u_id u) (ur_ipfsHash ipfsResult) metadata]\<rparr>;
                           document =
                             \<lparr>title = trim titleField, originalName = trim (originalname f),
                              mimeType = mimetype f, size_bytes = file_size f,
                              ipfsHash = ur_ipfsHash ipfsResult,
                              blockchainDocumentId = ar_documentId blockchainResult,
                              owner = u_id u,
                              isEncrypted = (\<not> falsy (ur_encryptionKey ipfsResult)),
                              encryptionKey =
                                (if falsy (ur_encryptionKey ipfsResult) then None
                                 else ur_encryptionKey ipfsResult),
                              sharedWith = [], downloadCount = 0, lastAccessedAt = now e,
                              isActive = True\<rparr>
                       in (case insert_document w2 (newObjectId e) document of
                             Inl msg \<Rightarrow> (upload_catch svc msg, w2)
                           | Inr w3 \<Rightarrow>
                               (\<lparr>status = 201, message = ''Document uploaded successfully'',
                                 error_detail = None,
                                 body = UploadBody (newObjectId e) document blockchainResult\<rparr>,
                                if falsy (u_walletAddress u)
                                then save_walletAddress w3 (u_id u) (ar_walletAddress blockchainResult)
                                else w3))))))"
proof -
  have le: "\<not> 100 < length titleField" using assms(3) by simp
  show ?thesis
    unfolding upload_def Let_def
    using assms(1,2) le
    by (simp add: blob_uploadFile_def ledger_addDocument_def split: prod.splits sum.splits)
qed

text \<open>
  Claim C5. An upload that passes validation calls the blob store first. If that call
  throws, the route answers with the error of its \<open>catch\<close> block and the world differs
  only by the blob store's own state and the logged call: no ledger call, no document, in
  either mode. If it returns, the ledger's \<open>addDocument\<close> is called next with the
  returned content address; if that throws, the route answers with the error, no document
  is inserted, and the blob store is in the state the upload left it in, with no further
  call to it. Only when both return is the document inserted, carrying the content address
  and the ledger document id.
\<close>

theorem upload_write_order:
  assumes "titleField \<noteq> []" and "trim titleField \<noteq> []" and "length titleField \<le> 100"
      and "fs_uploadFile (ipfsService svc) e (blobs w) (file_buffer f) (encrypt = Some ''true'')
             = (stored, b)"
      and "metadata = JSON_stringify svc
                      \<lparr>md_title = trim titleField,
                       md_description = (case description of None \<Rightarrow> [] | Some d \<Rightarrow> trim d),
                       md_originalName = originalname f, md_mimeType = mimetype f,
                       md_size = file_size f, md_uploadedAt = now e\<rparr>"
  shows "(\<forall>msg. stored = Inl msg \<longrightarrow>
            upload svc e w u (Some f) titleField description encrypt =
              (upload_catch svc msg,
               w\<lparr>blobs := b,
                 calls := calls w @ [BlobUpload (file_buffer f) (encrypt = Some ''true'')]\<rparr>) \<and>
            400 \<le> status (upload_catch svc msg)) \<and>
         (\<forall>ipfsResult msg l.
            stored = Inr ipfsResult \<and>
            bs_addDocument (blockchainService svc) e (ledger w) (u_id u) (ur_ipfsHash ipfsResult)
              metadata = (Inl msg, l) \<longrightarrow>
            upload svc e w u (Some f) titleField description encrypt =
              (upload_catch svc msg,
               w\<lparr>blobs := b, ledger := l,
                 calls := calls w @
                   [BlobUpload (file_buffer f) (encrypt = Some ''true''),
                    LedgerAddDocument (u_id u) (ur_ipfsHash ipfsResult) metadata]\<rparr>) \<and>
            400 \<le> status (upload_catch svc msg)) \<and>
         (\<forall>ipfsResult blockchainResult l.
            stored = Inr ipfsResult \<and>
            bs_addDocument (blockchainService svc) e (ledger w) (u_id u) (ur_ipfsHash ipfsResult)
              metadata = (Inr blockchainResult, l) \<and>
            status (fst (upload svc e w u (Some f) titleField description encrypt)) = 201 \<longrightarrow>
            (\<exists>document.
               docs (snd (upload svc e w u (Some f) titleField description encrypt)) =
                 docs w @ [(newObjectId e, document)] \<and>
               ipfsHash document = ur_ipfsHash ipfsResult \<and>
               blockchainDocumentId document = ar_documentId blockchainResult \<and>
               owner document = u_id u \<and> isActive document \<and>
               calls (snd (upload svc e w u (Some f) titleField description encrypt)) =
                 calls w @
                   [BlobUpload (file_buffer f) (encrypt = Some ''true''),
                    LedgerAddDocument (u_id u) (ur_ipfsHash ipfsResult) metadata]))"
proof (intro conjI allI impI)
  fix msg
  assume "stored = Inl msg"
  with assms(4) show "upload svc e w u (Some f) titleField description encrypt =
              (upload_catch svc msg,
               w\<lparr>blobs := b,
                 calls := calls w @ [BlobUpload (file_buffer f) (encrypt = Some ''true'')]\<rparr>)"
    by (simp add: upload_valid [OF assms(1-3)])
next
  fix ipfsResult msg l
  assume "stored = Inr ipfsResult \<and>
            bs_addDocument (blockchainService svc) e (ledger w) (u_id u) (ur_ipfsHash ipfsResult)
              metadata = (Inl msg, l)"
  with assms(4) show "upload svc e w u (Some f) titleField description encrypt =
              (upload_catch svc msg,
               w\<lparr>blobs := b, ledger := l,
                 calls := calls w @
                   [BlobUpload (file_buffer f) (encrypt = Some ''true''),
                    LedgerAddDocument (u_id u) (ur_ipfsHash ipfsResult) metadata]\<rparr>)"
    by (simp add: upload_valid [OF assms(1-3)] assms(5) [symmetric])
next
  fix ipfsResult blockchainResult l
  assume a: "stored = Inr ipfsResult \<and>
            bs_addDocument (blockchainService svc) e (ledger w) (u_id u) (ur_ipfsHash ipfsResult)
              metadata = (Inr blockchainResult, l) \<and>
            status (fst (upload svc e w u (Some f) titleField description encrypt)) = 201"
  let ?w2 = "w\<lparr>blobs := b, ledger := l,
                calls := calls w @
                  [BlobUpload (file_buffer f) (encrypt = Some ''true''),
                   LedgerAddDocument (u_id u) (ur_ipfsHash ipfsResult) metadata]\<rparr>"
  let ?document = "\<lparr>title = trim titleField, originalName = trim (originalname f),
                              mimeType = mimetype f, size_bytes = file_size f,
                              ipfsHash = ur_ipfsHash ipfsResult,
                              blockchainDocumentId = ar_documentId blockchainResult,
                              owner = u_id u,
                              isEncrypted = (\<not> falsy (ur_encryptionKey ipfsResult)),
                              encryptionKey =
                                (if falsy (ur_encryptionKey ipfsResult) then None
                                 else ur_encryptionKey ipfsResult),
                              sharedWith = [], downloadCount = 0, lastAccessedAt = now e,
                              isActive = True\<rparr>"
  have up: "upload svc e w u (Some f) titleField description encrypt =
          (case insert_document ?w2 (newObjectId e) ?document of
                             Inl msg \<Rightarrow> (upload_catch svc msg, ?w2)
                           | Inr w3 \<Rightarrow>
                               (\<lparr>status = 201, message = ''Document uploaded successfully'',
                                 error_detail = None,
                                 body = UploadBody (newObjectId e) ?document blockchainResult\<rparr>,
                                if falsy (u_walletAddress u)
                                then save_walletAddress w3 (u_id u) (ar_walletAddress blockchainResult)
                                else w3))"
    using a assms(4) by (simp add: upload_valid [OF assms(1-3)] assms(5) [symmetric] Let_def)
  have ins: "insert_document ?w2 (newObjectId e) ?document =
               Inr (?w2\<lparr>docs := docs w @ [(newObjectId e, ?document)]\<rparr>)"
  proof (cases "insert_document ?w2 (newObjectId e) ?document")
    case (Inl msg)
    with a up upload_catch_status [of svc msg] show ?thesis by simp
  next
    case (Inr w3)
    then show ?thesis
      by (simp add: insert_document_def split: if_splits)
  qed
  show "\<exists>document.
               docs (snd (upload svc e w u (Some f) titleField description encrypt)) =
                 docs w @ [(newObjectId e, document)] \<and>
               ipfsHash document = ur_ipfsHash ipfsResult \<and>
               blockchainDocumentId document = ar_documentId blockchainResult \<and>
               owner document = u_id u \<and> isActive document \<and>
               calls (snd (upload svc e w u (Some f) titleField description encrypt)) =
                 calls w @
                   [BlobUpload (file_buffer f) (encrypt = Some ''true''),
                    LedgerAddDocument (u_id u) (ur_ipfsHash ipfsResult) metadata]"
    by (rule exI [of _ ?document]) (simp add: up ins save_walletAddress_def)
qed (rule upload_catch_status)+

theorem upload_write_order_witness:
  "upload (offline_services prod_penv) test_env ((test_world ())\<lparr>blobs := unavailable_blobs\<rparr>)
     alice (Some notes_file) ''notes'' None None =
     (\<lparr>status = 500, message = ''Error uploading document'', error_detail = None, body = NoBody\<rparr>,
      (test_world ())\<lparr>blobs := unavailable_blobs, calls := [BlobUpload ''xyz'' False]\<rparr>) \<and>
   fst (upload (offline_services prod_penv) test_env (test_world ()) alice (Some notes_file)
          ''notes'' None None) =
     \<lparr>status = 500, message = ''Error uploading document'', error_detail = None, body = NoBody\<rparr> \<and>
   docs (snd (upload (offline_services prod_penv) test_env (test_world ()) alice (Some notes_file)
          ''notes'' None None)) = docs (test_world ()) \<and>
   fs_files (blobs (snd (upload (offline_services prod_penv) test_env (test_world ()) alice
          (Some notes_file) ''notes'' None None))) ''Qmxyz'' = Some ''xyz'' \<and>
   calls (snd (upload (offline_services prod_penv) test_env (test_world ()) alice (Some notes_file)
          ''notes'' None None)) =
     [BlobUpload ''xyz'' False, LedgerAddDocument ''alice'' ''Qmxyz'' ''notes''] \<and>
   isDevelopmentMode (penv (offline_services mixed_penv)) \<and>
   status (fst (upload (offline_services mixed_penv) test_env (test_world ()) alice
          (Some notes_file) ''notes'' None None)) = 500 \<and>
   docs (snd (upload (offline_services mixed_penv) test_env (test_world ()) alice
          (Some notes_file) ''notes'' None None)) = docs (test_world ()) \<and>
   status (fst (upload dev_services test_env2 (test_world DevBlockchainService) alice
          (Some notes_file) ''notes'' None None)) = 201 \<and>
   (\<exists>document.
      docs (snd (upload dev_services test_env2 (test_world DevBlockchainService) alice
          (Some notes_file) ''notes'' None None)) = [(''d1'', report), (''d2'', document)] \<and>
      ipfsHash document = ''Qmxyz'' \<and> blockchainDocumentId document = ''0xalice-Qmxyz-7'' \<and>
      owner document = ''alice'' \<and> isActive document)"
proof -
  have t: "''notes'' \<noteq> []" "trim ''notes'' \<noteq> []" "length ''notes'' \<le> 100"
    by (simp_all add: trim_def is_space_def)
  have tn: "trim ''notes'' = ''notes''"
    by (simp add: trim_def is_space_def)
  have b1: "fs_uploadFile (ipfsService (offline_services prod_penv)) test_env
              (blobs ((test_world ())\<lparr>blobs := unavailable_blobs\<rparr>)) (file_buffer notes_file)
              (None = Some ''true'') =
            (Inl ''Dev IPFS storage not available'', unavailable_blobs)"
    by (simp add: offline_services_def dev_ipfs_service_def dev_uploadFile_def
          unavailable_blobs_def)
  have b2: "fs_uploadFile (ipfsService (offline_services pe)) test_env
              (blobs (test_world ())) (file_buffer notes_file) (None = Some ''true'') =
            (Inr \<lparr>ur_ipfsHash = ''Qmxyz'', ur_size = 3, ur_encryptionKey = None\<rparr>,
             \<lparr>fs_isConnected = True, fs_files = [''Qmabc'' \<mapsto> ''abc'', ''Qmxyz'' \<mapsto> ''xyz'']\<rparr>)"
    for pe
    by (simp add: offline_services_def dev_ipfs_service_def dev_uploadFile_def test_world_def
          notes_file_def generateFakeIPFSHash_def test_crypto_def Let_def)
  have m: "''notes'' = JSON_stringify (offline_services pe)
                      \<lparr>md_title = trim ''notes'',
                       md_description = (case None of None \<Rightarrow> [] | Some d \<Rightarrow> trim d),
                       md_originalName = originalname notes_file, md_mimeType = mimetype notes_file,
                       md_size = file_size notes_file, md_uploadedAt = now test_env\<rparr>"
    for pe
    by (simp add: offline_services_def test_stringify_def tn)
  have l: "bs_addDocument (blockchainService (offline_services pe)) test_env
             (ledger (test_world ())) (u_id alice)
             (ur_ipfsHash \<lparr>ur_ipfsHash = ''Qmxyz'', ur_size = 3, ur_encryptionKey = None\<rparr>)
             ''notes'' = (Inl ''Blockchain service not connected'', ())"
    for pe
    by (simp add: offline_services_def offline_blockchain_service_def)
  have c: "upload_catch (offline_services prod_penv) ''Dev IPFS storage not available'' =
             \<lparr>status = 500, message = ''Error uploading document'', error_detail = None,
              body = NoBody\<rparr>"
          "upload_catch (offline_services prod_penv) ''Blockchain service not connected'' =
             \<lparr>status = 500, message = ''Error uploading document'', error_detail = None,
              body = NoBody\<rparr>"
    by (simp_all add: upload_catch_def json_error_def offline_services_def prod_penv_def)
  have f: "file_buffer notes_file = ''xyz''" "u_id alice = ''alice''"
    "calls (test_world ()) = []" "docs ((test_world ())\<lparr>blobs := unavailable_blobs\<rparr>) = docs (test_world ())"
    by (simp_all add: notes_file_def alice_def test_world_def)
  have w1: "upload (offline_services prod_penv) test_env
              ((test_world ())\<lparr>blobs := unavailable_blobs\<rparr>) alice (Some notes_file) ''notes''
              None None =
            (upload_catch (offline_services prod_penv) ''Dev IPFS storage not available'',
             (test_world ())\<lparr>blobs := unavailable_blobs,
               calls := calls ((test_world ())\<lparr>blobs := unavailable_blobs\<rparr>) @
                 [BlobUpload (file_buffer notes_file) (None = Some ''true'')]\<rparr>)"
    using upload_write_order [OF t b1 m, THEN conjunct1] by simp
  have w2: "upload (offline_services pe) test_env (test_world ()) alice (Some notes_file)
              ''notes'' None None =
            (upload_catch (offline_services pe) ''Blockchain service not connected'',
             (test_world ())\<lparr>blobs := \<lparr>fs_isConnected = True,
                   fs_files = [''Qmabc'' \<mapsto> ''abc'', ''Qmxyz'' \<mapsto> ''xyz'']\<rparr>,
               ledger := (),
               calls := calls (test_world ()) @
                 [BlobUpload (file_buffer notes_file) (None = Some ''true''),
                  LedgerAddDocument (u_id alice)
                    (ur_ipfsHash \<lparr>ur_ipfsHash = ''Qmxyz'', ur_size = 3, ur_encryptionKey = None\<rparr>)
                    ''notes'']\<rparr>)"
    for pe
    using upload_write_order [OF t b2 m, THEN conjunct2, THEN conjunct1] l by blast
  have c3: "status (upload_catch (offline_services mixed_penv) ''Blockchain service not connected'')
              = 500"
    by (simp add: upload_catch_def json_error_def)
  have dm: "isDevelopmentMode (penv (offline_services mixed_penv))"
    by (simp add: offline_services_def modes)
  have first: "upload (offline_services prod_penv) test_env ((test_world ())\<lparr>blobs := unavailable_blobs\<rparr>)
     alice (Some notes_file) ''notes'' None None =
     (\<lparr>status = 500, message = ''Error uploading document'', error_detail = None, body = NoBody\<rparr>,
      (test_world ())\<lparr>blobs := unavailable_blobs, calls := [BlobUpload ''xyz'' False]\<rparr>) \<and>
   fst (upload (offline_services prod_penv) test_env (test_world ()) alice (Some notes_file)
          ''notes'' None None) =
     \<lparr>status = 500, message = ''Error uploading document'', error_detail = None, body = NoBody\<rparr> \<and>
   docs (snd (upload (offline_services prod_penv) test_env (test_world ()) alice (Some notes_file)
          ''notes'' None None)) = docs (test_world ()) \<and>
   fs_files (blobs (snd (upload (offline_services prod_penv) test_env (test_world ()) alice
          (Some notes_file) ''notes'' None None))) ''Qmxyz'' = Some ''xyz'' \<and>
   calls (snd (upload (offline_services prod_penv) test_env (test_world ()) alice (Some notes_file)
          ''notes'' None None)) =
     [BlobUpload ''xyz'' False, LedgerAddDocument ''alice'' ''Qmxyz'' ''notes''] \<and>
   isDevelopmentMode (penv (offline_services mixed_penv)) \<and>
   status (fst (upload (offline_services mixed_penv) test_env (test_world ()) alice
          (Some notes_file) ''notes'' None None)) = 500 \<and>
   docs (snd (upload (offline_services mixed_penv) test_env (test_world ()) alice
          (Some notes_file) ''notes'' None None)) = docs (test_world ())"
    by (simp add: w1 w2 c c3 dm f)
  let ?w = "test_world DevBlockchainService"
  have b3: "fs_uploadFile (ipfsService dev_services) test_env2 (blobs ?w)
              (file_buffer notes_file) (None = Some ''true'') =
            (Inr \<lparr>ur_ipfsHash = ''Qmxyz'', ur_size = 3, ur_encryptionKey = None\<rparr>,
             \<lparr>fs_isConnected = True, fs_files = [''Qmabc'' \<mapsto> ''abc'', ''Qmxyz'' \<mapsto> ''xyz'']\<rparr>)"
    by (simp add: dev_services_def dev_ipfs_service_def dev_uploadFile_def test_world_def
          notes_file_def generateFakeIPFSHash_def test_crypto_def Let_def)
  have m3: "''notes'' = JSON_stringify dev_services
                      \<lparr>md_title = trim ''notes'',
                       md_description = (case None of None \<Rightarrow> [] | Some d \<Rightarrow> trim d),
                       md_originalName = originalname notes_file, md_mimeType = mimetype notes_file,
                       md_size = file_size notes_file, md_uploadedAt = now test_env2\<rparr>"
    by (simp add: dev_services_def test_stringify_def tn)
  have "fst (bs_addDocument (blockchainService dev_services) test_env2 (ledger ?w) (u_id alice)
               (ur_ipfsHash \<lparr>ur_ipfsHash = ''Qmxyz'', ur_size = 3, ur_encryptionKey = None\<rparr>)
               ''notes'') =
          Inr \<lparr>ar_documentId = ''0xalice-Qmxyz-7'', ar_transactionHash = ''0xab'',
               ar_blockNumber = 15000001, ar_walletAddress = ''0xalice_wallet_seed''\<rparr>"
    by (simp add: dev_services_def dev_blockchain_service_def dev_addDocument_def
          generateDocumentId_def string_of_nat_7 test_world_def DevBlockchainService_def
          getUserWallet_def derive_wallet_def test_crypto_def test_env_def test_env2_def
          Let_def alice_def)
  then obtain l3 where l3: "bs_addDocument (blockchainService dev_services) test_env2 (ledger ?w)
               (u_id alice)
               (ur_ipfsHash \<lparr>ur_ipfsHash = ''Qmxyz'', ur_size = 3, ur_encryptionKey = None\<rparr>)
               ''notes'' =
          (Inr \<lparr>ar_documentId = ''0xalice-Qmxyz-7'', ar_transactionHash = ''0xab'',
                ar_blockNumber = 15000001, ar_walletAddress = ''0xalice_wallet_seed''\<rparr>, l3)"
    by (metis prod.collapse)
  have created: "status (fst (upload dev_services test_env2 ?w alice (Some notes_file) ''notes''
                    None None)) = 201"
  proof -
    have n: "newObjectId test_env2 = ''d2''" "docs ?w = [(''d1'', report)]"
      "ipfsHash report = ''Qmabc''" "blockchainDocumentId report = ''0xalice-Qmabc-7''"
      "trim (originalname notes_file) \<noteq> []"
      by (simp_all add: test_env2_def test_world_def report_def notes_file_def trim_def
            is_space_def)
    show ?thesis
      apply (simp only: upload_valid [OF t] b3 prod.case sum.case m3 [symmetric] Let_def l3)
      apply (simp add: insert_document_def n json_def)
      done
  qed
  from upload_write_order [OF t b3 m3, THEN conjunct2, THEN conjunct2] l3 created
  have "\<exists>document.
               docs (snd (upload dev_services test_env2 ?w alice (Some notes_file) ''notes''
                            None None)) =
                 docs ?w @ [(newObjectId test_env2, document)] \<and>
               ipfsHash document =
                 ur_ipfsHash \<lparr>ur_ipfsHash = ''Qmxyz'', ur_size = 3, ur_encryptionKey = None\<rparr> \<and>
               blockchainDocumentId document =
                 ar_documentId \<lparr>ar_documentId = ''0xalice-Qmxyz-7'', ar_transactionHash = ''0xab'',
                   ar_blockNumber = 15000001, ar_walletAddress = ''0xalice_wallet_seed''\<rparr> \<and>
               owner document = u_id alice \<and> isActive document \<and>
               calls (snd (upload dev_services test_env2 ?w alice (Some notes_file) ''notes''
                             None None)) =
                 calls ?w @
                   [BlobUpload (file_buffer notes_file) (None = Some ''true''),
                    LedgerAddDocument (u_id alice)
                      (ur_ipfsHash \<lparr>ur_ipfsHash = ''Qmxyz'', ur_size = 3,
                                     ur_encryptionKey = None\<rparr>) ''notes'']"
    by blast
  then have third: "\<exists>document.
      docs (snd (upload dev_services test_env2 ?w alice
          (Some notes_file) ''notes'' None None)) = [(''d1'', report), (''d2'', document)] \<and>
      ipfsHash document = ''Qmxyz'' \<and> blockchainDocumentId document = ''0xalice-Qmxyz-7'' \<and>
      owner document = ''alice'' \<and> isActive document"
    by (auto simp: test_world_def test_env2_def alice_def)
  from first created third show ?thesis by (intro conjI) simp_all
qed


subsection \<open>Download\<close>

lemma download_catch_status: "400 \<le> status (download_catch svc msg)"
  by (simp add: download_catch_def json_def json_error_def)

lemma hasAccess_loaded [simp]: "hasAccess (d\<lparr>encryptionKey := k\<rparr>) uid = hasAccess d uid"
  by (simp add: hasAccess_def)

lemma validateDocumentAccess_Inr:
  assumes "validateDocumentAccess w i uid = Inr d0"
  shows "\<exists>d. map_of (docs w) i = Some d \<and> d0 = d\<lparr>encryptionKey := None\<rparr> \<and> isActive d \<and>
             hasAccess d uid"
proof (cases "map_of (docs w) i")
  case None
  with assms show ?thesis
    by (simp add: validateDocumentAccess_def findById_def)
next
  case (Some d)
  then have f: "findById w i = Some (d\<lparr>encryptionKey := None\<rparr>)"
    by (rule findById_stored)
  from assms have "d0 = d\<lparr>encryptionKey := None\<rparr> \<and> isActive d \<and> hasAccess d uid"
    unfolding validateDocumentAccess_def f
    by (simp split: if_splits)
  with Some show ?thesis by simp
qed

lemma download_checked:
  assumes "validateDocumentAccess w documentId (u_id u) = Inr d0"
  shows "download svc e w u documentId =
          (case bs_hasAccess (blockchainService svc) (ledger w) (u_id u) (blockchainDocumentId d0) of
             (Inl msg, l) \<Rightarrow>
               (download_catch svc msg,
                w\<lparr>ledger := l,
                  calls := calls w @ [LedgerHasAccess (u_id u) (blockchainDocumentId d0)]\<rparr>)
           | (Inr blockchainAccess, l) \<Rightarrow>
               if \<not> blockchainAccess \<and> \<not> isDevelopmentMode (penv svc)
               then (json 403 ''Blockchain access denied'',
                     w\<lparr>ledger := l,
                       calls := calls w @ [LedgerHasAccess (u_id u) (blockchainDocumentId d0)]\<rparr>)
               else
                (case fs_downloadFile (ipfsService svc) (blobs w) (ipfsHash d0) None of
                   (Inl msg, b) \<Rightarrow>
                     (download_catch svc msg,
                      w\<lparr>ledger := l, blobs := b,
                        calls := calls w @ [LedgerHasAccess (u_id u) (blockchainDocumentId d0),
                                            BlobDownload (ipfsHash d0) None]\<rparr>)
                 | (Inr fileBuffer, b) \<Rightarrow>
                     (\<lparr>status = 200, message = [], error_detail = None,
                       body = FileBody fileBuffer (mimeType d0) (originalName d0)\<rparr>,
                      save (w\<lparr>ledger := l, blobs := b,
                              calls := calls w @ [LedgerHasAccess (u_id u) (blockchainDocumentId d0),
                                                  BlobDownload (ipfsHash d0) None]\<rparr>)
                        documentId
                        (d0\<lparr>downloadCount := downloadCount d0 + 1, lastAccessedAt := now e\<rparr>))))"
proof -
  from validateDocumentAccess_Inr [OF assms] have k: "encryptionKey d0 = None"
    by auto
  show ?thesis
    unfolding download_def Let_def
    by (simp add: assms k falsy_def ledger_hasAccess_def blob_downloadFile_def
          split: prod.splits sum.splits)
qed

text \<open>
  Claim C3, as the code has it. During download, after the local access check has passed:
  when the ledger's \<open>hasAccess\<close> answers false, development mode goes on to fetch the
  blob (and, when the blob store returns it, answers 200 with the bytes and counts the
  download), and production mode answers 403 \<open>Blockchain access denied\<close> without
  touching the blob store or the document; when it answers true, both modes go on. When
  the ledger query throws in production mode, the download is blocked: the route answers
  with the error of its \<open>catch\<close> block (403 only if the message is \<open>Access denied\<close> or
  holds \<open>Blockchain access denied\<close>, 500 otherwise), with no blob call and the document
  as it was.
\<close>

theorem download_ledger_policy:
  assumes "validateDocumentAccess w documentId (u_id u) = Inr d0"
      and "bs_hasAccess (blockchainService svc) (ledger w) (u_id u) (blockchainDocumentId d0)
             = (answer, l)"
      and "w1 = w\<lparr>ledger := l,
                  calls := calls w @ [LedgerHasAccess (u_id u) (blockchainDocumentId d0)]\<rparr>"
  shows "(answer = Inr False \<and> \<not> isDevelopmentMode (penv svc) \<longrightarrow>
            download svc e w u documentId = (json 403 ''Blockchain access denied'', w1)) \<and>
         ((answer = Inr False \<and> isDevelopmentMode (penv svc)) \<or> answer = Inr True \<longrightarrow>
            new_calls w (snd (download svc e w u documentId)) =
              [LedgerHasAccess (u_id u) (blockchainDocumentId d0),
               BlobDownload (ipfsHash d0) None] \<and>
            (\<forall>fileBuffer b.
               fs_downloadFile (ipfsService svc) (blobs w) (ipfsHash d0) None = (Inr fileBuffer, b)
               \<longrightarrow>
               fst (download svc e w u documentId) =
                 \<lparr>status = 200, message = [], error_detail = None,
                  body = FileBody fileBuffer (mimeType d0) (originalName d0)\<rparr> \<and>
               map_option downloadCount (map_of (docs (snd (download svc e w u documentId)))
                  documentId) = Some (downloadCount d0 + 1))) \<and>
         (\<forall>msg. answer = Inl msg \<and> \<not> isDevelopmentMode (penv svc) \<longrightarrow>
            download svc e w u documentId = (download_catch svc msg, w1) \<and>
            400 \<le> status (download_catch svc msg))"
proof -
  from validateDocumentAccess_Inr [OF assms(1)] obtain d where
    d: "map_of (docs w) documentId = Some d" "d0 = d\<lparr>encryptionKey := None\<rparr>"
    by blast
  note path = download_checked [OF assms(1), of svc e]
  have denied: "answer = Inr False \<and> \<not> isDevelopmentMode (penv svc) \<longrightarrow>
            download svc e w u documentId = (json 403 ''Blockchain access denied'', w1)"
    using assms(2,3) by (simp add: path)
  have thrown: "\<forall>msg. answer = Inl msg \<and> \<not> isDevelopmentMode (penv svc) \<longrightarrow>
            download svc e w u documentId = (download_catch svc msg, w1) \<and>
            400 \<le> status (download_catch svc msg)"
    using assms(2,3) by (simp add: path download_catch_status)
  have goes_on: "(answer = Inr False \<and> isDevelopmentMode (penv svc)) \<or> answer = Inr True \<longrightarrow>
            new_calls w (snd (download svc e w u documentId)) =
              [LedgerHasAccess (u_id u) (blockchainDocumentId d0),
               BlobDownload (ipfsHash d0) None] \<and>
            (\<forall>fileBuffer b.
               fs_downloadFile (ipfsService svc) (blobs w) (ipfsHash d0) None = (Inr fileBuffer, b)
               \<longrightarrow>
               fst (download svc e w u documentId) =
                 \<lparr>status = 200, message = [], error_detail = None,
                  body = FileBody fileBuffer (mimeType d0) (originalName d0)\<rparr> \<and>
               map_option downloadCount (map_of (docs (snd (download svc e w u documentId)))
                  documentId) = Some (downloadCount d0 + 1))"
  proof (intro impI)
    assume m: "(answer = Inr False \<and> isDevelopmentMode (penv svc)) \<or> answer = Inr True"
    obtain got b where blob: "fs_downloadFile (ipfsService svc) (blobs w) (ipfsHash d0) None
                                = (got, b)"
      by (cases "fs_downloadFile (ipfsService svc) (blobs w) (ipfsHash d0) None")
    from m have ans: "\<exists>a. answer = Inr a \<and> \<not> (\<not> a \<and> \<not> isDevelopmentMode (penv svc))"
      by auto
    then obtain a where a: "answer = Inr a" "\<not> (\<not> a \<and> \<not> isDevelopmentMode (penv svc))"
      by blast
    have c: "new_calls w (snd (download svc e w u documentId)) =
              [LedgerHasAccess (u_id u) (blockchainDocumentId d0),
               BlobDownload (ipfsHash d0) None]"
      using assms(2) blob a by (cases got) (simp_all add: path new_calls_def)
    have f: "fst (download svc e w u documentId) =
                 \<lparr>status = 200, message = [], error_detail = None,
                  body = FileBody fileBuffer (mimeType d0) (originalName d0)\<rparr> \<and>
               map_option downloadCount (map_of (docs (snd (download svc e w u documentId)))
                  documentId) = Some (downloadCount d0 + 1)"
      if "fs_downloadFile (ipfsService svc) (blobs w) (ipfsHash d0) None = (Inr fileBuffer, b')"
      for fileBuffer b'
      using assms(2) that a d by (simp add: path save_def update_conv')
    from c f show "new_calls w (snd (download svc e w u documentId)) =
              [LedgerHasAccess (u_id u) (blockchainDocumentId d0),
               BlobDownload (ipfsHash d0) None] \<and>
            (\<forall>fileBuffer b.
               fs_downloadFile (ipfsService svc) (blobs w) (ipfsHash d0) None = (Inr fileBuffer, b)
               \<longrightarrow>
               fst (download svc e w u documentId) =
                 \<lparr>status = 200, message = [], error_detail = None,
                  body = FileBody fileBuffer (mimeType d0) (originalName d0)\<rparr> \<and>
               map_option downloadCount (map_of (docs (snd (download svc e w u documentId)))
                  documentId) = Some (downloadCount d0 + 1))"
      by blast
  qed
  from denied goes_on thrown show ?thesis by (intro conjI)
qed

lemma bob_may_read: "validateDocumentAccess (test_world l) ''d1'' (u_id bob) = Inr report"
  by (simp add: validateDocumentAccess_def findById_def test_world_def report_def hasAccess_def
        alice_def bob_def)

lemma report_fields:
  "blockchainDocumentId report = ''0xalice-Qmabc-7''" "ipfsHash report = ''Qmabc''"
  "mimeType report = ''application/pdf''" "originalName report = ''report.pdf''"
  "downloadCount report = 0" "u_id bob = ''bob''" "calls (test_world l) = []"
  "ledger (test_world l) = l"
  by (simp_all add: report_def bob_def test_world_def)

text \<open>
  The claim as it is written fails: with the ledger adapter unreachable, so that the
  has-access query throws, a download by Bob, who passes the local check, is blocked in
  development mode too, and in production mode the answer is 500, not access denied.
\<close>

theorem download_ledger_failure_counterexample:
  "isDevelopmentMode (penv (offline_services mixed_penv)) \<and>
   validateDocumentAccess (test_world ()) ''d1'' (u_id bob) = Inr report \<and>
   bs_hasAccess (blockchainService (offline_services mixed_penv)) () ''bob'' ''0xalice-Qmabc-7'' =
     (Inl ''Blockchain service not connected'', ()) \<and>
   download (offline_services mixed_penv) test_env (test_world ()) bob ''d1'' =
     (\<lparr>status = 500, message = ''Error downloading document'', error_detail = None,
       body = NoBody\<rparr>,
      (test_world ())\<lparr>calls := [LedgerHasAccess ''bob'' ''0xalice-Qmabc-7'']\<rparr>) \<and>
   \<not> isDevelopmentMode (penv (offline_services prod_penv)) \<and>
   fst (download (offline_services prod_penv) test_env (test_world ()) bob ''d1'') =
     \<lparr>status = 500, message = ''Error downloading document'', error_detail = None,
      body = NoBody\<rparr>"
proof -
  have off: "bs_hasAccess (blockchainService (offline_services pe)) () ''bob'' ''0xalice-Qmabc-7'' =
     (Inl ''Blockchain service not connected'', ())" for pe
    by (simp add: offline_services_def offline_blockchain_service_def)
  have c: "download_catch (offline_services pe) ''Blockchain service not connected'' =
             \<lparr>status = 500, message = ''Error downloading document'',
              error_detail = (if NODE_ENV pe = Some ''development''
                              then Some ''Blockchain service not connected'' else None),
              body = NoBody\<rparr>" for pe
    by (simp add: download_catch_def json_error_def offline_services_def)
  have n: "NODE_ENV mixed_penv = Some ''production''" "NODE_ENV prod_penv = Some ''production''"
    by (simp_all add: mixed_penv_def prod_penv_def)
  have m: "isDevelopmentMode (penv (offline_services mixed_penv))"
          "\<not> isDevelopmentMode (penv (offline_services prod_penv))"
    by (simp_all add: offline_services_def modes)
  have d: "download (offline_services pe) test_env (test_world ()) bob ''d1'' =
             (download_catch (offline_services pe) ''Blockchain service not connected'',
              (test_world ())\<lparr>calls := [LedgerHasAccess ''bob'' ''0xalice-Qmabc-7'']\<rparr>)" for pe
    by (simp add: download_checked [OF bob_may_read] report_fields off)
  show ?thesis
    by (simp add: m bob_may_read off d c n)
qed

theorem download_ledger_policy_witness:
  "isDevelopmentMode (penv dev_services) \<and>
   fst (download dev_services test_env (test_world DevBlockchainService) bob ''d1'') =
     \<lparr>status = 200, message = [], error_detail = None,
      body = FileBody ''abc'' ''application/pdf'' ''report.pdf''\<rparr> \<and>
   map_option downloadCount
     (map_of (docs (snd (download dev_services test_env (test_world DevBlockchainService) bob
        ''d1''))) ''d1'') = Some 1 \<and>
   \<not> isDevelopmentMode (penv (refusing_services prod_penv)) \<and>
   download (refusing_services prod_penv) test_env (test_world ()) bob ''d1'' =
     (json 403 ''Blockchain access denied'',
      (test_world ())\<lparr>calls := [LedgerHasAccess ''bob'' ''0xalice-Qmabc-7'']\<rparr>) \<and>
   status (fst (download (offline_services prod_penv) test_env (test_world ()) bob ''d1'')) = 500"
proof -
  have m: "isDevelopmentMode (penv dev_services)"
          "\<not> isDevelopmentMode (penv (refusing_services prod_penv))"
          "\<not> isDevelopmentMode (penv (offline_services prod_penv))"
    by (simp_all add: dev_services_def refusing_services_def offline_services_def modes)
  have a1: "bs_hasAccess (blockchainService dev_services) (ledger (test_world DevBlockchainService))
              (u_id bob) (blockchainDocumentId report) =
            (Inr False, cached test_crypto ''bob'' DevBlockchainService)"
    by (simp add: dev_services_def dev_blockchain_service_def dev_hasAccess_def report_fields
          DevBlockchainService_def getUserWallet_def cached_def Let_def)
  have a2: "bs_hasAccess (blockchainService (refusing_services prod_penv)) (ledger (test_world ()))
              (u_id bob) (blockchainDocumentId report) = (Inr False, ())"
    by (simp add: refusing_services_def refusing_blockchain_service_def report_fields)
  have a3: "bs_hasAccess (blockchainService (offline_services prod_penv)) (ledger (test_world ()))
              (u_id bob) (blockchainDocumentId report) =
            (Inl ''Blockchain service not connected'', ())"
    by (simp add: offline_services_def offline_blockchain_service_def report_fields)
  have blob: "fs_downloadFile (ipfsService dev_services) (blobs (test_world DevBlockchainService))
                (ipfsHash report) None =
              (Inr ''abc'', \<lparr>fs_isConnected = True, fs_files = [''Qmabc'' \<mapsto> ''abc'']\<rparr>)"
    by (simp add: dev_services_def dev_ipfs_service_def dev_downloadFile_def test_world_def
          report_fields falsy_def)
  from download_ledger_policy [OF bob_may_read a1 refl, of test_env, THEN conjunct2, THEN conjunct1]
    m(1) blob
  have p1: "fst (download dev_services test_env (test_world DevBlockchainService) bob ''d1'') =
     \<lparr>status = 200, message = [], error_detail = None,
      body = FileBody ''abc'' (mimeType report) (originalName report)\<rparr> \<and>
    map_option downloadCount
     (map_of (docs (snd (download dev_services test_env (test_world DevBlockchainService) bob
        ''d1''))) ''d1'') = Some (downloadCount report + 1)"
    by blast
  from download_ledger_policy [OF bob_may_read a2 refl, of test_env, THEN conjunct1] m(2)
  have p2: "download (refusing_services prod_penv) test_env (test_world ()) bob ''d1'' =
     (json 403 ''Blockchain access denied'',
      (test_world ())\<lparr>ledger := (),
        calls := calls (test_world ()) @
          [LedgerHasAccess (u_id bob) (blockchainDocumentId report)]\<rparr>)"
    by blast
  from download_ledger_policy [OF bob_may_read a3 refl, of test_env, THEN conjunct2,
      THEN conjunct2] m(3)
  have p3: "download (offline_services prod_penv) test_env (test_world ()) bob ''d1'' =
     (download_catch (offline_services prod_penv) ''Blockchain service not connected'',
      (test_world ())\<lparr>ledger := (),
        calls := calls (test_world ()) @
          [LedgerHasAccess (u_id bob) (blockchainDocumentId report)]\<rparr>)"
    by blast
  have c: "status (download_catch (offline_services prod_penv) ''Blockchain service not connected'')
             = 500"
    by (simp add: download_catch_def json_error_def)
  show ?thesis
    using p1 by (simp add: m p2 p3 c report_fields)
qed


subsection \<open>Delete, and what stays deleted\<close>

lemma touches_same: "docs w' = docs w \<Longrightarrow> touches i w w'"
  by (simp add: touches_def)

lemma touches_save:
  assumes "map_of (docs w) i = Some d" and "isActive d" and "docs w1 = docs w"
  shows "touches i w (save w1 i x)"
  using assms by (auto simp: touches_def save_def)

lemma wrappers_docs:
  "ledger_addDocument svc e w a b c = (ra, w1) \<Longrightarrow> docs w1 = docs w"
  "ledger_grantAccess svc e w a b c d = (rg, w2) \<Longrightarrow> docs w2 = docs w"
  "ledger_revokeAccess svc e w a b c = (rr, w3) \<Longrightarrow> docs w3 = docs w"
  "ledger_hasAccess svc w a b = (rh, w4) \<Longrightarrow> docs w4 = docs w"
  "ledger_getDocumentAccessors svc w a b = (rx, w5) \<Longrightarrow> docs w5 = docs w"
  "ledger_batchGrantAccess svc e w a b ts = (rb, w6) \<Longrightarrow> docs w6 = docs w"
  "ledger_removeDocument svc w a = (rd, w7) \<Longrightarrow> docs w7 = docs w"
  "blob_uploadFile svc e w buf enc = (ru, w8) \<Longrightarrow> docs w8 = docs w"
  "blob_downloadFile svc w a k = (rf, w9) \<Longrightarrow> docs w9 = docs w"
  "blob_unpinFile svc w a = (rp, w10) \<Longrightarrow> docs w10 = docs w"
  by (auto simp: ledger_addDocument_def ledger_grantAccess_def ledger_revokeAccess_def
        ledger_hasAccess_def ledger_getDocumentAccessors_def ledger_batchGrantAccess_def
        ledger_removeDocument_def blob_uploadFile_def blob_downloadFile_def blob_unpinFile_def
        split: prod.splits)

lemma findById_active:
  assumes "findById w i = Some d0" and "isActive d0"
  shows "\<exists>d. map_of (docs w) i = Some d \<and> isActive d"
  using assms by (auto simp: findById_def)

lemma grant_update_touches:
  assumes "map_of (docs w) i = Some d" and "isActive d" and "docs w1 = docs w"
  shows "touches i w (snd (grant_update e w1 i d0 t perms br))"
  using assms
  by (cases "shareWith d0 (u_id t) perms (now e)")
     (auto simp: grant_update_def touches_save touches_same)

lemma grant_touches: "touches i w (snd (grant svc e w u i email pf))"
proof (cases "validateDocumentOwnership w i (u_id u)")
  case (Inl msg)
  then show ?thesis
    by (simp add: grant_def Let_def touches_same)
next
  case (Inr d0)
  from validateDocumentOwnership_Inr [OF Inr] obtain d where
    d: "map_of (docs w) i = Some d" "isActive d" by blast
  show ?thesis
    unfolding grant_def Let_def Inr
    by (auto simp: touches_same touches_save [OF d] grant_update_touches [OF d]
          dest!: wrappers_docs(2)
          split: option.splits prod.splits sum.splits)
qed

lemma revoke_touches: "touches i w (snd (revoke svc e w u i target))"
proof (cases "validateDocumentOwnership w i (u_id u)")
  case (Inl msg)
  then show ?thesis
    by (simp add: revoke_def Let_def touches_same)
next
  case (Inr d0)
  from validateDocumentOwnership_Inr [OF Inr] obtain d where
    d: "map_of (docs w) i = Some d" "isActive d" by blast
  show ?thesis
    unfolding revoke_def Let_def Inr
    by (auto simp: touches_same touches_save [OF d]
          dest!: wrappers_docs(3)
          split: option.splits prod.splits sum.splits)
qed

lemma batch_grant_touches: "touches i w (snd (batch_grant svc e w u i emails pf))"
proof (cases "validateDocumentOwnership w i (u_id u)")
  case (Inl msg)
  then show ?thesis
    by (simp add: batch_grant_def Let_def touches_same)
next
  case (Inr d0)
  from validateDocumentOwnership_Inr [OF Inr] obtain d where
    d: "map_of (docs w) i = Some d" "isActive d" by blast
  show ?thesis
    unfolding batch_grant_def Let_def Inr
    by (auto simp: touches_same touches_save [OF d]
          dest!: wrappers_docs(6)
          split: option.splits prod.splits sum.splits)
qed

lemma access_check_touches: "touches i w (snd (access_check svc w u i))"
  unfolding access_check_def Let_def
  by (auto simp: touches_same dest!: wrappers_docs(4) split: option.splits prod.splits)

lemma sharing_info_touches: "touches i w (snd (sharing_info svc w u i))"
  unfolding sharing_info_def Let_def
  by (auto simp: touches_same dest!: wrappers_docs(5) split: option.splits prod.splits)

lemma get_document_touches: "touches i w (snd (get_document svc e w u i))"
proof (cases "validateDocumentAccess w i (u_id u)")
  case (Inl msg)
  then show ?thesis
    by (simp add: get_document_def Let_def touches_same)
next
  case (Inr d0)
  from validateDocumentAccess_Inr [OF Inr] obtain d where
    d: "map_of (docs w) i = Some d" "isActive d" by blast
  show ?thesis
    unfolding get_document_def Let_def Inr
    by (simp add: touches_save [OF d])
qed

lemma download_touches: "touches i w (snd (download svc e w u i))"
proof (cases "validateDocumentAccess w i (u_id u)")
  case (Inl msg)
  then show ?thesis
    by (simp add: download_def Let_def touches_same)
next
  case (Inr d0)
  from validateDocumentAccess_Inr [OF Inr] obtain d where
    d: "map_of (docs w) i = Some d" "isActive d" by blast
  show ?thesis
    unfolding download_def Let_def Inr
    by (auto simp: touches_same touches_save [OF d]
          dest!: wrappers_docs(4) wrappers_docs(9)
          split: prod.splits sum.splits)
qed

lemma delete_document_touches: "touches i w (snd (delete_document svc w u i))"
proof (cases "findById w i")
  case None
  then show ?thesis
    by (simp add: delete_document_def Let_def touches_same)
next
  case (Some d0)
  show ?thesis
  proof (cases "isActive d0")
    case False
    with Some show ?thesis
      by (simp add: delete_document_def Let_def touches_same)
  next
    case True
    from findById_active [OF Some True] obtain d where
      d: "map_of (docs w) i = Some d" "isActive d" by blast
    show ?thesis
      unfolding delete_document_def Let_def Some
      by (auto simp: touches_same touches_save [OF d]
            dest!: wrappers_docs(7) wrappers_docs(10)
            split: prod.splits)
  qed
qed

lemma update_document_touches: "touches i w (snd (update_document svc w u i t descr))"
proof (cases "findById w i")
  case None
  then show ?thesis
    by (simp add: update_document_def Let_def touches_same)
next
  case (Some d0)
  show ?thesis
  proof (cases "isActive d0")
    case False
    with Some show ?thesis
      by (simp add: update_document_def Let_def touches_same)
  next
    case True
    from findById_active [OF Some True] obtain d where
      d: "map_of (docs w) i = Some d" "isActive d" by blast
    show ?thesis
      unfolding update_document_def Let_def Some
      by (simp add: touches_same touches_save [OF d])
  qed
qed

lemma touches_keeps: "touches i w w' \<Longrightarrow> keeps_deleted w w'"
  by (auto simp: touches_def keeps_deleted_def update_conv')

lemma upload_keeps: "keeps_deleted w (snd (upload svc e w u file t descr enc))"
proof -
  have "docs (snd (upload svc e w u file t descr enc)) = docs w \<or>
        (\<exists>x. docs (snd (upload svc e w u file t descr enc)) = docs w @ [x])"
    unfolding upload_def Let_def
    by (auto simp: insert_document_def save_walletAddress_def
          dest!: wrappers_docs(1) wrappers_docs(8)
          split: option.splits prod.splits sum.splits if_splits)
  then show ?thesis
    by (auto simp: keeps_deleted_def)
qed

lemma handle_keeps: "keeps_deleted w (snd (handle svc w (e, u, r)))"
  by (cases r)
     (simp_all add: upload_keeps touches_keeps [OF grant_touches] touches_keeps [OF revoke_touches]
        touches_keeps [OF batch_grant_touches] touches_keeps [OF access_check_touches]
        touches_keeps [OF sharing_info_touches] touches_keeps [OF get_document_touches]
        touches_keeps [OF download_touches] touches_keeps [OF delete_document_touches]
        touches_keeps [OF update_document_touches] touches_keeps [OF touches_same])

lemma keeps_deleted_trans:
  "keeps_deleted w w1 \<Longrightarrow> keeps_deleted w1 w2 \<Longrightarrow> keeps_deleted w w2"
  by (simp add: keeps_deleted_def)

lemma run_keeps: "keeps_deleted w (run svc w reqs)"
  unfolding run_def
proof (induction reqs arbitrary: w)
  case Nil
  show ?case by (simp add: keeps_deleted_def)
next
  case (Cons r reqs)
  obtain e u q where r: "r = (e, u, q)" by (cases r)
  have "keeps_deleted w (snd (handle svc w r))"
    unfolding r by (rule handle_keeps)
  from keeps_deleted_trans [OF this Cons.IH] show ?case by simp
qed

lemma get_document_deleted:
  assumes "map_of (docs w) i = Some d" and "\<not> isActive d"
  shows "get_document svc e w u i = (json 404 ''Document not found'', w)"
  using assms
  by (simp add: get_document_def validateDocumentAccess_def findById_stored)

lemma download_deleted:
  assumes "map_of (docs w) i = Some d" and "\<not> isActive d"
  shows "download svc e w u i = (json 404 ''Document not found'', w)"
  using assms
  by (simp add: download_def download_catch_def validateDocumentAccess_def findById_stored)

lemma delete_by_owner:
  assumes "map_of (docs w) i = Some d" and "isActive d" and "owner d = u_id u"
  shows "delete_document svc w u i =
           (json 200 ''Document deleted successfully'',
            w\<lparr>ledger := snd (bs_contract_removeDocument (blockchainService svc) (ledger w)
                               (blockchainDocumentId d)),
              blobs := snd (fs_unpinFile (ipfsService svc) (blobs w) (ipfsHash d)),
              calls := calls w @ [LedgerRemoveDocument (blockchainDocumentId d),
                                  BlobUnpin (ipfsHash d)],
              docs := AList.update i (d\<lparr>isActive := False\<rparr>) (docs w)\<rparr>)"
  using assms
  by (simp add: delete_document_def findById_stored ledger_removeDocument_def
        blob_unpinFile_def save_def split: prod.splits)

text \<open>
  Claim C8. For a stored, active document: a delete by anyone but the owner is answered 403
  and changes nothing; a delete by the owner calls the ledger's \<open>removeDocument\<close> and the
  blob store's \<open>unpinFile\<close> and, whatever the two return or throw, answers 200 and stores
  the document with its active flag false. From then on, after any sequence of requests,
  the stored document is unchanged (its flag is still false) and a fetch or a download of
  it by any user is answered 404 \<open>Document not found\<close>. More generally, a run of
  requests leaves every inactive document as it is.
\<close>

theorem delete_is_terminal:
  assumes "map_of (docs w) documentId = Some d" and "isActive d"
  shows "(owner d \<noteq> u_id u \<longrightarrow>
            delete_document svc w u documentId = (json 403 ''Only document owner can delete'', w)) \<and>
         (owner d = u_id u \<longrightarrow>
            fst (delete_document svc w u documentId) = json 200 ''Document deleted successfully'' \<and>
            new_calls w (snd (delete_document svc w u documentId)) =
              [LedgerRemoveDocument (blockchainDocumentId d), BlobUnpin (ipfsHash d)] \<and>
            map_of (docs (run svc (snd (delete_document svc w u documentId)) reqs)) documentId =
              Some (d\<lparr>isActive := False\<rparr>) \<and>
            get_document svc e (run svc (snd (delete_document svc w u documentId)) reqs) u'
                documentId =
              (json 404 ''Document not found'',
               run svc (snd (delete_document svc w u documentId)) reqs) \<and>
            download svc e (run svc (snd (delete_document svc w u documentId)) reqs) u'
                documentId =
              (json 404 ''Document not found'',
               run svc (snd (delete_document svc w u documentId)) reqs)) \<and>
         (map_of (docs w0) j = Some d0 \<and> \<not> isActive d0 \<longrightarrow>
            map_of (docs (run svc w0 reqs)) j = Some d0)"
proof (intro conjI impI)
  assume "owner d \<noteq> u_id u"
  with assms show "delete_document svc w u documentId =
                     (json 403 ''Only document owner can delete'', w)"
    by (simp add: delete_document_def findById_stored)
next
  assume o: "owner d = u_id u"
  let ?w' = "snd (delete_document svc w u documentId)"
  note del = delete_by_owner [OF assms o, of svc]
  show "fst (delete_document svc w u documentId) = json 200 ''Document deleted successfully''"
    by (simp add: del)
  show "new_calls w ?w' = [LedgerRemoveDocument (blockchainDocumentId d), BlobUnpin (ipfsHash d)]"
    by (simp add: del new_calls_def)
  have gone: "map_of (docs ?w') documentId = Some (d\<lparr>isActive := False\<rparr>)"
    by (simp add: del update_conv')
  have off: "\<not> isActive (d\<lparr>isActive := False\<rparr>)" by simp
  from run_keeps [of ?w' svc reqs] gone off
  show still: "map_of (docs (run svc ?w' reqs)) documentId = Some (d\<lparr>isActive := False\<rparr>)"
    unfolding keeps_deleted_def by blast
  from get_document_deleted [OF still off]
  show "get_document svc e (run svc ?w' reqs) u' documentId =
          (json 404 ''Document not found'', run svc ?w' reqs)" .
  from download_deleted [OF still off]
  show "download svc e (run svc ?w' reqs) u' documentId =
          (json 404 ''Document not found'', run svc ?w' reqs)" .
next
  assume "map_of (docs w0) j = Some d0 \<and> \<not> isActive d0"
  with run_keeps [of w0 svc reqs]
  show "map_of (docs (run svc w0 reqs)) j = Some d0"
    unfolding keeps_deleted_def by blast
qed

theorem delete_is_terminal_witness:
  "delete_document all_offline_services offline_world bob ''d1'' =
     (json 403 ''Only document owner can delete'', offline_world) \<and>
   fst (delete_document all_offline_services offline_world alice ''d1'') =
     json 200 ''Document deleted successfully'' \<and>
   fst (bs_contract_removeDocument (blockchainService all_offline_services) () ''0xalice-Qmabc-7'') =
     Inl ''Cannot read properties of null (reading 'removeDocument')'' \<and>
   fst (fs_unpinFile (ipfsService all_offline_services) () ''Qmabc'') =
     Inl ''IPFS client not connected'' \<and>
   map_of (docs (run all_offline_services
                   (snd (delete_document all_offline_services offline_world alice ''d1''))
                   [(test_env, alice, UpdateReq ''d1'' ''new title'' None),
                    (test_env, alice, GrantReq ''d1'' ''carol@x.org'' None)])) ''d1'' =
     Some (report\<lparr>isActive := False\<rparr>) \<and>
   fst (get_document all_offline_services test_env
          (run all_offline_services
             (snd (delete_document all_offline_services offline_world alice ''d1''))
             [(test_env, alice, UpdateReq ''d1'' ''new title'' None),
              (test_env, alice, GrantReq ''d1'' ''carol@x.org'' None)])
          alice ''d1'') = json 404 ''Document not found'' \<and>
   fst (download all_offline_services test_env
          (run all_offline_services
             (snd (delete_document all_offline_services offline_world alice ''d1''))
             [(test_env, alice, UpdateReq ''d1'' ''new title'' None),
              (test_env, alice, GrantReq ''d1'' ''carol@x.org'' None)])
          alice ''d1'') = json 404 ''Document not found'' \<and>
   map_of (docs (run all_offline_services
                   (offline_world\<lparr>docs := [(''d1'', report\<lparr>isActive := False\<rparr>)]\<rparr>)
                   [(test_env, alice, DeleteReq ''d1''),
                    (test_env, alice, RevokeReq ''d1'' ''bob'')])) ''d1'' =
     Some (report\<lparr>isActive := False\<rparr>)"
proof -
  have h: "map_of (docs offline_world) ''d1'' = Some report" "isActive report"
    by (simp_all add: offline_world_def report_def)
  have o: "owner report \<noteq> u_id bob" "owner report = u_id alice"
    by (simp_all add: report_def bob_def alice_def)
  have a: "fst (bs_contract_removeDocument (blockchainService all_offline_services) ()
                  ''0xalice-Qmabc-7'') =
             Inl ''Cannot read properties of null (reading 'removeDocument')''"
          "fst (fs_unpinFile (ipfsService all_offline_services) () ''Qmabc'') =
             Inl ''IPFS client not connected''"
    by (simp_all add: all_offline_services_def offline_blockchain_service_def
          offline_ipfs_service_def)
  from delete_is_terminal [OF h, of bob all_offline_services, THEN conjunct1] o(1)
  have p1: "delete_document all_offline_services offline_world bob ''d1'' =
              (json 403 ''Only document owner can delete'', offline_world)"
    by blast
  from delete_is_terminal [OF h, of alice all_offline_services
      "[(test_env, alice, UpdateReq ''d1'' ''new title'' None),
        (test_env, alice, GrantReq ''d1'' ''carol@x.org'' None)]" test_env alice,
      THEN conjunct2, THEN conjunct1] o(2)
  have p2: "fst (delete_document all_offline_services offline_world alice ''d1'') =
              json 200 ''Document deleted successfully'' \<and>
            map_of (docs (run all_offline_services
                   (snd (delete_document all_offline_services offline_world alice ''d1''))
                   [(test_env, alice, UpdateReq ''d1'' ''new title'' None),
                    (test_env, alice, GrantReq ''d1'' ''carol@x.org'' None)])) ''d1'' =
              Some (report\<lparr>isActive := False\<rparr>) \<and>
            fst (get_document all_offline_services test_env
                   (run all_offline_services
                      (snd (delete_document all_offline_services offline_world alice ''d1''))
                      [(test_env, alice, UpdateReq ''d1'' ''new title'' None),
                       (test_env, alice, GrantReq ''d1'' ''carol@x.org'' None)])
                   alice ''d1'') = json 404 ''Document not found'' \<and>
            fst (download all_offline_services test_env
                   (run all_offline_services
                      (snd (delete_document all_offline_services offline_world alice ''d1''))
                      [(test_env, alice, UpdateReq ''d1'' ''new title'' None),
                       (test_env, alice, GrantReq ''d1'' ''carol@x.org'' None)])
                   alice ''d1'') = json 404 ''Document not found''"
    by simp
  have i: "map_of (docs (offline_world\<lparr>docs := [(''d1'', report\<lparr>isActive := False\<rparr>)]\<rparr>)) ''d1'' =
             Some (report\<lparr>isActive := False\<rparr>) \<and>
           \<not> isActive (report\<lparr>isActive := False\<rparr>)"
    by simp
  from delete_is_terminal [OF h, where svc = all_offline_services
      and ?w0.0 = "offline_world\<lparr>docs := [(''d1'', report\<lparr>isActive := False\<rparr>)]\<rparr>"
      and j = "''d1''" and ?d0.0 = "report\<lparr>isActive := False\<rparr>"
      and reqs = "[(test_env, alice, DeleteReq ''d1''), (test_env, alice, RevokeReq ''d1'' ''bob'')]",
      THEN conjunct2, THEN conjunct2, THEN mp, OF i]
  have p3: "map_of (docs (run all_offline_services
                   (offline_world\<lparr>docs := [(''d1'', report\<lparr>isActive := False\<rparr>)]\<rparr>)
                   [(test_env, alice, DeleteReq ''d1''),
                    (test_env, alice, RevokeReq ''d1'' ''bob'')])) ''d1'' =
              Some (report\<lparr>isActive := False\<rparr>)" .
  from p1 p2 p3 a show ?thesis
    by (intro conjI) (simp_all only: simp_thms)
qed


subsection \<open>Encryption of blobs\<close>

lemma decrypt_encrypt:
  assumes "gcm_cipher c (randomKey e) ''ipfs-document'' buf = (enc, tag)"
      and "length tag = 16"
      and "gcm_decipher c (randomKey e) ''ipfs-document'' tag enc = Some buf"
      and "base64_decode c (base64_encode c (randomKey e)) = randomKey e"
      and "length (randomIv e) = 16"
  shows "decryptBuffer c (encryptedBuffer (encryptBuffer c e buf)) (key (encryptBuffer c e buf))
           = Inr buf"
  using assms by (simp add: encryptBuffer_def decryptBuffer_def Let_def)

text \<open>
  Claim C9. \<open>encryptBuffer\<close> and \<open>decryptBuffer\<close> are the same in both blob store
  adapters. Given what Node's \<open>crypto\<close> promises of the AES-256-GCM cipher (deciphering a
  ciphertext with the key, the additional data and the 16-byte tag it was made with gives
  the plaintext back), of \<open>Buffer\<close>'s base64 codec (decoding the encoding of the key
  gives the key) and of \<open>randomBytes(16)\<close> (16 bytes): for every buffer, also the empty
  one, decrypting what \<open>encryptBuffer\<close> returned with the key it returned gives the
  buffer back. The key is the one just read from the random generator, returned in base64,
  and the IV just read is the first 16 bytes of the result. In the simulated blob store an
  encrypting upload returns that key and changes the adapter's state only by the stored
  file, which is the encrypted buffer; downloading it with the key gives the buffer back.
\<close>

theorem encrypt_decrypt_roundtrip:
  assumes "\<forall>k a p. length (snd (gcm_cipher c k a p)) = 16 \<and>
                   gcm_decipher c k a (snd (gcm_cipher c k a p)) (fst (gcm_cipher c k a p)) = Some p"
      and "base64_decode c (base64_encode c (randomKey e)) = randomKey e"
      and "length (randomIv e) = 16"
  shows "decryptBuffer c (encryptedBuffer (encryptBuffer c e buf)) (key (encryptBuffer c e buf))
           = Inr buf \<and>
         key (encryptBuffer c e buf) = base64_encode c (randomKey e) \<and>
         take 16 (encryptedBuffer (encryptBuffer c e buf)) = randomIv e \<and>
         (fs_isConnected fs \<longrightarrow>
            dev_uploadFile c e fs buf True =
              (Inr \<lparr>ur_ipfsHash = generateFakeIPFSHash c (encryptedBuffer (encryptBuffer c e buf)),
                    ur_size = length (encryptedBuffer (encryptBuffer c e buf)),
                    ur_encryptionKey = Some (key (encryptBuffer c e buf))\<rparr>,
               fs\<lparr>fs_files := (fs_files fs)
                    (generateFakeIPFSHash c (encryptedBuffer (encryptBuffer c e buf)) \<mapsto>
                       encryptedBuffer (encryptBuffer c e buf))\<rparr>) \<and>
            (key (encryptBuffer c e buf) \<noteq> [] \<longrightarrow>
               fst (dev_downloadFile c (snd (dev_uploadFile c e fs buf True))
                      (generateFakeIPFSHash c (encryptedBuffer (encryptBuffer c e buf)))
                      (Some (key (encryptBuffer c e buf)))) = Inr buf))"
proof -
  obtain enc tag where ct: "gcm_cipher c (randomKey e) ''ipfs-document'' buf = (enc, tag)"
    by (cases "gcm_cipher c (randomKey e) ''ipfs-document'' buf")
  from assms(1) have "length (snd (gcm_cipher c (randomKey e) ''ipfs-document'' buf)) = 16 \<and>
      gcm_decipher c (randomKey e) ''ipfs-document''
        (snd (gcm_cipher c (randomKey e) ''ipfs-document'' buf))
        (fst (gcm_cipher c (randomKey e) ''ipfs-document'' buf)) = Some buf"
    by blast
  with ct have tag: "length tag = 16"
    and dec: "gcm_decipher c (randomKey e) ''ipfs-document'' tag enc = Some buf"
    by simp_all
  note rt = decrypt_encrypt [OF ct tag dec assms(2,3)]
  have k: "key (encryptBuffer c e buf) = base64_encode c (randomKey e)"
    using ct by (simp add: encryptBuffer_def Let_def)
  have iv: "take 16 (encryptedBuffer (encryptBuffer c e buf)) = randomIv e"
    using ct assms(3) by (simp add: encryptBuffer_def Let_def)
  have up: "dev_uploadFile c e fs buf True =
              (Inr \<lparr>ur_ipfsHash = generateFakeIPFSHash c (encryptedBuffer (encryptBuffer c e buf)),
                    ur_size = length (encryptedBuffer (encryptBuffer c e buf)),
                    ur_encryptionKey = Some (key (encryptBuffer c e buf))\<rparr>,
               fs\<lparr>fs_files := (fs_files fs)
                    (generateFakeIPFSHash c (encryptedBuffer (encryptBuffer c e buf)) \<mapsto>
                       encryptedBuffer (encryptBuffer c e buf))\<rparr>)"
    if "fs_isConnected fs"
    using that by (simp add: dev_uploadFile_def Let_def)
  have down: "fst (dev_downloadFile c (snd (dev_uploadFile c e fs buf True))
                      (generateFakeIPFSHash c (encryptedBuffer (encryptBuffer c e buf)))
                      (Some (key (encryptBuffer c e buf)))) = Inr buf"
    if "fs_isConnected fs" and "key (encryptBuffer c e buf) \<noteq> []"
    using that rt
    by (simp add: up dev_downloadFile_def generateFakeIPFSHash_def falsy_def)
  from rt k iv up down show ?thesis by simp
qed

theorem encrypt_decrypt_roundtrip_witness:
  "decryptBuffer test_crypto (encryptedBuffer (encryptBuffer test_crypto test_env []))
     (key (encryptBuffer test_crypto test_env [])) = Inr [] \<and>
   decryptBuffer test_crypto (encryptedBuffer (encryptBuffer test_crypto test_env ''a''))
     (key (encryptBuffer test_crypto test_env ''a'')) = Inr ''a'' \<and>
   encryptedBuffer (encryptBuffer test_crypto test_env ''abc'') =
     replicate 16 CHR ''i'' @ replicate 16 CHR ''t'' @ ''cba'' \<and>
   fst (dev_downloadFile test_crypto
          (snd (dev_uploadFile test_crypto test_env DevIPFSService ''abc'' True))
          (generateFakeIPFSHash test_crypto (encryptedBuffer (encryptBuffer test_crypto test_env ''abc'')))
          (Some (key (encryptBuffer test_crypto test_env ''abc'')))) = Inr ''abc''"
proof -
  have h1: "\<forall>k a p. length (snd (gcm_cipher test_crypto k a p)) = 16 \<and>
              gcm_decipher test_crypto k a (snd (gcm_cipher test_crypto k a p))
                (fst (gcm_cipher test_crypto k a p)) = Some p"
    by (simp add: test_crypto_def)
  have h2: "base64_decode test_crypto (base64_encode test_crypto (randomKey test_env)) =
              randomKey test_env"
    by (simp add: test_crypto_def)
  have h3: "length (randomIv test_env) = 16"
    by (simp add: test_env_def)
  have c: "fs_isConnected DevIPFSService"
    by (simp add: DevIPFSService_def)
  have k: "key (encryptBuffer test_crypto test_env ''abc'') \<noteq> []"
    by (simp add: encryptBuffer_def test_crypto_def test_env_def Let_def)
  have enc: "encryptedBuffer (encryptBuffer test_crypto test_env ''abc'') =
     replicate 16 CHR ''i'' @ replicate 16 CHR ''t'' @ ''cba''"
    by (simp add: encryptBuffer_def test_crypto_def test_env_def Let_def)
  note r0 = encrypt_decrypt_roundtrip [OF h1 h2 h3, of "[]", THEN conjunct1]
  note r1 = encrypt_decrypt_roundtrip [OF h1 h2 h3, of "''a''", THEN conjunct1]
  from encrypt_decrypt_roundtrip [OF h1 h2 h3, of "''abc''" DevIPFSService] c k
  have r3: "fst (dev_downloadFile test_crypto
          (snd (dev_uploadFile test_crypto test_env DevIPFSService ''abc'' True))
          (generateFakeIPFSHash test_crypto (encryptedBuffer (encryptBuffer test_crypto test_env ''abc'')))
          (Some (key (encryptBuffer test_crypto test_env ''abc'')))) = Inr ''abc''"
    by blast
  from r0 r1 enc r3 show ?thesis by (intro conjI)
qed


end
